(* ===== verification/Prelude.thy ===== *)
theory Prelude
  imports Complex_Main "HOL-Library.Char_ord" "HOL-Library.List_Lexorder"
    "HOL-Library.Product_Lexorder" "HOL-Library.Sublist" "HOL-Library.Multiset"
begin

text \<open>
  Shared vocabulary of the IncluiMap development: the Python builtins the views call on
  strings (\<open>str.strip\<close>, \<open>str.split\<close>, \<open>str.join\<close>, \<open>str.lower\<close>, \<open>in\<close>,
  slicing), the SQL aggregate \<open>AVG\<close> and the case-insensitive \<open>icontains\<close> lookup of the
  ORM on SQLite, with the lemmas the component theories share.  Python strings are modelled as
  \<open>string\<close>, one \<open>char\<close> per code point; a \<open>char\<close> holds code points 0--255 (Latin-1),
  which covers every literal of the source but the star glyphs of \<open>stars.py\<close>, which get a
  datatype of their own.  Identifiers, timestamps and the named theorem collections are
  declared here too.
\<close>

named_theorems py_simps "evaluation rules of the Python string helpers"
named_theorems table_simps "rewrite rules of the table helpers of the database model"

type_synonym user_id = nat
type_synonym place_id = nat
type_synonym report_id = nat
type_synonym timestamp = nat

section \<open>Python strings\<close>

subsection \<open>Whitespace and \<open>str.strip\<close>\<close>

text \<open>
  \<open>str.isspace\<close> restricted to code points below 256: tab to carriage return,
  the four separators 0x1C--0x1F, space, NEL (0x85) and NBSP (0xA0).
\<close>

definition py_isspace :: "char \<Rightarrow> bool" where
  "py_isspace c \<longleftrightarrow>
     (let n = (of_char c :: nat)
      in (9 \<le> n \<and> n \<le> 13) \<or> (28 \<le> n \<and> n \<le> 32) \<or> n = 133 \<or> n = 160)"

definition py_lstrip :: "string \<Rightarrow> string" where
  "py_lstrip s = dropWhile py_isspace s"

definition py_rstrip :: "string \<Rightarrow> string" where
  "py_rstrip s = rev (dropWhile py_isspace (rev s))"

definition py_strip :: "string \<Rightarrow> string" where
  "py_strip s = py_rstrip (py_lstrip s)"

subsection \<open>\<open>str.split(sep)\<close> and \<open>sep.join\<close>\<close>

text \<open>
  \<open>s.split(c)\<close> with an explicit separator keeps empty fields:
  \<open>''.split(',') == ['']\<close> and \<open>'a,,b'.split(',') == ['a', '', 'b']\<close>.
\<close>

fun py_split :: "char \<Rightarrow> string \<Rightarrow> string list" where
  "py_split c [] = [[]]"
| "py_split c (x # xs) =
     (if x = c then [] # py_split c xs
      else (case py_split c xs of [] \<Rightarrow> [[x]] | w # ws \<Rightarrow> (x # w) # ws))"

fun py_join :: "string \<Rightarrow> string list \<Rightarrow> string" where
  "py_join sep [] = []"
| "py_join sep [w] = w"
| "py_join sep (w # v # ws) = w @ sep @ py_join sep (v # ws)"

subsection \<open>\<open>str.lower\<close>, \<open>in\<close> and \<open>icontains\<close>\<close>

text \<open>\<open>str.lower\<close> on Latin-1: A--Z and the capitals 192--222 (but 215, the multiplication sign) move up by 32.\<close>

definition py_lower_char :: "char \<Rightarrow> char" where
  "py_lower_char c =
     (let n = (of_char c :: nat)
      in if (65 \<le> n \<and> n \<le> 90) \<or> (192 \<le> n \<and> n \<le> 222 \<and> n \<noteq> 215)
         then char_of (n + 32) else c)"

definition py_lower :: "string \<Rightarrow> string" where
  "py_lower s = map py_lower_char s"

text \<open>Python's \<open>needle in haystack\<close> on strings, by scanning the start positions.\<close>

fun py_in :: "string \<Rightarrow> string \<Rightarrow> bool" where
  "py_in n [] = (n = [])"
| "py_in n (h # hs) = (prefix n (h # hs) \<or> py_in n hs)"

text \<open>
  The ORM lookup \<open>field__icontains=pat\<close> on SQLite: \<open>field LIKE '%pat%' ESCAPE '\'\<close>
  with the wildcards of \<open>pat\<close> escaped.  SQLite's \<open>LIKE\<close> ignores the case of the ASCII
  letters only: \<open>A\<close>--\<open>Z\<close> match \<open>a\<close>--\<open>z\<close>, every other character matches itself.
\<close>

definition sql_lower_char :: "char \<Rightarrow> char" where
  "sql_lower_char c =
     (let n = (of_char c :: nat) in if 65 \<le> n \<and> n \<le> 90 then char_of (n + 32) else c)"

definition icontains :: "string \<Rightarrow> string \<Rightarrow> bool" where
  "icontains field pat = py_in (map sql_lower_char pat) (map sql_lower_char field)"

text \<open>The f-string pattern \<open>f"'{s}'"\<close>: the text between single quotes.\<close>

definition py_quote :: "string \<Rightarrow> string" where
  "py_quote s = CHR 0x27 # s @ [CHR 0x27]"

subsection \<open>\<open>int(s)\<close>\<close>

text \<open>
  \<open>int(s)\<close> on a string: surrounding whitespace, an optional sign, then decimal digits,
  single underscores allowed between two digits (\<open>int('1_000') == 1000\<close>); \<open>None\<close>
  where Python raises \<open>ValueError\<close>.  Latin-1 has no decimal digits but 0--9.
\<close>

definition is_digit :: "char \<Rightarrow> bool" where
  "is_digit c \<longleftrightarrow> 48 \<le> (of_char c :: nat) \<and> (of_char c :: nat) \<le> 57"

fun digits_val :: "nat \<Rightarrow> string \<Rightarrow> nat" where
  "digits_val acc [] = acc"
| "digits_val acc (c # cs) = digits_val (10 * acc + (of_char c - 48)) cs"

fun no_double_us :: "string \<Rightarrow> bool" where
  "no_double_us (a # b # cs) = (\<not> (a = CHR ''_'' \<and> b = CHR ''_'') \<and> no_double_us (b # cs))"
| "no_double_us _ = True"

text \<open>The digits of an integer literal: \<open>[0-9](_?[0-9])*\<close>.\<close>

definition int_digits :: "string \<Rightarrow> bool" where
  "int_digits s \<longleftrightarrow>
     s \<noteq> [] \<and> is_digit (hd s) \<and> is_digit (last s) \<and>
     list_all (\<lambda>c. is_digit c \<or> c = CHR ''_'') s \<and> no_double_us s"

definition int_digits_val :: "string \<Rightarrow> nat" where
  "int_digits_val s = digits_val 0 (filter is_digit s)"

definition py_int :: "string \<Rightarrow> int option" where
  "py_int s =
     (case py_strip s of
        [] \<Rightarrow> None
      | c # cs \<Rightarrow>
          if c = CHR ''-'' \<and> int_digits cs then Some (- int (int_digits_val cs))
          else if c = CHR ''+'' \<and> int_digits cs then Some (int (int_digits_val cs))
          else if int_digits (c # cs) then Some (int (int_digits_val (c # cs)))
          else None)"

section \<open>SQL \<open>AVG\<close>\<close>

text \<open>
  \<open>Avg(...)\<close> over a group: \<open>NULL\<close> (\<open>None\<close>) for an empty group, the arithmetic mean
  otherwise.  The mean is kept exact (\<open>rat\<close>); the float the ORM returns is its rounding.
\<close>

definition sql_avg :: "int list \<Rightarrow> rat option" where
  "sql_avg xs = (if xs = [] then None else Some (of_int (sum_list xs) / of_nat (length xs)))"

section \<open>Lemmas on the string helpers\<close>

lemma py_lstrip_no_lead [py_simps]:
  "py_lstrip s \<noteq> [] \<Longrightarrow> \<not> py_isspace (hd (py_lstrip s))"
  unfolding py_lstrip_def by (induction s) auto

lemma py_strip_Nil_iff [py_simps]: "py_strip s = [] \<longleftrightarrow> (\<forall>c \<in> set s. py_isspace c)"
proof -
  have "dropWhile py_isspace (rev (dropWhile py_isspace s)) = [] \<longleftrightarrow>
        (\<forall>c \<in> set (dropWhile py_isspace s). py_isspace c)"
    by (simp add: dropWhile_eq_Nil_conv)
  also have "\<dots> \<longleftrightarrow> (\<forall>c \<in> set s. py_isspace c)"
    by (induction s) auto
  finally show ?thesis
    by (simp add: py_strip_def py_rstrip_def py_lstrip_def)
qed

lemma set_py_strip: "set (py_strip s) \<subseteq> set s"
  unfolding py_strip_def py_rstrip_def py_lstrip_def
  by (auto dest!: set_dropWhileD)

lemma py_strip_noop:
  assumes "s = [] \<or> (\<not> py_isspace (hd s) \<and> \<not> py_isspace (last s))"
  shows "py_strip s = s"
proof (cases s rule: rev_cases)
  case Nil
  then show ?thesis by (simp add: py_strip_def py_rstrip_def py_lstrip_def)
next
  case (snoc ys y)
  with assms have "\<not> py_isspace y" by simp
  moreover from assms snoc have "\<not> py_isspace (hd s)" by simp
  then have "dropWhile py_isspace s = s" by (cases s) auto
  ultimately show ?thesis using snoc
    by (simp add: py_strip_def py_rstrip_def py_lstrip_def)
qed

lemma py_split_not_Nil [py_simps]: "py_split c s \<noteq> []"
  by (induction s) (auto split: list.split)

lemma py_join_split [py_simps]: "py_join [c] (py_split c s) = s"
proof (induction s)
  case Nil
  then show ?case by simp
next
  case (Cons x xs)
  show ?case
  proof (cases "x = c")
    case True
    with Cons.IH show ?thesis
      using py_split_not_Nil [of c xs] by (cases "py_split c xs") auto
  next
    case False
    obtain w ws where ws: "py_split c xs = w # ws"
      using py_split_not_Nil [of c xs] by (cases "py_split c xs") auto
    with Cons.IH False show ?thesis by (cases ws) auto
  qed
qed

lemma py_split_no_sep: "c \<notin> set w \<Longrightarrow> py_split c w = [w]"
  by (induction w) auto

lemma py_split_append_sep:
  "c \<notin> set w \<Longrightarrow> py_split c (w @ c # s) = w # py_split c s"
  by (induction w) auto

lemma py_split_join [py_simps]:
  "ws \<noteq> [] \<Longrightarrow> \<forall>w \<in> set ws. c \<notin> set w \<Longrightarrow> py_split c (py_join [c] ws) = ws"
proof (induction ws)
  case Nil
  then show ?case by simp
next
  case (Cons w ws)
  show ?case
  proof (cases ws)
    case Nil
    with Cons.prems show ?thesis by (simp add: py_split_no_sep)
  next
    case (Cons v vs)
    with Cons.IH Cons.prems show ?thesis by (simp add: py_split_append_sep)
  qed
qed

lemma py_in_sublist [py_simps]: "py_in n h \<longleftrightarrow> sublist n h"
proof (induction h)
  case Nil
  then show ?case by simp
next
  case (Cons x xs)
  have "sublist n (x # xs) \<longleftrightarrow> prefix n (x # xs) \<or> sublist n xs"
    by (auto simp: sublist_Cons_right)
  with Cons.IH show ?case by simp
qed

lemma py_in_Nil [py_simps]: "py_in [] h"
  by (simp add: py_in_sublist)

lemma py_in_self [py_simps]: "py_in s s"
  by (simp add: py_in_sublist)

lemma py_lower_idem [py_simps]: "py_lower (py_lower s) = py_lower s"
  by (simp add: py_lower_def py_lower_char_def Let_def comp_def)

lemma icontains_refl [py_simps]: "icontains s s"
  by (simp add: icontains_def py_in_self)

lemma icontains_Nil [py_simps]: "icontains s []"
  by (simp add: icontains_def py_in_Nil)

section \<open>Lemmas on \<open>AVG\<close>\<close>

lemma sql_avg_None_iff [simp]: "sql_avg xs = None \<longleftrightarrow> xs = []"
  by (simp add: sql_avg_def)

lemma sql_avg_bounds:
  assumes "sql_avg xs = Some a" and "\<forall>x \<in> set xs. lo \<le> x \<and> x \<le> hi"
  shows "of_int lo \<le> a \<and> a \<le> of_int hi"
proof -
  from assms(1) have ne: "xs \<noteq> []" and a: "a = of_int (sum_list xs) / of_nat (length xs)"
    by (auto simp: sql_avg_def split: if_splits)
  have "of_nat (length xs) * lo \<le> sum_list xs" and "sum_list xs \<le> of_nat (length xs) * hi"
    using assms(2) by (induction xs) (auto simp: algebra_simps intro: add_mono)
  then have lo: "of_nat (length xs) * (of_int lo :: rat) \<le> of_int (sum_list xs)"
    and hi: "of_int (sum_list xs) \<le> of_nat (length xs) * (of_int hi :: rat)"
    by (metis of_int_le_iff of_int_mult of_int_of_nat_eq)+
  have pos: "(0 :: rat) < of_nat (length xs)" using ne by simp
  from lo hi pos show ?thesis
    by (simp add: a pos_le_divide_eq pos_divide_le_eq mult.commute)
qed

lemma sort_key_snoc_max:
  assumes "\<forall>y \<in> set xs. f y \<le> f x"
  shows "sort_key f (xs @ [x]) = sort_key f xs @ [x]"
proof (rule properties_for_sort_key)
  show "mset (sort_key f xs @ [x]) = mset (xs @ [x])" by simp
next
  fix k
  show "filter (\<lambda>y. f k = f y) (sort_key f xs @ [x]) = filter (\<lambda>y. f k = f y) (xs @ [x])"
    using sort_key_stable [of f "f k" xs] by (simp add: eq_commute [of "f k"])
next
  show "sorted (map f (sort_key f xs @ [x]))"
    using assms by (simp add: sorted_append)
qed

lemma py_split_join_pieces:
  assumes "\<forall>t \<in> set ts. t \<noteq> [] \<and> py_strip t = t \<and> CHR '','' \<notin> set t" and "ts \<noteq> []"
  shows "py_join '','' ts \<noteq> [] \<and> py_split CHR '','' (py_join '','' ts) = ts"
proof
  obtain t ts' where ts: "ts = t # ts'" using assms(2) by (cases ts) auto
  then show "py_join '','' ts \<noteq> []" using assms(1) by (cases ts') auto
next
  show "py_split CHR '','' (py_join '','' ts) = ts"
    using assms by (simp add: py_split_join)
qed

lemma sort_key_strict_mono:
  assumes "strict_mono g"
  shows "sort_key (\<lambda>x. g (f x)) xs = sort_key f xs"
proof (rule properties_for_sort_key)
  show "mset (sort_key f xs) = mset xs" by simp
next
  fix k
  have "(\<lambda>x. g (f k) = g (f x)) = (\<lambda>x. f k = f x)"
    using strict_mono_eq [OF assms] by auto
  then show "filter (\<lambda>x. g (f k) = g (f x)) (sort_key f xs) = filter (\<lambda>x. g (f k) = g (f x)) xs"
    using sort_key_stable [of f "f k" xs] by (simp add: eq_commute [of "f k"])
next
  have "sorted_wrt (\<lambda>x y. f x \<le> f y) (sort_key f xs)" using sorted_sort_key [of f xs] by (simp add: sorted_map)
  then have "sorted_wrt (\<lambda>x y. g (f x) \<le> g (f y)) (sort_key f xs)"
    by (rule sorted_wrt_mono_rel [rotated]) (simp add: monoD [OF strict_mono_mono [OF assms]])
  then show "sorted (map (\<lambda>x. g (f x)) (sort_key f xs))" by (simp add: sorted_map)
qed

lemma sorted_map_take_filter:
  "sorted (map h ys) \<Longrightarrow> sorted (map h (take n (filter Q ys)))"
  by (simp add: sorted_map sorted_wrt_take sorted_wrt_filter)

end
