(* ===== verification/Models.thy ===== *)
theory Models
  imports Prelude
begin

text \<open>
  The data model of \<open>src/core/models.py\<close>: one record per Django model (\<open>Profile\<close>,
  \<open>Place\<close>, \<open>Report\<close>, \<open>Notification\<close>, \<open>Comment\<close>; \<open>User\<close> is Django's
  \<open>auth.User\<close> with the fields the views read), the through table of the many-to-many
  relation \<open>Profile.favorite_places\<close>, and the database as a record of tables.  A table is a
  list of rows in insertion order, which is the order an unordered query returns here.
  Primary keys come from one counter \<open>next_pk\<close>: keys are unique and never reused, as the
  database sequences guarantee; their numeric values are not modelled.  Field names that
  two models share (\<open>place\<close>, \<open>author\<close>, \<open>user\<close>, \<open>tags\<close>, \<open>created_at\<close>) carry the
  model's name as prefix.  The views' answers (\<open>Http404\<close>, \<open>redirect\<close>, \<open>render\<close>) and the
  flash messages of \<open>django.contrib.messages\<close> are declared here, for every view theory;
  \<open>ServerError\<close> is an exception no view catches (a 500 answer), \<open>BadRequest\<close> a
  \<open>SuspiciousOperation\<close> (400).  \<open>Redirect t\<close> redirects to the URL \<open>t\<close>, or, when
  \<open>t\<close> names a route, to the path \<open>reverse\<close> builds for it (theory \<open>Urls\<close>).
\<close>

section \<open>Rows\<close>

record user =
  user_pk :: user_id
  username :: string
  email :: string
  first_name :: string
  last_name :: string

record profile =
  profile_pk :: nat
  profile_user :: user_id
  avatar :: "string option"
  bio :: string

text \<open>A row of the through table of \<open>Profile.favorite_places\<close>.\<close>

record favorite =
  fav_profile :: nat
  fav_place :: place_id

text \<open>
  A Python \<open>Decimal\<close>, finite: \<open>coeff \<times> 10 ^ exponent\<close>, the coefficient carrying the sign
  and the digit tuple of \<open>Decimal.as_tuple()\<close>.
\<close>

record decimal =
  coeff :: int
  exponent :: int

record place =
  place_pk :: place_id
  name :: string
  address :: string
  lat :: decimal
  lng :: decimal
  place_tags :: string
  place_created_at :: timestamp

record report =
  report_pk :: report_id
  report_place :: place_id
  report_author :: user_id
  description :: string
  rating :: int
  report_tags :: string
  photo :: "string option"
  report_created_at :: timestamp

record notification =
  notification_pk :: nat
  notification_user :: user_id
  notification_place :: "place_id option"
  notification_report :: "report_id option"
  message :: string
  notification_created_at :: timestamp
  is_read :: bool

record comment =
  comment_pk :: nat
  comment_report :: report_id
  comment_author :: user_id
  comment_text :: string
  comment_created_at :: timestamp

text \<open>A message the mail transport accepted (\<open>send_mail\<close>).\<close>

record mail =
  mail_subject :: string
  mail_body :: string
  mail_to :: string

section \<open>The database\<close>

record db =
  users :: "user list"
  profiles :: "profile list"
  favorites :: "favorite list"
  places :: "place list"
  reports :: "report list"
  notifications :: "notification list"
  comments :: "comment list"
  outbox :: "mail list"
  next_pk :: nat

definition empty_db :: db where
  "empty_db = \<lparr>users = [], profiles = [], favorites = [], places = [], reports = [],
     notifications = [], comments = [], outbox = [], next_pk = 1\<rparr>"

section \<open>Answers of the views\<close>

datatype level = Info | Success | Error

record flash =
  flash_level :: level
  flash_text :: string
  flash_tag :: string

datatype response = NotFound | Redirect string | Render string | ServerError | BadRequest

section \<open>Table helpers\<close>

text \<open>\<open>Model.objects.get(pk=k)\<close> and \<open>get_object_or_404\<close>: the row, or \<open>None\<close>.\<close>

definition get_place :: "db \<Rightarrow> place_id \<Rightarrow> place option" where
  "get_place d k = find (\<lambda>p. place_pk p = k) (places d)"

definition get_report :: "db \<Rightarrow> report_id \<Rightarrow> report option" where
  "get_report d k = find (\<lambda>r. report_pk r = k) (reports d)"

definition get_user :: "db \<Rightarrow> user_id \<Rightarrow> user option" where
  "get_user d k = find (\<lambda>u. user_pk u = k) (users d)"

text \<open>\<open>Profile.objects.get(user=u)\<close>, through the one-to-one field.\<close>

definition profile_of :: "db \<Rightarrow> user_id \<Rightarrow> profile option" where
  "profile_of d u = find (\<lambda>p. profile_user p = u) (profiles d)"

lemma find_Some_mem [table_simps]: "find P xs = Some x \<Longrightarrow> x \<in> set xs \<and> P x"
  by (auto simp: find_Some_iff)

lemma find_None_not [table_simps]: "find P xs = None \<longleftrightarrow> (\<forall>x \<in> set xs. \<not> P x)"
  by (auto simp: find_None_iff)

lemma find_unique_key:
  "distinct (map key xs) \<Longrightarrow> x \<in> set xs \<Longrightarrow> find (\<lambda>y. key y = key x) xs = Some x"
  by (induction xs) auto

lemmas get_defs = get_place_def get_report_def get_user_def profile_of_def

end
