(* ===== verification/Urls.thy ===== *)
theory Urls
  imports Models
begin

text \<open>
  The URL configuration \<open>src/config/urls.py\<close>.  Each \<open>path(route, view, name=...)\<close>
  is a pattern: literal text and the converters \<open><int:...>\<close> (the regular expression
  \<open>[0-9]+\<close>, then \<open>int()\<close>) and \<open><...>\<close> (\<open>str\<close>: \<open>[^/]+\<close>), matched against the
  whole path without its leading slash; \<open>admin/\<close> is an \<open>include\<close> and matches every path
  that starts with it.  \<open>resolve\<close> tries the patterns in order and answers the first that
  matches; in every pattern a converter is followed by a slash, so the longest run the
  converter's class allows is the run the regular expression takes.  \<open>reverse\<close> builds the
  path of a name from its arguments (\<open>str()\<close> of an integer, a string as it is) and, as
  Django does, refuses a path the pattern would not match; for a name given twice Django
  takes the last pattern.  The \<open>static()\<close> patterns added when \<open>DEBUG\<close> is on depend on
  the settings and are not modelled; an integer argument is a natural number (Django
  refuses a negative one, whose \<open>str()\<close> does not match \<open>[0-9]+\<close>).
  \<open>django_redirect\<close> is \<open>redirect(to)\<close> of a string, which the views call.
\<close>

datatype url_piece = Lit string | IntConv | StrConv

datatype url_arg = AInt nat | AStr string

record url_pattern =
  up_pieces :: "url_piece list"
  up_name :: string
  up_include :: bool

text \<open>\<open>str(n)\<close> of a natural number.\<close>

function py_str_nat :: "nat \<Rightarrow> string" where
  "py_str_nat n =
     (if n < 10 then [char_of (48 + n)] else py_str_nat (n div 10) @ [char_of (48 + n mod 10)])"
  by auto
termination by (relation "measure id") auto

fun match_pieces :: "url_piece list \<Rightarrow> bool \<Rightarrow> string \<Rightarrow> url_arg list option" where
  "match_pieces [] inc s = (if s = [] \<or> inc then Some [] else None)"
| "match_pieces (Lit l # ps) inc s = (if prefix l s then match_pieces ps inc (drop (length l) s) else None)"
| "match_pieces (IntConv # ps) inc s =
     (let ds = takeWhile is_digit s
      in if ds = [] then None
         else map_option (Cons (AInt (digits_val 0 ds))) (match_pieces ps inc (drop (length ds) s)))"
| "match_pieces (StrConv # ps) inc s =
     (let w = takeWhile (\<lambda>c. c \<noteq> CHR ''/'') s
      in if w = [] then None
         else map_option (Cons (AStr w)) (match_pieces ps inc (drop (length w) s)))"

fun resolve :: "url_pattern list \<Rightarrow> string \<Rightarrow> (string \<times> url_arg list) option" where
  "resolve [] s = None"
| "resolve (p # ps) s =
     (case match_pieces (up_pieces p) (up_include p) s of
        Some args \<Rightarrow> Some (up_name p, args)
      | None \<Rightarrow> resolve ps s)"

fun render_pieces :: "url_piece list \<Rightarrow> url_arg list \<Rightarrow> string option" where
  "render_pieces [] [] = Some []"
| "render_pieces (Lit l # ps) args = map_option ((@) l) (render_pieces ps args)"
| "render_pieces (IntConv # ps) (AInt n # args) = map_option ((@) (py_str_nat n)) (render_pieces ps args)"
| "render_pieces (StrConv # ps) (AStr w # args) =
     (if w = [] \<or> CHR ''/'' \<in> set w then None else map_option ((@) w) (render_pieces ps args))"
| "render_pieces _ _ = None"

text \<open>\<open>reverse(name, args=...)\<close>: the patterns of the name, the last first.\<close>

fun reverse_in :: "url_pattern list \<Rightarrow> url_arg list \<Rightarrow> string option" where
  "reverse_in [] args = None"
| "reverse_in (p # ps) args =
     (case render_pieces (up_pieces p) args of Some s \<Rightarrow> Some s | None \<Rightarrow> reverse_in ps args)"

definition reverse :: "url_pattern list \<Rightarrow> string \<Rightarrow> url_arg list \<Rightarrow> string option" where
  "reverse pats nm args = reverse_in (rev (filter (\<lambda>p. up_name p = nm \<and> \<not> up_include p) pats)) args"

definition route :: "url_piece list \<Rightarrow> string \<Rightarrow> url_pattern" where
  "route ps nm = \<lparr>up_pieces = ps, up_name = nm, up_include = False\<rparr>"

definition urlpatterns :: "url_pattern list" where
  "urlpatterns =
     [\<lparr>up_pieces = [Lit ''admin/''], up_name = ''admin'', up_include = True\<rparr>,
      route [] ''home'',
      route [Lit ''lugares/''] ''places'',
      route [Lit ''reportar/''] ''report'',
      route [Lit ''reportes/''] ''reports'',
      route [Lit ''reportes/mios/''] ''my_reports'',
      route [Lit ''reportes/'', IntConv, Lit ''/''] ''report_detail'',
      route [Lit ''reportes/'', IntConv, Lit ''/editar/''] ''report_edit'',
      route [Lit ''reportes/'', IntConv, Lit ''/eliminar/''] ''report_delete'',
      route [Lit ''acerca/''] ''about'',
      route [Lit ''contacto/''] ''contact'',
      route [Lit ''favoritos/''] ''favorites'',
      route [Lit ''lugares/'', IntConv, Lit ''/favorito/''] ''toggle_favorite_place'',
      route [Lit ''perfil/''] ''profile'',
      route [Lit ''notificaciones/''] ''notifications'',
      route [Lit ''dashboard/''] ''dashboard'',
      route [Lit ''accounts/login/''] ''login'',
      route [Lit ''accounts/logout/''] ''logout'',
      route [Lit ''accounts/signup/''] ''signup'',
      route [Lit ''accounts/password_reset/''] ''password_reset'',
      route [Lit ''accounts/password_reset/done/''] ''password_reset_done'',
      route [Lit ''accounts/reset/'', StrConv, Lit ''/'', StrConv, Lit ''/''] ''password_reset_confirm'',
      route [Lit ''accounts/reset/done/''] ''password_reset_complete'',
      route [Lit ''api/places/''] ''places_api'']"

section \<open>\<open>redirect(to)\<close>\<close>

text \<open>
  The admin site's URLs are the \<open>admin\<close> namespace of the include \<open>admin/\<close>.  The
  names \<open>reverse\<close> can build without arguments are those of \<open>AdminSite.get_urls\<close> and
  the change list and add form of each registered model: \<open>Place\<close> and \<open>Report\<close>
  (\<open>src/core/admin.py\<close>) and the \<open>User\<close> and \<open>Group\<close> admins of
  \<open>django.contrib.auth\<close>.
\<close>

definition admin_url_names :: "(string \<times> string) list" where
  "admin_url_names =
     [(''index'', []), (''login'', ''login/''), (''logout'', ''logout/''),
      (''password_change'', ''password_change/''), (''password_change_done'', ''password_change/done/''),
      (''autocomplete'', ''autocomplete/''), (''jsi18n'', ''jsi18n/''),
      (''core_place_changelist'', ''core/place/''), (''core_place_add'', ''core/place/add/''),
      (''core_report_changelist'', ''core/report/''), (''core_report_add'', ''core/report/add/''),
      (''auth_user_changelist'', ''auth/user/''), (''auth_user_add'', ''auth/user/add/''),
      (''auth_group_changelist'', ''auth/group/''), (''auth_group_add'', ''auth/group/add/'')]"

text \<open>\<open>reverse(to)\<close> with no arguments: a name of \<open>urlpatterns\<close> or \<open>admin:\<close> and an admin name.\<close>

definition reverse_name :: "string \<Rightarrow> string option" where
  "reverse_name to =
     (if prefix ''admin:'' to then map_option ((@) ''admin/'') (map_of admin_url_names (drop 6 to))
      else reverse urlpatterns to [])"

text \<open>
  \<open>urlsplit(url).scheme\<close> (Python 3.12): leading C0 controls and spaces are dropped, tab,
  carriage return and line feed removed; the text before the first colon is the scheme
  when it starts with an ASCII letter and holds only letters, digits, \<open>+\<close>, \<open>-\<close> and
  \<open>.\<close>, lower-cased.
\<close>

definition ascii_alpha :: "char \<Rightarrow> bool" where
  "ascii_alpha c \<longleftrightarrow> (let n = (of_char c :: nat) in (65 \<le> n \<and> n \<le> 90) \<or> (97 \<le> n \<and> n \<le> 122))"

definition scheme_char :: "char \<Rightarrow> bool" where
  "scheme_char c \<longleftrightarrow> ascii_alpha c \<or> is_digit c \<or> c \<in> {CHR ''+'', CHR ''-'', CHR ''.''}"

definition url_scheme :: "string \<Rightarrow> string" where
  "url_scheme url =
     (let u = filter (\<lambda>c. c \<notin> {CHR 0x09, CHR 0x0D, CHR 0x0A}) (dropWhile (\<lambda>c. of_char c \<le> (32::nat)) url);
          s = takeWhile (\<lambda>c. c \<noteq> CHR '':'') u
      in if CHR '':'' \<in> set u \<and> s \<noteq> [] \<and> ascii_alpha (hd s) \<and> list_all scheme_char s
         then py_lower s else [])"

text \<open>
  \<open>django.shortcuts.redirect(to)\<close>: \<open>resolve_url\<close> answers the path of \<open>to\<close> when it
  names a route; otherwise \<open>NoReverseMatch\<close> propagates (a 500 answer) unless \<open>to\<close>
  holds a slash or a dot, and is then taken as the URL (\<open>./x\<close> and \<open>../x\<close>, which
  \<open>resolve_url\<close> returns before reversing, never name a route).
  \<open>HttpResponseRedirect\<close> raises \<open>DisallowedRedirect\<close>, a \<open>SuspiciousOperation\<close>
  answered 400, for a URL longer than 2048 characters (Django 4.2.26 and 5.2.8 on) or
  whose scheme is not \<open>http\<close>, \<open>https\<close> or \<open>ftp\<close>.  A route name stays the target of
  \<open>Redirect\<close>, as in the views that redirect to a fixed name.
\<close>

definition django_redirect :: "string \<Rightarrow> response" where
  "django_redirect to =
     (if reverse_name to \<noteq> None then Redirect to
      else if CHR ''/'' \<notin> set to \<and> CHR ''.'' \<notin> set to then ServerError
      else if 2048 < length to then BadRequest
      else if url_scheme to \<notin> {[], ''http'', ''https'', ''ftp''} then BadRequest
      else Redirect to)"

section \<open>Lemmas\<close>

declare py_str_nat.simps [simp del]

lemma py_str_nat_digits: "py_str_nat n \<noteq> [] \<and> list_all is_digit (py_str_nat n)"
proof (induction n rule: py_str_nat.induct)
  case (1 n)
  then show ?case
    unfolding py_str_nat.simps [of n] by (auto simp: is_digit_def)
qed

lemma digits_val_append: "digits_val a (xs @ ys) = digits_val (digits_val a xs) ys"
  by (induction a xs rule: digits_val.induct) simp_all

lemma digits_val_py_str_nat: "digits_val 0 (py_str_nat n) = n"
proof (induction n rule: py_str_nat.induct)
  case (1 n)
  show ?case
  proof (cases "n < 10")
    case True
    then show ?thesis unfolding py_str_nat.simps [of n] by simp
  next
    case False
    with "1.IH" have "digits_val 0 (py_str_nat (n div 10)) = n div 10" by simp
    with False show ?thesis unfolding py_str_nat.simps [of n] by (simp add: digits_val_append)
  qed
qed


lemma py_str_nat_not_Nil [simp]: "py_str_nat n \<noteq> []"
  using py_str_nat_digits by blast

lemma takeWhile_no_slash [simp]:
  "CHR ''/'' \<notin> set u \<Longrightarrow> takeWhile (\<lambda>c. c \<noteq> CHR ''/'') (u @ CHR ''/'' # cs) = u"
  by (induction u) auto

lemma py_str_nat_split:
  obtains c cs where "py_str_nat n = c # cs" "is_digit c"
    "\<And>r. takeWhile is_digit (c # cs @ CHR ''/'' # r) = c # cs" "digits_val 0 (c # cs) = n"
proof -
  obtain c cs where e: "py_str_nat n = c # cs" using py_str_nat_not_Nil [of n] by (cases "py_str_nat n") auto
  with py_str_nat_digits [of n] have d: "is_digit c" "list_all is_digit cs" by auto
  then have "takeWhile is_digit (c # cs @ CHR ''/'' # r) = c # cs" for r
    by (simp add: takeWhile_append2 list_all_iff is_digit_def)
  moreover have "digits_val 0 (c # cs) = n" using digits_val_py_str_nat [of n] e by simp
  ultimately show ?thesis using that e d by blast
qed

lemma render_pieces_Nil [simp]: "render_pieces [] args = (if args = [] then Some [] else None)"
  by (cases args) auto

lemma render_IntConv_Some:
  "render_pieces (IntConv # ps) args = Some s \<longleftrightarrow>
     (\<exists>n rest t. args = AInt n # rest \<and> render_pieces ps rest = Some t \<and> s = py_str_nat n @ t)"
proof (cases args)
  case (Cons x rest)
  then show ?thesis by (cases x) auto
qed simp

lemma render_StrConv_Some:
  "render_pieces (StrConv # ps) args = Some s \<longleftrightarrow>
     (\<exists>w rest t. args = AStr w # rest \<and> w \<noteq> [] \<and> CHR ''/'' \<notin> set w \<and> render_pieces ps rest = Some t \<and> s = w @ t)"
proof (cases args)
  case (Cons x rest)
  then show ?thesis by (cases x) auto
qed simp

lemma resolve_render:
  assumes "pt \<in> set urlpatterns" and "\<not> up_include pt" and "render_pieces (up_pieces pt) args = Some s"
  shows "resolve urlpatterns s = Some (up_name pt, args)"
proof -
  have "pt \<in> set (tl urlpatterns)"
    using assms(1,2) by (auto simp: urlpatterns_def)
  then have
    "pt = route [] ''home'' \<or>
     pt = route [Lit ''lugares/''] ''places'' \<or>
     pt = route [Lit ''reportar/''] ''report'' \<or>
     pt = route [Lit ''reportes/''] ''reports'' \<or>
     pt = route [Lit ''reportes/mios/''] ''my_reports'' \<or>
     pt = route [Lit ''reportes/'', IntConv, Lit ''/''] ''report_detail'' \<or>
     pt = route [Lit ''reportes/'', IntConv, Lit ''/editar/''] ''report_edit'' \<or>
     pt = route [Lit ''reportes/'', IntConv, Lit ''/eliminar/''] ''report_delete'' \<or>
     pt = route [Lit ''acerca/''] ''about'' \<or>
     pt = route [Lit ''contacto/''] ''contact'' \<or>
     pt = route [Lit ''favoritos/''] ''favorites'' \<or>
     pt = route [Lit ''lugares/'', IntConv, Lit ''/favorito/''] ''toggle_favorite_place'' \<or>
     pt = route [Lit ''perfil/''] ''profile'' \<or>
     pt = route [Lit ''notificaciones/''] ''notifications'' \<or>
     pt = route [Lit ''dashboard/''] ''dashboard'' \<or>
     pt = route [Lit ''accounts/login/''] ''login'' \<or>
     pt = route [Lit ''accounts/logout/''] ''logout'' \<or>
     pt = route [Lit ''accounts/signup/''] ''signup'' \<or>
     pt = route [Lit ''accounts/password_reset/''] ''password_reset'' \<or>
     pt = route [Lit ''accounts/password_reset/done/''] ''password_reset_done'' \<or>
     pt = route [Lit ''accounts/reset/'', StrConv, Lit ''/'', StrConv, Lit ''/''] ''password_reset_confirm'' \<or>
     pt = route [Lit ''accounts/reset/done/''] ''password_reset_complete'' \<or>
     pt = route [Lit ''api/places/''] ''places_api''"
    by (simp only: urlpatterns_def list.sel set_simps insert_iff empty_iff simp_thms)
  then show ?thesis
  proof (elim disjE)
    assume pt: "pt = route [] ''home''"
    with assms(3) have "args = []" "s = ''''" by (auto simp: route_def split: if_splits)
    with pt show ?thesis by (simp add: urlpatterns_def route_def)
  next
    assume pt: "pt = route [Lit ''lugares/''] ''places''"
    with assms(3) have "args = []" "s = ''lugares/''" by (auto simp: route_def split: if_splits)
    with pt show ?thesis by (simp add: urlpatterns_def route_def)
  next
    assume pt: "pt = route [Lit ''reportar/''] ''report''"
    with assms(3) have "args = []" "s = ''reportar/''" by (auto simp: route_def split: if_splits)
    with pt show ?thesis by (simp add: urlpatterns_def route_def)
  next
    assume pt: "pt = route [Lit ''reportes/''] ''reports''"
    with assms(3) have "args = []" "s = ''reportes/''" by (auto simp: route_def split: if_splits)
    with pt show ?thesis by (simp add: urlpatterns_def route_def)
  next
    assume pt: "pt = route [Lit ''reportes/mios/''] ''my_reports''"
    with assms(3) have "args = []" "s = ''reportes/mios/''" by (auto simp: route_def split: if_splits)
    with pt show ?thesis by (simp add: urlpatterns_def route_def)
  next
    assume pt: "pt = route [Lit ''reportes/'', IntConv, Lit ''/''] ''report_detail''"
    with assms(3) obtain n where "args = [AInt n]" "s = ''reportes/'' @ py_str_nat n @ ''/''"
      by (auto simp: route_def render_IntConv_Some split: if_splits)
    moreover obtain c cs where "py_str_nat n = c # cs" "is_digit c"
      "\<And>r. takeWhile is_digit (c # cs @ CHR ''/'' # r) = c # cs" "digits_val 0 (c # cs) = n"
      by (rule py_str_nat_split [of n]) blast+
    ultimately show ?thesis using pt by (auto simp: urlpatterns_def route_def is_digit_def)
  next
    assume pt: "pt = route [Lit ''reportes/'', IntConv, Lit ''/editar/''] ''report_edit''"
    with assms(3) obtain n where "args = [AInt n]" "s = ''reportes/'' @ py_str_nat n @ ''/editar/''"
      by (auto simp: route_def render_IntConv_Some split: if_splits)
    moreover obtain c cs where "py_str_nat n = c # cs" "is_digit c"
      "\<And>r. takeWhile is_digit (c # cs @ CHR ''/'' # r) = c # cs" "digits_val 0 (c # cs) = n"
      by (rule py_str_nat_split [of n]) blast+
    ultimately show ?thesis using pt by (auto simp: urlpatterns_def route_def is_digit_def)
  next
    assume pt: "pt = route [Lit ''reportes/'', IntConv, Lit ''/eliminar/''] ''report_delete''"
    with assms(3) obtain n where "args = [AInt n]" "s = ''reportes/'' @ py_str_nat n @ ''/eliminar/''"
      by (auto simp: route_def render_IntConv_Some split: if_splits)
    moreover obtain c cs where "py_str_nat n = c # cs" "is_digit c"
      "\<And>r. takeWhile is_digit (c # cs @ CHR ''/'' # r) = c # cs" "digits_val 0 (c # cs) = n"
      by (rule py_str_nat_split [of n]) blast+
    ultimately show ?thesis using pt by (auto simp: urlpatterns_def route_def is_digit_def)
  next
    assume pt: "pt = route [Lit ''acerca/''] ''about''"
    with assms(3) have "args = []" "s = ''acerca/''" by (auto simp: route_def split: if_splits)
    with pt show ?thesis by (simp add: urlpatterns_def route_def)
  next
    assume pt: "pt = route [Lit ''contacto/''] ''contact''"
    with assms(3) have "args = []" "s = ''contacto/''" by (auto simp: route_def split: if_splits)
    with pt show ?thesis by (simp add: urlpatterns_def route_def)
  next
    assume pt: "pt = route [Lit ''favoritos/''] ''favorites''"
    with assms(3) have "args = []" "s = ''favoritos/''" by (auto simp: route_def split: if_splits)
    with pt show ?thesis by (simp add: urlpatterns_def route_def)
  next
    assume pt: "pt = route [Lit ''lugares/'', IntConv, Lit ''/favorito/''] ''toggle_favorite_place''"
    with assms(3) obtain n where "args = [AInt n]" "s = ''lugares/'' @ py_str_nat n @ ''/favorito/''"
      by (auto simp: route_def render_IntConv_Some split: if_splits)
    moreover obtain c cs where "py_str_nat n = c # cs" "is_digit c"
      "\<And>r. takeWhile is_digit (c # cs @ CHR ''/'' # r) = c # cs" "digits_val 0 (c # cs) = n"
      by (rule py_str_nat_split [of n]) blast+
    ultimately show ?thesis using pt by (auto simp: urlpatterns_def route_def is_digit_def)
  next
    assume pt: "pt = route [Lit ''perfil/''] ''profile''"
    with assms(3) have "args = []" "s = ''perfil/''" by (auto simp: route_def split: if_splits)
    with pt show ?thesis by (simp add: urlpatterns_def route_def)
  next
    assume pt: "pt = route [Lit ''notificaciones/''] ''notifications''"
    with assms(3) have "args = []" "s = ''notificaciones/''" by (auto simp: route_def split: if_splits)
    with pt show ?thesis by (simp add: urlpatterns_def route_def)
  next
    assume pt: "pt = route [Lit ''dashboard/''] ''dashboard''"
    with assms(3) have "args = []" "s = ''dashboard/''" by (auto simp: route_def split: if_splits)
    with pt show ?thesis by (simp add: urlpatterns_def route_def)
  next
    assume pt: "pt = route [Lit ''accounts/login/''] ''login''"
    with assms(3) have "args = []" "s = ''accounts/login/''" by (auto simp: route_def split: if_splits)
    with pt show ?thesis by (simp add: urlpatterns_def route_def)
  next
    assume pt: "pt = route [Lit ''accounts/logout/''] ''logout''"
    with assms(3) have "args = []" "s = ''accounts/logout/''" by (auto simp: route_def split: if_splits)
    with pt show ?thesis by (simp add: urlpatterns_def route_def)
  next
    assume pt: "pt = route [Lit ''accounts/signup/''] ''signup''"
    with assms(3) have "args = []" "s = ''accounts/signup/''" by (auto simp: route_def split: if_splits)
    with pt show ?thesis by (simp add: urlpatterns_def route_def)
  next
    assume pt: "pt = route [Lit ''accounts/password_reset/''] ''password_reset''"
    with assms(3) have "args = []" "s = ''accounts/password_reset/''" by (auto simp: route_def split: if_splits)
    with pt show ?thesis by (simp add: urlpatterns_def route_def)
  next
    assume pt: "pt = route [Lit ''accounts/password_reset/done/''] ''password_reset_done''"
    with assms(3) have "args = []" "s = ''accounts/password_reset/done/''" by (auto simp: route_def split: if_splits)
    with pt show ?thesis by (simp add: urlpatterns_def route_def)
  next
    assume pt: "pt = route [Lit ''accounts/reset/'', StrConv, Lit ''/'', StrConv, Lit ''/''] ''password_reset_confirm''"
    with assms(3) obtain u t where "args = [AStr u, AStr t]" "u \<noteq> []" "t \<noteq> []"
      "CHR ''/'' \<notin> set u" "CHR ''/'' \<notin> set t" "s = ''accounts/reset/'' @ u @ ''/'' @ t @ ''/''"
      by (auto simp: route_def render_StrConv_Some split: if_splits)
    with pt show ?thesis by (simp add: urlpatterns_def route_def)
  next
    assume pt: "pt = route [Lit ''accounts/reset/done/''] ''password_reset_complete''"
    with assms(3) have "args = []" "s = ''accounts/reset/done/''" by (auto simp: route_def split: if_splits)
    with pt show ?thesis by (simp add: urlpatterns_def route_def)
  next
    assume pt: "pt = route [Lit ''api/places/''] ''places_api''"
    with assms(3) have "args = []" "s = ''api/places/''" by (auto simp: route_def split: if_splits)
    with pt show ?thesis by (simp add: urlpatterns_def route_def)
  qed
qed

lemma reverse_in_Some:
  "reverse_in ps args = Some s \<Longrightarrow> \<exists>p \<in> set ps. render_pieces (up_pieces p) args = Some s"
  by (induction ps) (auto split: option.splits)

lemma reverse_unknown: "nm \<notin> up_name ` set pats \<Longrightarrow> reverse pats nm args = None"
proof -
  assume "nm \<notin> up_name ` set pats"
  then have "filter (\<lambda>p. up_name p = nm \<and> \<not> up_include p) pats = []"
    by (auto simp: filter_empty_conv)
  then show ?thesis by (simp add: reverse_def)
qed

lemma reverse_name_slash:
  assumes "CHR ''/'' \<in> set to" and "\<not> prefix ''admin:'' to"
  shows "reverse_name to = None"
proof -
  have "to \<notin> up_name ` set urlpatterns"
    using assms(1) by (auto simp: urlpatterns_def route_def)
  with assms(2) show ?thesis by (simp add: reverse_name_def reverse_unknown)
qed

section \<open>Reversing and resolving\<close>

text \<open>
  C35. A path built by \<open>reverse\<close> (the \<open>{% url %}\<close> tag and \<open>redirect(name, ...)\<close>)
  resolves to the name it was built from, with the same arguments: no earlier pattern of
  \<open>urlpatterns\<close> captures it.
\<close>

theorem resolve_reverse:
  assumes "reverse urlpatterns nm args = Some s"
  shows "resolve urlpatterns s = Some (nm, args)"
proof -
  from reverse_in_Some [OF assms [unfolded reverse_def]]
  obtain pt where "pt \<in> set urlpatterns" "up_name pt = nm" "\<not> up_include pt"
    "render_pieces (up_pieces pt) args = Some s" by auto
  then show ?thesis using resolve_render by metis
qed

theorem resolve_reverse_witness:
  "reverse urlpatterns ''report_edit'' [AInt 42] = Some ''reportes/42/editar/'' \<and>
   resolve urlpatterns ''reportes/42/editar/'' = Some (''report_edit'', [AInt 42])"
proof -
  have r: "reverse urlpatterns ''report_edit'' [AInt 42] = Some ''reportes/42/editar/''"
    by (simp add: reverse_def urlpatterns_def route_def py_str_nat.simps char_of_def bit_Suc bit_0)
  with resolve_reverse [OF r] show ?thesis by simp
qed

end
