(* ===== verification/Favorites.thy ===== *)
theory Favorites
  imports Urls
begin

text \<open>
  The Profile store and the favorites relation.  \<open>Profile\<close> (\<open>src/core/models.py\<close>,
  lines 10--49) extends each user account one-to-one; the \<open>post_save\<close> receiver
  \<open>create_or_update_user_profile\<close> creates it when the account is created and
  re-materialises it (\<open>get_or_create\<close>) on every later save of the account.  The views of
  \<open>src/core/views.py\<close> that touch profiles call \<open>Profile.objects.get_or_create\<close> as
  well: \<open>places_view\<close> (lines 20--34), \<open>favorites_view\<close> (203--210) and
  \<open>toggle_favorite_place\<close> (213--230), which flips the membership of one place in the
  user's \<open>favorite_places\<close> relation.  The relation is its through table: \<open>add\<close>
  inserts a row, \<open>remove\<close> deletes the rows of the pair.  \<open>login_required\<close> has let
  only authenticated users into these views, so they take the user's key.
\<close>

section \<open>Profiles\<close>

definition new_profile :: "db \<Rightarrow> user_id \<Rightarrow> profile" where
  "new_profile d u = \<lparr>profile_pk = next_pk d, profile_user = u, avatar = None, bio = []\<rparr>"

text \<open>\<open>Profile.objects.create(user=u)\<close>.\<close>

definition profile_create :: "user_id \<Rightarrow> db \<Rightarrow> db" where
  "profile_create u d = d\<lparr>profiles := profiles d @ [new_profile d u], next_pk := Suc (next_pk d)\<rparr>"

text \<open>\<open>Profile.objects.get_or_create(user=u)\<close>: the profile, and the database.\<close>

definition profile_get_or_create :: "user_id \<Rightarrow> db \<Rightarrow> profile \<times> db" where
  "profile_get_or_create u d =
     (case profile_of d u of
        Some p \<Rightarrow> (p, d)
      | None \<Rightarrow> (new_profile d u, profile_create u d))"

text \<open>
  The receiver \<open>create_or_update_user_profile\<close>; \<open>instance.profile.save()\<close> writes the
  profile back unchanged.
\<close>

definition create_or_update_user_profile :: "user_id \<Rightarrow> bool \<Rightarrow> db \<Rightarrow> db" where
  "create_or_update_user_profile u created d =
     (if created then profile_create u d else snd (profile_get_or_create u d))"

text \<open>
  Saving a new account (\<open>User.objects.create_user\<close>, \<open>SignupForm.save\<close>): the row is
  inserted, then \<open>post_save\<close> fires with \<open>created=True\<close>.
\<close>

definition user_create :: "string \<Rightarrow> string \<Rightarrow> string \<Rightarrow> string \<Rightarrow> db \<Rightarrow> db" where
  "user_create uname mail fname lname d =
     (let u = next_pk d;
          d1 = d\<lparr>users := users d @ [\<lparr>user_pk = u, username = uname, email = mail,
                                         first_name = fname, last_name = lname\<rparr>],
                 next_pk := Suc u\<rparr>
      in create_or_update_user_profile u True d1)"

text \<open>Saving an existing account after editing its fields: \<open>post_save\<close> with \<open>created=False\<close>.\<close>

definition user_save :: "user_id \<Rightarrow> string \<Rightarrow> string \<Rightarrow> string \<Rightarrow> db \<Rightarrow> db" where
  "user_save u fname lname mail d =
     create_or_update_user_profile u False
       (d\<lparr>users := map (\<lambda>x. if user_pk x = u
                             then x\<lparr>first_name := fname, last_name := lname, email := mail\<rparr> else x)
                      (users d)\<rparr>)"

section \<open>The favorites relation\<close>

definition is_favorite :: "db \<Rightarrow> nat \<Rightarrow> place_id \<Rightarrow> bool" where
  "is_favorite d pk k \<longleftrightarrow> (\<exists>f \<in> set (favorites d). fav_profile f = pk \<and> fav_place f = k)"

text \<open>Whether user \<open>u\<close> has place \<open>k\<close> among the favorites of the profile the ORM finds.\<close>

definition user_favorite :: "db \<Rightarrow> user_id \<Rightarrow> place_id \<Rightarrow> bool" where
  "user_favorite d u k \<longleftrightarrow>
     (case profile_of d u of None \<Rightarrow> False | Some p \<Rightarrow> is_favorite d (profile_pk p) k)"

text \<open>\<open>profile.favorite_places.add(place)\<close>: a row for the pair, unless there is one.\<close>

definition fav_add :: "nat \<Rightarrow> place_id \<Rightarrow> db \<Rightarrow> db" where
  "fav_add pk k d =
     (if is_favorite d pk k then d
      else d\<lparr>favorites := favorites d @ [\<lparr>fav_profile = pk, fav_place = k\<rparr>]\<rparr>)"

text \<open>\<open>profile.favorite_places.remove(place)\<close>: the rows of the pair are deleted.\<close>

definition fav_remove :: "nat \<Rightarrow> place_id \<Rightarrow> db \<Rightarrow> db" where
  "fav_remove pk k d =
     d\<lparr>favorites := filter (\<lambda>f. \<not> (fav_profile f = pk \<and> fav_place f = k)) (favorites d)\<rparr>"

text \<open>Python's \<open>a or b\<close> on an optional string: \<open>a\<close> unless it is \<open>None\<close> or empty.\<close>

fun py_or :: "string option \<Rightarrow> string option \<Rightarrow> string option" where
  "py_or (Some s) b = (if s = [] then b else Some s)"
| "py_or None b = b"

text \<open>
  \<open>toggle_favorite_place\<close>: \<open>next\<close> from the POST data, else from the query string,
  is the redirect target when it is not empty; otherwise the list of places
  (\<open>redirect(next_url or "places")\<close>).  The toggle is saved before \<open>redirect\<close> runs.
\<close>

definition toggle_favorite_place ::
  "user_id \<Rightarrow> place_id \<Rightarrow> string option \<Rightarrow> string option \<Rightarrow> db \<Rightarrow> response \<times> flash list \<times> db" where
  "toggle_favorite_place u k post_next get_next d =
     (case get_place d k of
        None \<Rightarrow> (NotFound, [], d)
      | Some pl \<Rightarrow>
          (let (prof, d1) = profile_get_or_create u d;
               target = (case py_or (py_or post_next get_next) (Some ''places'') of
                           None \<Rightarrow> ''places'' | Some s \<Rightarrow> s)
           in if is_favorite d1 (profile_pk prof) k
              then (django_redirect target,
                    [\<lparr>flash_level = Info,
                      flash_text = ''Quitaste '' @ py_quote (name pl) @ '' de tus favoritos.'', flash_tag = []\<rparr>],
                    fav_remove (profile_pk prof) k d1)
              else (django_redirect target,
                    [\<lparr>flash_level = Success,
                      flash_text = ''Agregaste '' @ py_quote (name pl) @ '' a tus favoritos.'', flash_tag = []\<rparr>],
                    fav_add (profile_pk prof) k d1)))"

section \<open>Listings\<close>

text \<open>
  \<open>favorites_view\<close>: the user's favorite places ordered by name (the profile is created
  first if it is missing).
\<close>

definition favorites_view :: "user_id \<Rightarrow> db \<Rightarrow> place list \<times> db" where
  "favorites_view u d =
     (let (prof, d1) = profile_get_or_create u d
      in (sort_key name (filter (\<lambda>pl. is_favorite d1 (profile_pk prof) (place_pk pl)) (places d1)), d1))"

text \<open>
  \<open>places_view\<close>: the 100 newest places, and for an authenticated user the keys of the
  favorite places (creating the profile if it is missing).
\<close>

definition places_view :: "user_id option \<Rightarrow> db \<Rightarrow> (place list \<times> place_id list) \<times> db" where
  "places_view ou d =
     (let qs = take 100 (sort_key (\<lambda>pl. - int (place_created_at pl)) (places d))
      in case ou of
           None \<Rightarrow> ((qs, []), d)
         | Some u \<Rightarrow>
             (let (prof, d1) = profile_get_or_create u d
              in ((qs, map fav_place (filter (\<lambda>f. fav_profile f = profile_pk prof) (favorites d1))), d1)))"

section \<open>Lemmas\<close>

lemma profile_create_tables [simp]:
  "users (profile_create u d) = users d" "favorites (profile_create u d) = favorites d"
  "places (profile_create u d) = places d" "reports (profile_create u d) = reports d"
  "notifications (profile_create u d) = notifications d"
  "comments (profile_create u d) = comments d" "outbox (profile_create u d) = outbox d"
  "profiles (profile_create u d) = profiles d @ [new_profile d u]"
  "next_pk (profile_create u d) = Suc (next_pk d)"
  by (simp_all add: profile_create_def)

lemma fav_ops_tables [simp]:
  "profiles (fav_add pk k d) = profiles d" "places (fav_add pk k d) = places d"
  "users (fav_add pk k d) = users d" "next_pk (fav_add pk k d) = next_pk d"
  "profiles (fav_remove pk k d) = profiles d" "places (fav_remove pk k d) = places d"
  "users (fav_remove pk k d) = users d" "next_pk (fav_remove pk k d) = next_pk d"
  by (simp_all add: fav_add_def fav_remove_def)

lemma is_favorite_fav_add [simp]:
  "is_favorite (fav_add pk k d) pk' k' \<longleftrightarrow> is_favorite d pk' k' \<or> (pk' = pk \<and> k' = k)"
  by (auto simp: fav_add_def is_favorite_def)

lemma is_favorite_fav_remove [simp]:
  "is_favorite (fav_remove pk k d) pk' k' \<longleftrightarrow> is_favorite d pk' k' \<and> \<not> (pk' = pk \<and> k' = k)"
  by (auto simp: fav_remove_def is_favorite_def)

lemma profile_of_tables:
  "profiles d' = profiles d \<Longrightarrow> profile_of d' u = profile_of d u"
  by (simp add: profile_of_def)

lemma find_append_None: "find P xs = None \<Longrightarrow> find P (xs @ ys) = find P ys"
  by (induction xs) auto

lemma profile_get_or_create_cases:
  "profile_get_or_create u d = (p, d1) \<Longrightarrow>
     (profile_of d u = Some p \<and> d1 = d) \<or>
     (profile_of d u = None \<and> p = new_profile d u \<and> d1 = profile_create u d)"
  by (auto simp: profile_get_or_create_def split: option.splits)

lemma profile_get_or_create_found:
  assumes "profile_get_or_create u d = (p, d1)"
  shows "profile_of d1 u = Some p"
  using profile_get_or_create_cases [OF assms]
  by (auto simp: profile_of_def find_append_None new_profile_def)

lemma profile_get_or_create_other [table_simps]:
  "profile_get_or_create u d = (p, d1) \<Longrightarrow>
     favorites d1 = favorites d \<and> places d1 = places d \<and> users d1 = users d \<and>
     reports d1 = reports d \<and> comments d1 = comments d \<and> notifications d1 = notifications d"
  by (auto dest: profile_get_or_create_cases)

lemma is_favorite_tables:
  "favorites d' = favorites d \<Longrightarrow> is_favorite d' pk k = is_favorite d pk k"
  by (simp add: is_favorite_def)

lemma toggle_favorite_place_db:
  assumes "get_place d k = Some pl" and "profile_get_or_create u d = (prof, d1)"
  shows "snd (snd (toggle_favorite_place u k pn gn d)) =
           (if is_favorite d1 (profile_pk prof) k then fav_remove (profile_pk prof) k d1
            else fav_add (profile_pk prof) k d1)"
  using assms by (simp add: toggle_favorite_place_def)

lemma toggle_favorite_place_response:
  assumes "get_place d k = Some pl"
  shows "fst (toggle_favorite_place u k pn gn d) =
           django_redirect (case py_or (py_or pn gn) (Some ''places'') of None \<Rightarrow> ''places'' | Some s \<Rightarrow> s)"
  using assms by (simp add: toggle_favorite_place_def Let_def split: prod.splits)

lemma toggle_profile_found:
  assumes "get_place d k = Some pl" and "profile_get_or_create u d = (prof, d1)"
  shows "profile_of (snd (snd (toggle_favorite_place u k pn gn d))) u = Some prof"
  using profile_get_or_create_found [OF assms(2)]
  by (simp add: toggle_favorite_place_db [OF assms] profile_of_def)

lemma toggle_places [simp]:
  "places (snd (snd (toggle_favorite_place u k pn gn d))) = places d"
proof (cases "get_place d k")
  case None
  then show ?thesis by (simp add: toggle_favorite_place_def)
next
  case (Some pl)
  obtain prof d1 where g: "profile_get_or_create u d = (prof, d1)" by fastforce
  with Some show ?thesis
    by (simp add: toggle_favorite_place_db profile_get_or_create_other)
qed

text \<open>The membership the ORM sees before the toggle, when stale rows cannot name a fresh key.\<close>

lemma user_favorite_before:
  assumes "profile_get_or_create u d = (prof, d1)"
    and "\<forall>f \<in> set (favorites d). fav_profile f < next_pk d"
  shows "user_favorite d u k = is_favorite d1 (profile_pk prof) k"
proof -
  consider (old) "profile_of d u = Some prof" "d1 = d"
    | (new) "profile_of d u = None" "prof = new_profile d u" "d1 = profile_create u d"
    using profile_get_or_create_cases [OF assms(1)] by (elim disjE conjE) simp_all
  then show ?thesis
  proof cases
    case old
    then show ?thesis by (simp add: user_favorite_def)
  next
    case new
    have "\<not> is_favorite d (next_pk d) k"
      using assms(2) by (auto simp: is_favorite_def)
    with new show ?thesis
      by (simp add: user_favorite_def new_profile_def is_favorite_def)
  qed
qed

lemma get_place_tables: "places d' = places d \<Longrightarrow> get_place d' k = get_place d k"
  by (simp add: get_place_def)

lemma favorite_eta [simp]: "\<lparr>fav_profile = fav_profile f, fav_place = fav_place f\<rparr> = (f :: favorite)"
  by (cases f) simp

lemma set_fav_add_remove:
  "is_favorite d pk k \<Longrightarrow> set (favorites (fav_add pk k (fav_remove pk k d))) = set (favorites d)"
  by (auto simp: fav_add_def fav_remove_def is_favorite_def)

lemma fav_remove_add:
  "\<not> is_favorite d pk k \<Longrightarrow> favorites (fav_remove pk k (fav_add pk k d)) = favorites d"
  by (auto simp: fav_add_def fav_remove_def is_favorite_def filter_id_conv)

lemma toggle_get_or_create_again:
  assumes "get_place d k = Some pl" and "profile_get_or_create u d = (prof, d1)"
  shows "profile_get_or_create u (snd (snd (toggle_favorite_place u k pn gn d))) =
           (prof, snd (snd (toggle_favorite_place u k pn gn d)))"
  using toggle_profile_found [OF assms] by (simp add: profile_get_or_create_def)

text \<open>A database with the place of the favorites test and no user yet.\<close>

definition mall_db :: db where
  "mall_db = empty_db\<lparr>places := [\<lparr>place_pk = 1, name = ''Mall Arauco'', address = ''Av. Americo'',
       lat = \<lparr>coeff = -33520000, exponent = -6\<rparr>, lng = \<lparr>coeff = -70770000, exponent = -6\<rparr>,
       place_tags = ''rampa'', place_created_at = 0\<rparr>], next_pk := 2\<rparr>"

section \<open>Properties of the favorites toggle\<close>

text \<open>
  C4. Toggling a favorite flips the membership of the place among the user's favorites, as
  the ORM sees it, when no through row names a key not yet allocated.
\<close>

theorem toggle_flips_membership:
  assumes "get_place d k = Some pl" and "\<forall>f \<in> set (favorites d). fav_profile f < next_pk d"
  shows "user_favorite (snd (snd (toggle_favorite_place u k pn gn d))) u k \<longleftrightarrow>
           \<not> user_favorite d u k"
proof -
  obtain prof d1 where g: "profile_get_or_create u d = (prof, d1)" by fastforce
  have before: "user_favorite d u k = is_favorite d1 (profile_pk prof) k"
    using g assms(2) by (rule user_favorite_before)
  have after: "user_favorite (snd (snd (toggle_favorite_place u k pn gn d))) u k =
      is_favorite (snd (snd (toggle_favorite_place u k pn gn d))) (profile_pk prof) k"
    using toggle_profile_found [OF assms(1) g] by (simp add: user_favorite_def)
  show ?thesis
    using before after by (simp add: toggle_favorite_place_db [OF assms(1) g])
qed

theorem toggle_flips_membership_witness:
  "get_place mall_db 1 = Some (hd (places mall_db)) \<and> favorites mall_db = [] \<and>
   user_favorite (snd (snd (toggle_favorite_place 7 1 None None mall_db))) 7 1"
proof -
  have p: "get_place mall_db 1 = Some (hd (places mall_db))"
    by (simp add: mall_db_def get_place_def)
  have e: "favorites mall_db = []"
    by (simp add: mall_db_def empty_db_def)
  then have f: "\<forall>f \<in> set (favorites mall_db). fav_profile f < next_pk mall_db"
    by simp
  have n: "\<not> user_favorite mall_db 7 1"
    by (simp add: mall_db_def empty_db_def user_favorite_def profile_of_def)
  show ?thesis using p e n toggle_flips_membership [OF p f, of 7 None None] by simp
qed

text \<open>
  C5. Toggling the same place twice gives back the favorites relation the user started
  with: the through table holds the same pairs, whatever \<open>next\<close> said.
\<close>

theorem toggle_twice_restores:
  assumes "get_place d k = Some pl"
  shows "set (favorites (snd (snd (toggle_favorite_place u k pn' gn'
            (snd (snd (toggle_favorite_place u k pn gn d))))))) = set (favorites d)"
proof -
  obtain prof d1 where g: "profile_get_or_create u d = (prof, d1)" by fastforce
  define d' where "d' = snd (snd (toggle_favorite_place u k pn gn d))"
  have "places d' = places d" by (simp add: d'_def)
  then have "get_place d' k = get_place d k" by (rule get_place_tables)
  with assms have p': "get_place d' k = Some pl" by simp
  have g': "profile_get_or_create u d' = (prof, d')"
    unfolding d'_def by (rule toggle_get_or_create_again [OF assms g])
  have fav1: "favorites d1 = favorites d"
    using profile_get_or_create_other [OF g] by simp
  have d'_eq: "d' = (if is_favorite d1 (profile_pk prof) k then fav_remove (profile_pk prof) k d1
                     else fav_add (profile_pk prof) k d1)"
    unfolding d'_def by (rule toggle_favorite_place_db [OF assms g])
  have second: "snd (snd (toggle_favorite_place u k pn' gn' d')) =
      (if is_favorite d' (profile_pk prof) k then fav_remove (profile_pk prof) k d'
       else fav_add (profile_pk prof) k d')"
    by (rule toggle_favorite_place_db [OF p' g'])
  show ?thesis
  proof (cases "is_favorite d1 (profile_pk prof) k")
    case True
    then have "\<not> is_favorite d' (profile_pk prof) k" by (simp add: d'_eq)
    with second have "snd (snd (toggle_favorite_place u k pn' gn' d')) =
        fav_add (profile_pk prof) k (fav_remove (profile_pk prof) k d1)"
      by (simp add: d'_eq True)
    with True fav1 show ?thesis by (simp add: d'_def [symmetric] set_fav_add_remove)
  next
    case False
    then have "is_favorite d' (profile_pk prof) k" by (simp add: d'_eq)
    with second have "snd (snd (toggle_favorite_place u k pn' gn' d')) =
        fav_remove (profile_pk prof) k (fav_add (profile_pk prof) k d1)"
      by (simp add: d'_eq False)
    with False fav1 show ?thesis by (simp add: d'_def [symmetric] fav_remove_add)
  qed
qed

theorem toggle_twice_restores_witness:
  "get_place mall_db 1 = Some (hd (places mall_db)) \<and>
   set (favorites (snd (snd (toggle_favorite_place 7 1 None None
      (snd (snd (toggle_favorite_place 7 1 None None mall_db))))))) = {}"
proof -
  have p: "get_place mall_db 1 = Some (hd (places mall_db))"
    by (simp add: mall_db_def get_place_def)
  show ?thesis
    using p toggle_twice_restores [OF p, of 7 None None None None]
    by (simp add: mall_db_def empty_db_def)
qed

text \<open>
  A toggle never duplicates a membership: a through table without repeated rows keeps
  none.
\<close>

theorem toggle_keeps_distinct:
  assumes "distinct (favorites d)"
  shows "distinct (favorites (snd (snd (toggle_favorite_place u k pn gn d))))"
proof (cases "get_place d k")
  case None
  with assms show ?thesis by (simp add: toggle_favorite_place_def)
next
  case (Some pl)
  obtain prof d1 where g: "profile_get_or_create u d = (prof, d1)" by fastforce
  have "distinct (favorites d1)"
    using assms profile_get_or_create_other [OF g] by simp
  then show ?thesis
    by (auto simp: toggle_favorite_place_db [OF Some g] fav_add_def fav_remove_def is_favorite_def)
qed

theorem toggle_keeps_distinct_witness:
  "distinct (favorites mall_db) \<and>
   distinct (favorites (snd (snd (toggle_favorite_place 7 1 None None mall_db))))"
proof -
  have h: "distinct (favorites mall_db)" by (simp add: mall_db_def empty_db_def)
  show ?thesis using h toggle_keeps_distinct [OF h, of 7 1 None None] by simp
qed

text \<open>
  C6. Toggling a place that does not exist answers 404 and changes nothing: no profile is
  created, no message is queued.
\<close>

theorem toggle_missing_place:
  assumes "get_place d k = None"
  shows "toggle_favorite_place u k pn gn d = (NotFound, [], d)"
  using assms by (simp add: toggle_favorite_place_def)

theorem toggle_missing_place_witness:
  "get_place mall_db 2 = None \<and> toggle_favorite_place 7 2 None None mall_db = (NotFound, [], mall_db)"
proof -
  have h: "get_place mall_db 2 = None" by (simp add: mall_db_def get_place_def)
  show ?thesis using h toggle_missing_place [OF h] by simp
qed



text \<open>
  C8. A \<open>next\<close> that is neither a route name nor a URL (no slash, no dot) makes
  \<open>redirect\<close> raise \<open>NoReverseMatch\<close>: the answer is a server error, yet the toggle has
  already been saved, exactly as on a successful request.
\<close>

theorem toggle_bad_next_server_error:
  assumes "get_place d k = Some pl" and "s \<noteq> []" and "CHR ''/'' \<notin> set s" and "CHR ''.'' \<notin> set s"
    and "reverse_name s = None"
  shows "fst (toggle_favorite_place u k (Some s) gn d) = ServerError \<and>
         snd (snd (toggle_favorite_place u k (Some s) gn d)) = snd (snd (toggle_favorite_place u k None None d))"
proof -
  obtain prof d1 where g: "profile_get_or_create u d = (prof, d1)" by fastforce
  show ?thesis
    using assms by (simp add: toggle_favorite_place_response django_redirect_def toggle_favorite_place_db [OF assms(1) g])
qed

theorem toggle_bad_next_server_error_witness:
  "get_place mall_db 1 = Some (hd (places mall_db)) \<and> reverse_name ''mapa'' = None \<and>
   fst (toggle_favorite_place 7 1 (Some ''mapa'') None mall_db) = ServerError \<and>
   snd (snd (toggle_favorite_place 7 1 (Some ''mapa'') None mall_db)) =
     snd (snd (toggle_favorite_place 7 1 None None mall_db))"
proof -
  have p: "get_place mall_db 1 = Some (hd (places mall_db))"
    by (simp add: mall_db_def get_place_def)
  have "''mapa'' \<notin> up_name ` set urlpatterns" by (simp add: urlpatterns_def route_def)
  then have r: "reverse_name ''mapa'' = None" by (simp add: reverse_name_def reverse_unknown)
  show ?thesis using p r toggle_bad_next_server_error [where u = 7 and gn = None, OF p _ _ _ r] by simp
qed

end
