(* ===== verification/Notifications.thy ===== *)
theory Notifications
  imports Favorites
begin

text \<open>
  The Notification dispatcher: the \<open>post_save\<close> receiver
  \<open>create_favorite_place_notifications\<close> (\<open>src/core/models.py\<close>, lines 148--198) and
  the view \<open>notifications_view\<close> (\<open>src/core/views.py\<close>, lines 423--440).  On the
  creation of a report the receiver queries the profiles that have the report's place among
  their favorites, other than the author's (a join through the favorites table and, by
  \<open>select_related\<close>, an inner join with the users), and for each row creates a
  \<open>Notification\<close> and, when the user has an e-mail address, hands a message to the mail
  transport.  The transport is the parameter \<open>ok\<close>: whether it accepts a given message.
  A refusal is swallowed (\<open>fail_silently=True\<close> and \<open>except Exception: pass\<close>), so only
  the outbox depends on it.  \<open>notifications_view\<close> marks every unread notification of
  the user as read and shows the 50 newest; the query set it shows is lazy and is evaluated
  by the template, after the update.
\<close>

section \<open>The fan-out\<close>

text \<open>
  \<open>Profile.objects.filter(favorite_places=place).exclude(user=author)
  .select_related("user")\<close>: one row per matching through row, with the profile's user.
\<close>

definition favorites_qs :: "db \<Rightarrow> place_id \<Rightarrow> user_id \<Rightarrow> (profile \<times> user) list" where
  "favorites_qs d k author =
     [(p, usr). p \<leftarrow> profiles d, f \<leftarrow> favorites d,
        fav_profile f = profile_pk p \<and> fav_place f = k, profile_user p \<noteq> author,
        usr \<leftarrow> users d, user_pk usr = profile_user p]"

text \<open>The message of lines 173--175: the place's name, then the first 200 characters of the description.\<close>

definition notification_message :: "string \<Rightarrow> string \<Rightarrow> string" where
  "notification_message place_name desc =
     ''Se ha creado un nuevo reporte en tu lugar favorito '' @ py_quote place_name @ ''.'' @
     (if desc = [] then []
      else [CHR 0x0A, CHR 0x0A] @ ''Descripci'' @ [CHR 0xF3] @ ''n: '' @ take 200 desc)"

definition new_notification :: "db \<Rightarrow> timestamp \<Rightarrow> user_id \<Rightarrow> place \<Rightarrow> report \<Rightarrow> notification" where
  "new_notification d now u pl r =
     \<lparr>notification_pk = next_pk d, notification_user = u, notification_place = Some (place_pk pl),
      notification_report = Some (report_pk r),
      message = notification_message (name pl) (description r),
      notification_created_at = now, is_read = False\<rparr>"

definition notification_mail :: "place \<Rightarrow> report \<Rightarrow> user \<Rightarrow> mail" where
  "notification_mail pl r usr =
     \<lparr>mail_subject = ''Nuevo reporte en tu lugar favorito: '' @ name pl,
      mail_body = notification_message (name pl) (description r), mail_to = email usr\<rparr>"

text \<open>The loop of lines 171--198, one profile at a time.\<close>

fun fanout_loop ::
  "(mail \<Rightarrow> bool) \<Rightarrow> timestamp \<Rightarrow> place \<Rightarrow> report \<Rightarrow> (profile \<times> user) list \<Rightarrow> db \<Rightarrow> db" where
  "fanout_loop ok now pl r [] d = d"
| "fanout_loop ok now pl r ((prof, usr) # rest) d =
     (let d1 = d\<lparr>notifications := notifications d @ [new_notification d now (user_pk usr) pl r],
                 next_pk := Suc (next_pk d)\<rparr>;
          m = notification_mail pl r usr;
          d2 = (if email usr \<noteq> [] \<and> ok m then d1\<lparr>outbox := outbox d1 @ [m]\<rparr> else d1)
      in fanout_loop ok now pl r rest d2)"

text \<open>
  The receiver.  \<open>instance.place\<close> is the place object the report was saved with, so it
  is a parameter; \<open>created\<close> is the flag \<open>post_save\<close> passes.
\<close>

definition create_favorite_place_notifications ::
  "(mail \<Rightarrow> bool) \<Rightarrow> timestamp \<Rightarrow> place \<Rightarrow> report \<Rightarrow> bool \<Rightarrow> db \<Rightarrow> db" where
  "create_favorite_place_notifications ok now pl r created d =
     (if \<not> created then d
      else (let qs = favorites_qs d (place_pk pl) (report_author r)
            in if qs = [] then d else fanout_loop ok now pl r qs d))"

section \<open>Reading the notifications\<close>

definition mark_read :: "user_id \<Rightarrow> notification \<Rightarrow> notification" where
  "mark_read u n = (if notification_user n = u \<and> \<not> is_read n then n\<lparr>is_read := True\<rparr> else n)"

text \<open>
  \<open>notifications_view\<close>: the bulk \<open>update(is_read=True)\<close>, then the 50 newest
  notifications of the user, evaluated after the update.
\<close>

definition notifications_view :: "user_id \<Rightarrow> db \<Rightarrow> notification list \<times> db" where
  "notifications_view u d =
     (let d1 = d\<lparr>notifications := map (mark_read u) (notifications d)\<rparr>
      in (take 50 (sort_key (\<lambda>n. - int (notification_created_at n))
                    (filter (\<lambda>n. notification_user n = u) (notifications d1))), d1))"

section \<open>Lemmas on the fan-out\<close>

text \<open>
  The well-formedness the fan-out needs: no repeated through row, one profile per key and
  per user, one user per key, and every profile's user present.  The database keeps it
  (see the invariant of \<open>Spec2Isabelle\<close>).
\<close>

definition followers_wf :: "db \<Rightarrow> bool" where
  "followers_wf d \<longleftrightarrow>
     distinct (favorites d) \<and> distinct (map profile_pk (profiles d)) \<and>
     distinct (map profile_user (profiles d)) \<and> distinct (map user_pk (users d)) \<and>
     (\<forall>p \<in> set (profiles d). profile_user p \<in> user_pk ` set (users d))"

lemma concat_map_if_eq:
  "distinct xs \<Longrightarrow> concat (map (\<lambda>y. if y = c then g else []) xs) = (if c \<in> set xs then g else [])"
  by (induction xs) auto

lemma map_key_filter_key:
  "distinct (map key xs) \<Longrightarrow>
     map key (filter (\<lambda>y. key y = k) xs) = (if k \<in> key ` set xs then [k] else [])"
proof (induction xs)
  case Nil
  then show ?case by simp
next
  case (Cons x xs)
  then show ?case
    by (cases "key x = k") (auto simp: filter_empty_conv)
qed

lemma favorite_match_iff: "(fav_profile f = pk \<and> fav_place f = k) \<longleftrightarrow> f = \<lparr>fav_profile = pk, fav_place = k\<rparr>"
  by auto

lemma is_favorite_mem: "is_favorite d pk k \<longleftrightarrow> \<lparr>fav_profile = pk, fav_place = k\<rparr> \<in> set (favorites d)"
proof
  assume "is_favorite d pk k"
  then obtain f where "f \<in> set (favorites d)" "fav_profile f = pk" "fav_place f = k"
    by (auto simp: is_favorite_def)
  then show "\<lparr>fav_profile = pk, fav_place = k\<rparr> \<in> set (favorites d)" by (metis favorite_eta)
next
  assume "\<lparr>fav_profile = pk, fav_place = k\<rparr> \<in> set (favorites d)"
  then show "is_favorite d pk k" by (force simp: is_favorite_def)
qed

lemma concat_map_single: "concat (map (\<lambda>x. if P x then [f x] else []) xs) = map f (filter P xs)"
  by (induction xs) auto

lemma map_concat_singletons:
  "(\<And>x. x \<in> set xs \<Longrightarrow> map g (F x) = (if P x then [h x] else [])) \<Longrightarrow>
     map g (concat (map F xs)) = map h (filter P xs)"
  by (induction xs) auto

lemma favorites_qs_inner:
  assumes "distinct (favorites d)"
  shows "concat (map (\<lambda>f. if fav_profile f = profile_pk p \<and> fav_place f = k
             then (if profile_user p \<noteq> a
                   then concat (map (\<lambda>usr. if user_pk usr = profile_user p then [(p, usr)] else []) (users d))
                   else [])
             else []) (favorites d)) =
         (if profile_user p \<noteq> a \<and> is_favorite d (profile_pk p) k
          then map (Pair p) (filter (\<lambda>usr. user_pk usr = profile_user p) (users d)) else [])"
  using concat_map_if_eq [OF assms, of "\<lparr>fav_profile = profile_pk p, fav_place = k\<rparr>"]
  by (simp only: favorite_match_iff concat_map_single is_favorite_mem) auto

lemma favorites_qs_rows:
  assumes "distinct (favorites d)"
  shows "favorites_qs d k a =
           concat (map (\<lambda>p. if profile_user p \<noteq> a \<and> is_favorite d (profile_pk p) k
                              then map (Pair p) (filter (\<lambda>usr. user_pk usr = profile_user p) (users d))
                              else []) (profiles d))"
  by (simp add: favorites_qs_def favorites_qs_inner [OF assms] del: concat_map_single)

lemma favorites_qs_recipients:
  assumes "followers_wf d"
  shows "map (user_pk \<circ> snd) (favorites_qs d k a) =
           map profile_user (filter (\<lambda>p. profile_user p \<noteq> a \<and> is_favorite d (profile_pk p) k) (profiles d))"
proof -
  from assms have fd: "distinct (favorites d)" and ud: "distinct (map user_pk (users d))"
    and pu: "\<forall>p \<in> set (profiles d). profile_user p \<in> user_pk ` set (users d)"
    by (auto simp: followers_wf_def)
  show ?thesis
    unfolding favorites_qs_rows [OF fd]
  proof (rule map_concat_singletons)
    fix p assume "p \<in> set (profiles d)"
    with pu map_key_filter_key [OF ud, of "profile_user p"]
    show "map (user_pk \<circ> snd) (if profile_user p \<noteq> a \<and> is_favorite d (profile_pk p) k
            then map (Pair p) (filter (\<lambda>usr. user_pk usr = profile_user p) (users d)) else []) =
          (if profile_user p \<noteq> a \<and> is_favorite d (profile_pk p) k then [profile_user p] else [])"
      by (simp add: comp_def)
  qed
qed

lemma fanout_loop_tables [simp]:
  "users (fanout_loop ok now pl r qs d) = users d"
  "profiles (fanout_loop ok now pl r qs d) = profiles d"
  "favorites (fanout_loop ok now pl r qs d) = favorites d"
  "places (fanout_loop ok now pl r qs d) = places d"
  "reports (fanout_loop ok now pl r qs d) = reports d"
  "comments (fanout_loop ok now pl r qs d) = comments d"
  "next_pk (fanout_loop ok now pl r qs d) = next_pk d + length qs"
  by (induction ok now pl r qs d rule: fanout_loop.induct) (simp_all add: Let_def)

text \<open>What the loop appends: one notification per row, for the row's user, about the place and the report.\<close>

definition about :: "place \<Rightarrow> report \<Rightarrow> notification \<Rightarrow> bool" where
  "about pl r n \<longleftrightarrow>
     notification_place n = Some (place_pk pl) \<and> notification_report n = Some (report_pk r) \<and>
     message n = notification_message (name pl) (description r) \<and> \<not> is_read n"

lemma fanout_loop_notifications:
  "\<exists>new. notifications (fanout_loop ok now pl r qs d) = notifications d @ new \<and>
     map notification_user new = map (user_pk \<circ> snd) qs \<and> (\<forall>n \<in> set new. about pl r n)"
proof (induction qs arbitrary: d)
  case Nil
  then show ?case by simp
next
  case (Cons row qs)
  obtain prof usr where row: "row = (prof, usr)" by fastforce
  let ?n = "new_notification d now (user_pk usr) pl r"
  define d2 where "d2 = (let d1 = d\<lparr>notifications := notifications d @ [?n], next_pk := Suc (next_pk d)\<rparr>
      in if email usr \<noteq> [] \<and> ok (notification_mail pl r usr)
         then d1\<lparr>outbox := outbox d1 @ [notification_mail pl r usr]\<rparr> else d1)"
  have loop: "fanout_loop ok now pl r (row # qs) d = fanout_loop ok now pl r qs d2"
    by (simp add: row d2_def Let_def)
  have n2: "notifications d2 = notifications d @ [?n]" by (simp add: d2_def Let_def)
  obtain new where "notifications (fanout_loop ok now pl r qs d2) = notifications d2 @ new"
    and "map notification_user new = map (user_pk \<circ> snd) qs" and "\<forall>n \<in> set new. about pl r n"
    using Cons.IH by blast
  then show ?case
    unfolding loop
    by (intro exI [of _ "?n # new"]) (simp add: n2 row about_def new_notification_def)
qed

lemma fanout_effect:
  "\<exists>new. notifications (create_favorite_place_notifications ok now pl r True d) = notifications d @ new \<and>
     map notification_user new = map (user_pk \<circ> snd) (favorites_qs d (place_pk pl) (report_author r)) \<and>
     (\<forall>n \<in> set new. about pl r n)"
  using fanout_loop_notifications [of ok now pl r "favorites_qs d (place_pk pl) (report_author r)" d]
  by (auto simp: create_favorite_place_notifications_def Let_def)

lemma fanout_tables [simp]:
  "users (create_favorite_place_notifications ok now pl r c d) = users d"
  "profiles (create_favorite_place_notifications ok now pl r c d) = profiles d"
  "favorites (create_favorite_place_notifications ok now pl r c d) = favorites d"
  "places (create_favorite_place_notifications ok now pl r c d) = places d"
  "reports (create_favorite_place_notifications ok now pl r c d) = reports d"
  "comments (create_favorite_place_notifications ok now pl r c d) = comments d"
  by (simp_all add: create_favorite_place_notifications_def Let_def)

lemma find_key_Some:
  "distinct (map key xs) \<Longrightarrow> find (\<lambda>y. key y = k) xs = Some x \<longleftrightarrow> x \<in> set xs \<and> key x = k"
  by (induction xs) (auto simp: image_iff)

lemma profile_of_unique:
  "distinct (map profile_user (profiles d)) \<Longrightarrow>
     profile_of d u = Some p \<longleftrightarrow> p \<in> set (profiles d) \<and> profile_user p = u"
  unfolding profile_of_def by (rule find_key_Some)

lemma user_favorite_iff:
  assumes "distinct (map profile_user (profiles d))"
  shows "user_favorite d u k \<longleftrightarrow>
           (\<exists>p \<in> set (profiles d). profile_user p = u \<and> is_favorite d (profile_pk p) k)"
proof (cases "profile_of d u")
  case None
  then have "\<forall>p \<in> set (profiles d). profile_user p \<noteq> u"
    by (simp add: profile_of_def find_None_iff)
  with None show ?thesis by (auto simp: user_favorite_def)
next
  case (Some p)
  with profile_of_unique [OF assms] have p: "p \<in> set (profiles d)" "profile_user p = u" by auto
  have "\<And>q. q \<in> set (profiles d) \<Longrightarrow> profile_user q = u \<Longrightarrow> q = p"
    using Some profile_of_unique [OF assms] by (metis option.inject)
  with Some p show ?thesis unfolding user_favorite_def by fastforce
qed

lemma fanout_recipients:
  assumes "followers_wf d"
  shows "map notification_user (drop (length (notifications d))
            (notifications (create_favorite_place_notifications ok now pl r True d))) =
         map profile_user (filter (\<lambda>p. profile_user p \<noteq> report_author r \<and>
                                          is_favorite d (profile_pk p) (place_pk pl)) (profiles d))"
proof -
  obtain new where "notifications (create_favorite_place_notifications ok now pl r True d) =
      notifications d @ new"
    and "map notification_user new = map (user_pk \<circ> snd) (favorites_qs d (place_pk pl) (report_author r))"
    using fanout_effect [of ok now pl r d] by blast
  with favorites_qs_recipients [OF assms] show ?thesis by simp
qed

lemma fanout_loop_outbox:
  "d\<lparr>outbox := []\<rparr> = e\<lparr>outbox := []\<rparr> \<Longrightarrow>
     (fanout_loop ok now pl r qs d)\<lparr>outbox := []\<rparr> = (fanout_loop ok' now pl r qs e)\<lparr>outbox := []\<rparr>"
proof (induction qs arbitrary: d e)
  case Nil
  then show ?case by simp
next
  case (Cons row qs)
  obtain prof usr where row: "row = (prof, usr)" by fastforce
  have pk: "next_pk d = next_pk e" and ns: "notifications d = notifications e"
    using arg_cong [OF Cons.prems, of next_pk] arg_cong [OF Cons.prems, of notifications] by simp_all
  let ?upd = "\<lambda>x. x\<lparr>notifications := notifications x @ [new_notification x now (user_pk usr) pl r],
                    next_pk := Suc (next_pk x)\<rparr>"
  let ?m = "notification_mail pl r usr"
  define d2 where "d2 = (if email usr \<noteq> [] \<and> ok ?m then (?upd d)\<lparr>outbox := outbox (?upd d) @ [?m]\<rparr> else ?upd d)"
  define e2 where "e2 = (if email usr \<noteq> [] \<and> ok' ?m then (?upd e)\<lparr>outbox := outbox (?upd e) @ [?m]\<rparr> else ?upd e)"
  have nd: "new_notification d = new_notification e"
    using pk by (simp add: new_notification_def fun_eq_iff)
  have "(?upd d)\<lparr>outbox := []\<rparr> = (d\<lparr>outbox := []\<rparr>)\<lparr>notifications := notifications e @ [new_notification e now (user_pk usr) pl r],
                    next_pk := Suc (next_pk e)\<rparr>"
    using pk ns nd by simp
  also have "\<dots> = (?upd e)\<lparr>outbox := []\<rparr>"
    using Cons.prems by simp
  finally have "d2\<lparr>outbox := []\<rparr> = e2\<lparr>outbox := []\<rparr>"
    by (simp add: d2_def e2_def)
  then have "(fanout_loop ok now pl r qs d2)\<lparr>outbox := []\<rparr> = (fanout_loop ok' now pl r qs e2)\<lparr>outbox := []\<rparr>"
    by (rule Cons.IH)
  then show ?case by (simp add: row d2_def e2_def Let_def)
qed

text \<open>A database where user 3 follows the place of \<open>mall_db\<close> and user 2 does not (\<open>tests.py\<close>, \<open>NotificationModelTest\<close>).\<close>

definition follow_db :: db where
  "follow_db = mall_db\<lparr>
     users := [\<lparr>user_pk = 2, username = ''levis'', email = [], first_name = [], last_name = []\<rparr>,
               \<lparr>user_pk = 3, username = ''ignacio'', email = ''ignacio@test.com'', first_name = [], last_name = []\<rparr>],
     profiles := [\<lparr>profile_pk = 4, profile_user = 2, avatar = None, bio = []\<rparr>,
                  \<lparr>profile_pk = 5, profile_user = 3, avatar = None, bio = []\<rparr>],
     favorites := [\<lparr>fav_profile = 5, fav_place = 1\<rparr>], next_pk := 6\<rparr>"

definition blocked_ramp :: "user_id \<Rightarrow> report" where
  "blocked_ramp a = \<lparr>report_pk = 6, report_place = 1, report_author = a, description = ''Rampa bloqueada'',
     rating = 3, report_tags = [], photo = None, report_created_at = 0\<rparr>"

lemma follow_db_wf: "followers_wf follow_db"
  by (simp add: followers_wf_def follow_db_def mall_db_def empty_db_def)

section \<open>Properties of the fan-out\<close>

text \<open>
  C9. Creating a report yields exactly one notification for each user who has the place
  among the favorites, other than the author, and none for anybody else.
\<close>

theorem fanout_one_per_follower:
  assumes "followers_wf d"
  shows "count (mset (map notification_user (drop (length (notifications d))
            (notifications (create_favorite_place_notifications ok now pl r True d))))) u =
         (if u \<noteq> report_author r \<and> user_favorite d u (place_pk pl) then 1 else 0)"
proof -
  let ?P = "\<lambda>p. profile_user p \<noteq> report_author r \<and> is_favorite d (profile_pk p) (place_pk pl)"
  have du: "distinct (map profile_user (profiles d))" using assms by (simp add: followers_wf_def)
  then have "distinct (map profile_user (filter ?P (profiles d)))"
    by (simp add: distinct_map_filter)
  then have "count (mset (map profile_user (filter ?P (profiles d)))) u =
      (if u \<in> set (map profile_user (filter ?P (profiles d))) then 1 else 0)"
    by (simp add: distinct_count_atmost_1)
  moreover have "u \<in> set (map profile_user (filter ?P (profiles d))) \<longleftrightarrow>
      u \<noteq> report_author r \<and> user_favorite d u (place_pk pl)"
    using user_favorite_iff [OF du] by auto
  ultimately show ?thesis by (simp add: fanout_recipients [OF assms])
qed

theorem fanout_one_per_follower_witness:
  "followers_wf follow_db \<and>
   count (mset (map notification_user (drop (length (notifications follow_db))
     (notifications (create_favorite_place_notifications (\<lambda>_. True) 0 (hd (places mall_db))
        (blocked_ramp 2) True follow_db))))) 3 = 1"
proof -
  have f: "user_favorite follow_db 3 (place_pk (hd (places mall_db)))"
    by (simp add: user_favorite_def profile_of_def is_favorite_def follow_db_def mall_db_def)
  show ?thesis
    using follow_db_wf f fanout_one_per_follower [OF follow_db_wf, of "\<lambda>_. True" 0 "hd (places mall_db)" "blocked_ramp 2" 3]
    by (simp add: blocked_ramp_def)
qed

text \<open>
  When nobody but the author has the place among the favorites, the fan-out does
  nothing at all: no notification, no mail, the database is unchanged.
\<close>

theorem fanout_none_without_followers:
  assumes "followers_wf d" and "\<forall>u. user_favorite d u (place_pk pl) \<longrightarrow> u = report_author r"
  shows "create_favorite_place_notifications ok now pl r True d = d"
proof -
  have du: "distinct (map profile_user (profiles d))" using assms(1) by (simp add: followers_wf_def)
  have "filter (\<lambda>p. profile_user p \<noteq> report_author r \<and> is_favorite d (profile_pk p) (place_pk pl))
          (profiles d) = []"
    using assms(2) user_favorite_iff [OF du] by (auto simp: filter_empty_conv)
  then have "map (user_pk \<circ> snd) (favorites_qs d (place_pk pl) (report_author r)) = []"
    by (simp add: favorites_qs_recipients [OF assms(1)])
  then show ?thesis by (simp add: create_favorite_place_notifications_def)
qed

theorem fanout_none_without_followers_witness:
  "followers_wf follow_db \<and>
   create_favorite_place_notifications (\<lambda>_. True) 0 (hd (places mall_db)) (blocked_ramp 3) True follow_db =
     follow_db"
proof -
  have h: "\<forall>u. user_favorite follow_db u (place_pk (hd (places mall_db))) \<longrightarrow> u = report_author (blocked_ramp 3)"
    by (auto simp: user_favorite_def profile_of_def is_favorite_def follow_db_def mall_db_def
        blocked_ramp_def split: if_splits)
  show ?thesis
    using follow_db_wf fanout_none_without_followers [OF follow_db_wf h, of "\<lambda>_. True" 0] by simp
qed

text \<open>
  C10. Whether the mail transport accepts or refuses messages changes nothing but the
  outbox: the notifications, and every other table, come out the same.
\<close>

theorem fanout_mail_independent:
  "(create_favorite_place_notifications ok now pl r c d)\<lparr>outbox := []\<rparr> =
   (create_favorite_place_notifications ok' now pl r c d)\<lparr>outbox := []\<rparr>"
  by (simp add: create_favorite_place_notifications_def Let_def fanout_loop_outbox)

text \<open>
  C11. Each notification the fan-out creates refers to the place and to the report, is
  unread, names the place between quotes and ends with at most the first 200 characters
  of the report's description.
\<close>

theorem fanout_notification_content:
  "\<forall>n \<in> set (drop (length (notifications d))
            (notifications (create_favorite_place_notifications ok now pl r True d))).
     notification_place n = Some (place_pk pl) \<and> notification_report n = Some (report_pk r) \<and>
     \<not> is_read n \<and> sublist (py_quote (name pl)) (message n) \<and>
     suffix (take 200 (description r)) (message n) \<and> length (message n) \<le> length (name pl) + 269"
proof -
  obtain new where n: "notifications (create_favorite_place_notifications ok now pl r True d) =
      notifications d @ new" and a: "\<forall>n \<in> set new. about pl r n"
    using fanout_effect [of ok now pl r d] by blast
  have "sublist (py_quote (name pl)) (notification_message (name pl) (description r))"
    unfolding notification_message_def by (metis append.assoc sublist_appendI)
  moreover have "suffix (take 200 (description r)) (notification_message (name pl) (description r))"
    by (simp add: notification_message_def suffix_def)
  moreover have "length (notification_message (name pl) (description r)) \<le> length (name pl) + 269"
    by (simp add: notification_message_def py_quote_def)
  ultimately show ?thesis using n a by (simp add: about_def)
qed

theorem fanout_notification_content_witness:
  "drop (length (notifications follow_db))
     (notifications (create_favorite_place_notifications (\<lambda>_. False) 0 (hd (places mall_db)) (blocked_ramp 2) True follow_db)) \<noteq> [] \<and>
   list_all (\<lambda>n. notification_report n = Some 6 \<and> \<not> is_read n) (drop (length (notifications follow_db))
     (notifications (create_favorite_place_notifications (\<lambda>_. False) 0 (hd (places mall_db)) (blocked_ramp 2) True follow_db)))"
proof -
  have ne: "drop (length (notifications follow_db))
     (notifications (create_favorite_place_notifications (\<lambda>_. False) 0 (hd (places mall_db)) (blocked_ramp 2) True follow_db)) \<noteq> []"
    by (simp add: create_favorite_place_notifications_def favorites_qs_def follow_db_def mall_db_def
        empty_db_def blocked_ramp_def Let_def)
  show ?thesis
    using ne fanout_notification_content [of follow_db "\<lambda>_. False" 0 "hd (places mall_db)" "blocked_ramp 2"]
    by (auto simp: blocked_ramp_def list_all_iff)
qed

text \<open>
  C12. Opening the notification page marks every notification of the user as read and
  touches no other user's; it shows at most 50, all the user's own, and, because the list
  is read after the update, every one of them already shows as read.
\<close>

theorem notifications_view_marks_read:
  "(\<forall>n \<in> set (notifications (snd (notifications_view u d))). notification_user n = u \<longrightarrow> is_read n) \<and>
   filter (\<lambda>n. notification_user n \<noteq> u) (notifications (snd (notifications_view u d))) =
     filter (\<lambda>n. notification_user n \<noteq> u) (notifications d) \<and>
   map notification_pk (notifications (snd (notifications_view u d))) = map notification_pk (notifications d) \<and>
   length (fst (notifications_view u d)) \<le> 50 \<and>
   (\<forall>n \<in> set (fst (notifications_view u d)). notification_user n = u \<and> is_read n)"
proof -
  have m: "\<And>n. notification_user (mark_read u n) = notification_user n"
    "\<And>n. notification_pk (mark_read u n) = notification_pk n"
    "\<And>n. notification_user n \<noteq> u \<Longrightarrow> mark_read u n = n"
    "\<And>n. is_read (mark_read u n) \<longleftrightarrow> is_read n \<or> notification_user n = u"
    by (auto simp: mark_read_def)
  have f: "filter (\<lambda>n. notification_user n \<noteq> u) (map (mark_read u) ns) =
           filter (\<lambda>n. notification_user n \<noteq> u) ns" for ns
    by (induction ns) (simp_all add: m)
  let ?ns = "map (mark_read u) (notifications d)"
  have c1: "\<forall>n \<in> set ?ns. notification_user n = u \<longrightarrow> is_read n" by (simp add: m)
  have c5: "\<forall>n \<in> set (take 50 (sort_key (\<lambda>n. - int (notification_created_at n))
                 (filter (\<lambda>n. notification_user n = u) ?ns))). notification_user n = u \<and> is_read n"
  proof
    fix n assume "n \<in> set (take 50 (sort_key (\<lambda>n. - int (notification_created_at n))
                 (filter (\<lambda>n. notification_user n = u) ?ns)))"
    then have "n \<in> set ?ns" and "notification_user n = u" by (auto dest: in_set_takeD)
    with c1 show "notification_user n = u \<and> is_read n" by blast
  qed
  have v: "notifications_view u d = (take 50 (sort_key (\<lambda>n. - int (notification_created_at n))
                 (filter (\<lambda>n. notification_user n = u) ?ns)), d\<lparr>notifications := ?ns\<rparr>)"
    by (simp add: notifications_view_def)
  have c3: "map notification_pk ?ns = map notification_pk (notifications d)" by (simp add: m(2) comp_def)
  have c4: "length (take 50 (sort_key (\<lambda>n. - int (notification_created_at n))
                 (filter (\<lambda>n. notification_user n = u) ?ns))) \<le> 50" by simp
  have e: "notifications (snd (notifications_view u d)) = ?ns" by (simp add: v)
  have g: "fst (notifications_view u d) = take 50 (sort_key (\<lambda>n. - int (notification_created_at n))
                 (filter (\<lambda>n. notification_user n = u) ?ns))" by (simp add: v)
  show ?thesis
    unfolding e g using c1 f [of "notifications d"] c3 c4 c5 by (intro conjI) assumption+
qed

theorem notifications_view_marks_read_witness:
  "fst (notifications_view 3 (follow_db\<lparr>notifications :=
      [new_notification follow_db 0 3 (hd (places mall_db)) (blocked_ramp 2)]\<rparr>)) \<noteq> [] \<and>
   list_all is_read (fst (notifications_view 3 (follow_db\<lparr>notifications :=
      [new_notification follow_db 0 3 (hd (places mall_db)) (blocked_ramp 2)]\<rparr>)))"
proof -
  have ne: "fst (notifications_view 3 (follow_db\<lparr>notifications :=
      [new_notification follow_db 0 3 (hd (places mall_db)) (blocked_ramp 2)]\<rparr>)) \<noteq> []"
    by (simp add: notifications_view_def new_notification_def mark_read_def)
  show ?thesis
    using ne notifications_view_marks_read [of 3 "follow_db\<lparr>notifications :=
      [new_notification follow_db 0 3 (hd (places mall_db)) (blocked_ramp 2)]\<rparr>"]
    by (simp add: list_all_iff)
qed

end
