(* ===== verification/Reports.thy ===== *)
theory Reports
  imports Notifications
begin

text \<open>
  The Report ledger.  \<open>ReportForm\<close> (\<open>src/core/forms.py\<close>, lines 82--146) cleans the
  submitted fields in their declaration order: the place (a \<open>ModelChoiceField\<close> over all
  places), the description (a \<open>CharField\<close> that strips whitespace), the rating (a
  \<open>ChoiceField\<close> over the strings 1 to 5), the tags (a \<open>MultipleChoiceField\<close> over
  \<open>TAGS_CHOICES\<close>, joined with commas by \<open>clean_tags\<close>) and the photo (an
  \<open>ImageField\<close> checked by \<open>clean_photo\<close>).  The views of \<open>src/core/views.py\<close>
  insert (\<open>report_view\<close>, lines 115--149), update (\<open>report_edit_view\<close>, 152--178) and
  delete (\<open>report_delete_view\<close>, 181--200) reports; the last two look the report up
  with \<open>get_object_or_404(Report, pk=pk, author=request.user)\<close>.  An insert fires the
  \<open>post_save\<close> receiver with \<open>created=True\<close>, an update with \<open>created=False\<close>.
  \<open>Report\<close> has no \<open>save\<close> override, so an insert through the ORM
  (\<open>Report.objects.create\<close>, the admin, the tests) checks only what the database checks:
  the \<open>CHECK (rating >= 0)\<close> of a \<open>PositiveSmallIntegerField\<close>.  Deletions follow the
  \<open>on_delete=CASCADE\<close> declarations of \<open>src/core/models.py\<close>.
\<close>

section \<open>\<open>ReportForm\<close>\<close>

datatype report_field = RF_place | RF_author | RF_description | RF_rating | RF_tags | RF_photo

datatype form_error =
  Required | Invalid_choice | Invalid_image | Image_too_big | Image_format | Max_chars nat | Min_value int
  | Max_value int

text \<open>
  An uploaded file: its name, its size in bytes, whether Pillow can open it, and
  \<open>content_type\<close> as \<open>clean_photo\<close> reads it: \<open>ImageField.to_python\<close> has replaced
  the browser's declared type with \<open>Image.MIME\<close> of the format Pillow detected.
\<close>

record upload =
  up_name :: string
  up_size :: nat
  up_content_type :: string
  up_is_image :: bool

record report_form_input =
  f_place :: string
  f_description :: string
  f_rating :: string
  f_tags :: "string list"
  f_photo :: "upload option"

text \<open>The cleaned data a valid form hands to \<open>save\<close>.\<close>

record report_data =
  rd_place :: place
  rd_description :: string
  rd_rating :: int
  rd_tags :: string
  rd_photo :: "string option"

definition TAGS_CHOICES :: "string list" where
  "TAGS_CHOICES = [''rampa'', ''ascensor'', ''bano'', ''estacionamiento'']"

definition rating_choices :: "string list" where
  "rating_choices = [''1'', ''2'', ''3'', ''4'', ''5'']"

text \<open>\<open>ModelChoiceField.clean\<close>: required, then \<open>Place.objects.get(pk=value)\<close>.\<close>

definition clean_place :: "db \<Rightarrow> string \<Rightarrow> form_error + place" where
  "clean_place d s =
     (if s = [] then Inl Required
      else case py_int s of
             None \<Rightarrow> Inl Invalid_choice
           | Some i \<Rightarrow> (if i < 0 then Inl Invalid_choice
                        else case get_place d (nat i) of None \<Rightarrow> Inl Invalid_choice | Some p \<Rightarrow> Inr p))"

text \<open>\<open>ChoiceField.clean\<close> of the rating; the model field then converts the string to an integer.\<close>

definition clean_rating :: "string \<Rightarrow> form_error + int" where
  "clean_rating s =
     (if s = [] then Inl Required
      else if s \<in> set rating_choices then Inr (int (digits_val 0 s)) else Inl Invalid_choice)"

text \<open>\<open>MultipleChoiceField.clean\<close>, then \<open>clean_tags\<close>: \<open>','.join(tags)\<close>.\<close>

definition clean_tags :: "string list \<Rightarrow> form_error + string" where
  "clean_tags ts = (if list_all (\<lambda>t. t \<in> set TAGS_CHOICES) ts then Inr (py_join '','' ts) else Inl Invalid_choice)"

text \<open>\<open>ImageField.clean\<close> (Pillow), then \<open>clean_photo\<close>: at most 5 MB, an image type.\<close>

definition clean_photo :: "upload option \<Rightarrow> form_error + upload option" where
  "clean_photo up =
     (case up of
        None \<Rightarrow> Inr None
      | Some u \<Rightarrow>
          if \<not> up_is_image u then Inl Invalid_image
          else if 5 * 1024 * 1024 < up_size u then Inl Image_too_big
          else (let ctype = py_lower (up_content_type u)
                in if prefix ''image/'' ctype \<and>
                      (\<exists>t \<in> set [''jpeg'', ''jpg'', ''png'', ''webp'']. py_in t ctype)
                   then Inr (Some u) else Inl Image_format))"

text \<open>
  The photo field of a bound form.  Without an upload \<open>ImageField.clean\<close> answers the
  initial value, the report's stored \<open>FieldFile\<close>, and \<open>clean_photo\<close> examines that:
  a stored file has no \<open>content_type\<close>, so \<open>ctype\<close> is empty and the photo is refused
  (the model takes the stored file to be present and at most 5 MB; a missing one makes
  \<open>img.size\<close> raise, a bigger one fails the size check first).
\<close>

definition clean_photo_field :: "string option \<Rightarrow> upload option \<Rightarrow> form_error + upload option" where
  "clean_photo_field old up =
     (case up of
        Some u \<Rightarrow> clean_photo (Some u)
      | None \<Rightarrow> (case old of None \<Rightarrow> Inr None | Some n \<Rightarrow> if n = [] then Inr None else Inl Image_format))"

text \<open>
  \<open>ModelForm._post_clean\<close>: \<open>Report.full_clean\<close> on the fields that cleaned; of the
  model's validators only \<open>tags\<close>' \<open>max_length=255\<close> can fail after the form's checks
  (a submission may repeat a choice, and the joined string grows with each copy).
\<close>

definition tags_model_errors :: "form_error + string \<Rightarrow> (report_field \<times> form_error) list" where
  "tags_model_errors ct = (case ct of Inr t \<Rightarrow> if 255 < length t then [(RF_tags, Max_chars 255)] else [] | Inl _ \<Rightarrow> [])"

definition field_err :: "report_field \<Rightarrow> form_error + 'a \<Rightarrow> (report_field \<times> form_error) list" where
  "field_err f r = (case r of Inl e \<Rightarrow> [(f, e)] | Inr _ \<Rightarrow> [])"

text \<open>
  \<open>form.is_valid()\<close>: the errors of all fields and of the model check, or the cleaned
  data.  A new photo is stored under \<open>reports/\<close>; without one the instance keeps the
  photo it had, which can only be none (see \<open>clean_photo_field\<close>).
\<close>

definition report_form_clean ::
  "db \<Rightarrow> string option \<Rightarrow> report_form_input \<Rightarrow> (report_field \<times> form_error) list + report_data" where
  "report_form_clean d old_photo inp =
     (let cp = clean_place d (f_place inp); cr = clean_rating (f_rating inp); ct = clean_tags (f_tags inp);
          cph = clean_photo_field old_photo (f_photo inp); merr = tags_model_errors ct
      in case (cp, cr, ct, cph) of
           (Inr p, Inr r, Inr t, Inr ph) \<Rightarrow>
             if merr = [] then
               Inr \<lparr>rd_place = p, rd_description = py_strip (f_description inp), rd_rating = r, rd_tags = t,
                    rd_photo = (case ph of None \<Rightarrow> old_photo | Some u \<Rightarrow> Some (''reports/'' @ up_name u))\<rparr>
             else Inl merr
         | (a, b, c, e) \<Rightarrow> Inl (field_err RF_place a @ field_err RF_rating b @ field_err RF_tags c
                                @ field_err RF_photo e @ merr))"

text \<open>
  \<open>ReportForm.__init__\<close> for an existing report: the stored tags, split at commas and
  stripped, that are still valid choices, preselect the checkboxes.
\<close>

definition report_form_initial_tags :: "string \<Rightarrow> string list" where
  "report_form_initial_tags s =
     (if s = [] then []
      else filter (\<lambda>t. t \<in> set TAGS_CHOICES)
             (map py_strip (filter (\<lambda>t. py_strip t \<noteq> []) (py_split CHR '','' s))))"

section \<open>Inserting a report\<close>

datatype db_error = IntegrityError | OverflowError

text \<open>
  \<open>Report.objects.create(...)\<close> or \<open>save()\<close> of a new report on SQLite: the
  \<open>sqlite3\<close> module refuses an integer outside 64 bits with \<open>OverflowError\<close>, the
  database checks \<open>rating >= 0\<close> (\<open>IntegrityError\<close>); the row is inserted;
  \<open>post_save\<close> fires with \<open>created=True\<close>.
\<close>

definition report_create ::
  "(mail \<Rightarrow> bool) \<Rightarrow> timestamp \<Rightarrow> user_id \<Rightarrow> report_data \<Rightarrow> db \<Rightarrow> db_error + report \<times> db" where
  "report_create ok now u rd d =
     (if rd_rating rd < - (2 ^ 63) \<or> 2 ^ 63 \<le> rd_rating rd then Inl OverflowError
      else if rd_rating rd < 0 then Inl IntegrityError
      else (let r = \<lparr>report_pk = next_pk d, report_place = place_pk (rd_place rd), report_author = u,
                     description = rd_description rd, rating = rd_rating rd, report_tags = rd_tags rd,
                     photo = rd_photo rd, report_created_at = now\<rparr>;
                d1 = d\<lparr>reports := reports d @ [r], next_pk := Suc (next_pk d)\<rparr>
            in Inr (r, create_favorite_place_notifications ok now (rd_place rd) r True d1)))"

section \<open>The views\<close>

text \<open>\<open>report_view\<close>, GET: the place preselected by \<open>?place=<id>\<close>, if it parses and exists.\<close>

definition report_view_initial :: "db \<Rightarrow> string option \<Rightarrow> place option" where
  "report_view_initial d raw =
     (case raw of
        None \<Rightarrow> None
      | Some s \<Rightarrow> if s = [] then None
                  else case py_int s of
                         None \<Rightarrow> None
                       | Some i \<Rightarrow> if i < 0 then None else get_place d (nat i))"

definition flash_report :: "level \<Rightarrow> string \<Rightarrow> flash" where
  "flash_report lv t = \<lparr>flash_level = lv, flash_text = t, flash_tag = ''report''\<rparr>"

definition msg_check_fields :: string where
  "msg_check_fields = ''Revisa los campos marcados.''"

definition msg_report_sent :: string where
  "msg_report_sent = CHR 0xA1 # ''Reporte enviado! Gracias por colaborar.''"

text \<open>\<open>report_view\<close>, POST.\<close>

definition report_view_post ::
  "(mail \<Rightarrow> bool) \<Rightarrow> timestamp \<Rightarrow> user_id \<Rightarrow> report_form_input \<Rightarrow> db \<Rightarrow> response \<times> flash list \<times> db" where
  "report_view_post ok now u inp d =
     (case report_form_clean d None inp of
        Inl errs \<Rightarrow> (Render ''core/report_form.html'', [flash_report Error msg_check_fields], d)
      | Inr rd \<Rightarrow>
          (case report_create ok now u rd d of
             Inl e \<Rightarrow> (ServerError, [], d)
           | Inr (r, d') \<Rightarrow>
               (Redirect ''home'',
                [flash_report Success msg_report_sent], d')))"

text \<open>\<open>get_object_or_404(Report, pk=pk, author=request.user)\<close>.\<close>

definition get_own_report :: "db \<Rightarrow> user_id \<Rightarrow> report_id \<Rightarrow> report option" where
  "get_own_report d u k = find (\<lambda>r. report_pk r = k \<and> report_author r = u) (reports d)"

text \<open>\<open>form.save()\<close> on an existing report: an \<open>UPDATE\<close>, then \<open>post_save\<close> with \<open>created=False\<close>.\<close>

definition report_update :: "(mail \<Rightarrow> bool) \<Rightarrow> timestamp \<Rightarrow> report \<Rightarrow> report_data \<Rightarrow> db \<Rightarrow> db" where
  "report_update ok now r rd d =
     (let r' = r\<lparr>report_place := place_pk (rd_place rd), description := rd_description rd,
                 rating := rd_rating rd, report_tags := rd_tags rd, photo := rd_photo rd\<rparr>;
          d1 = d\<lparr>reports := map (\<lambda>x. if report_pk x = report_pk r then r' else x) (reports d)\<rparr>
      in create_favorite_place_notifications ok now (rd_place rd) r' False d1)"

text \<open>\<open>report_edit_view\<close>, POST.\<close>

definition report_edit_post ::
  "(mail \<Rightarrow> bool) \<Rightarrow> timestamp \<Rightarrow> user_id \<Rightarrow> report_id \<Rightarrow> report_form_input \<Rightarrow> db \<Rightarrow> response \<times> flash list \<times> db" where
  "report_edit_post ok now u k inp d =
     (case get_own_report d u k of
        None \<Rightarrow> (NotFound, [], d)
      | Some r \<Rightarrow>
          (case report_form_clean d (photo r) inp of
             Inl errs \<Rightarrow> (Render ''core/report_form.html'', [flash_report Error msg_check_fields], d)
           | Inr rd \<Rightarrow> (Redirect ''my_reports'',
                         [flash_report Success ''Reporte actualizado correctamente.''],
                         report_update ok now r rd d)))"

text \<open>
  \<open>report.delete()\<close>: the comments and the notifications that reference the report go
  with it (\<open>on_delete=CASCADE\<close>).
\<close>

definition report_delete :: "report_id \<Rightarrow> db \<Rightarrow> db" where
  "report_delete k d =
     d\<lparr>reports := filter (\<lambda>r. report_pk r \<noteq> k) (reports d),
       comments := filter (\<lambda>c. comment_report c \<noteq> k) (comments d),
       notifications := filter (\<lambda>n. notification_report n \<noteq> Some k) (notifications d)\<rparr>"

text \<open>\<open>report_delete_view\<close>: POST deletes; GET only asks for confirmation.\<close>

definition report_delete_view :: "bool \<Rightarrow> user_id \<Rightarrow> report_id \<Rightarrow> db \<Rightarrow> response \<times> flash list \<times> db" where
  "report_delete_view is_post u k d =
     (case get_own_report d u k of
        None \<Rightarrow> (NotFound, [], d)
      | Some r \<Rightarrow>
          if is_post
          then (Redirect ''my_reports'', [flash_report Success ''Reporte eliminado correctamente.''],
                report_delete (report_pk r) d)
          else (Render ''core/report_confirm_delete.html'', [], d))"

section \<open>Deleting a place\<close>

text \<open>
  \<open>place.delete()\<close> (the admin): its reports with their comments and notifications, the
  notifications that name the place, and its rows of the favorites table.
\<close>

definition place_delete :: "place_id \<Rightarrow> db \<Rightarrow> db" where
  "place_delete k d =
     (let gone = map report_pk (filter (\<lambda>r. report_place r = k) (reports d))
      in d\<lparr>places := filter (\<lambda>p. place_pk p \<noteq> k) (places d),
           reports := filter (\<lambda>r. report_place r \<noteq> k) (reports d),
           comments := filter (\<lambda>c. comment_report c \<notin> set gone) (comments d),
           notifications := filter (\<lambda>n. notification_place n \<noteq> Some k \<and>
                                        (\<forall>g \<in> set gone. notification_report n \<noteq> Some g)) (notifications d),
           favorites := filter (\<lambda>f. fav_place f \<noteq> k) (favorites d)\<rparr>)"

section \<open>Lemmas\<close>

lemma clean_rating_range:
  assumes "clean_rating s = Inr r"
  shows "1 \<le> r \<and> r \<le> 5"
proof -
  from assms have "s \<in> set rating_choices" and r: "r = int (digits_val 0 s)"
    by (auto simp: clean_rating_def split: if_splits)
  then show ?thesis by (auto simp: rating_choices_def)
qed

lemma report_form_clean_Inr:
  assumes "report_form_clean d op inp = Inr rd"
  shows "clean_place d (f_place inp) = Inr (rd_place rd) \<and> clean_rating (f_rating inp) = Inr (rd_rating rd) \<and>
         clean_tags (f_tags inp) = Inr (rd_tags rd)"
  using assms
  by (auto simp: report_form_clean_def Let_def split: sum.splits if_splits)

lemma report_form_clean_rating:
  "report_form_clean d op inp = Inr rd \<Longrightarrow> 1 \<le> rd_rating rd \<and> rd_rating rd \<le> 5"
  using report_form_clean_Inr clean_rating_range by blast

lemma clean_place_found: "clean_place d s = Inr p \<Longrightarrow> p \<in> set (places d)"
  by (auto simp: clean_place_def get_place_def split: option.splits if_splits dest: find_Some_mem)

lemma report_form_clean_bad_rating:
  "f_rating inp \<notin> set rating_choices \<Longrightarrow> \<exists>errs. report_form_clean d op inp = Inl errs"
  by (auto simp: report_form_clean_def clean_rating_def Let_def split: sum.splits)

lemma report_create_Inr:
  assumes "0 \<le> rd_rating rd" and "rd_rating rd < 2 ^ 63"
  shows "report_create ok now u rd d =
           Inr (\<lparr>report_pk = next_pk d, report_place = place_pk (rd_place rd), report_author = u,
                  description = rd_description rd, rating = rd_rating rd, report_tags = rd_tags rd,
                  photo = rd_photo rd, report_created_at = now\<rparr>,
                create_favorite_place_notifications ok now (rd_place rd)
                  \<lparr>report_pk = next_pk d, report_place = place_pk (rd_place rd), report_author = u,
                   description = rd_description rd, rating = rd_rating rd, report_tags = rd_tags rd,
                   photo = rd_photo rd, report_created_at = now\<rparr> True
                  (d\<lparr>reports := reports d @ [\<lparr>report_pk = next_pk d, report_place = place_pk (rd_place rd),
                     report_author = u, description = rd_description rd, rating = rd_rating rd,
                     report_tags = rd_tags rd, photo = rd_photo rd, report_created_at = now\<rparr>],
                     next_pk := Suc (next_pk d)\<rparr>))"
  using assms by (simp add: report_create_def Let_def)

lemma report_view_post_valid:
  assumes "report_form_clean d None inp = Inr rd"
  shows "report_view_post ok now u inp d =
           (case report_create ok now u rd d of Inl e \<Rightarrow> (ServerError, [], d)
            | Inr (r, d') \<Rightarrow> (Redirect ''home'',
                 [flash_report Success msg_report_sent], d'))"
  using assms by (simp add: report_view_post_def)

lemma report_update_tables [simp]:
  "notifications (report_update ok now r rd d) = notifications d"
  "comments (report_update ok now r rd d) = comments d"
  "places (report_update ok now r rd d) = places d"
  "outbox (report_update ok now r rd d) = outbox d"
  by (simp_all add: report_update_def Let_def create_favorite_place_notifications_def)

lemma get_own_report_Some:
  "get_own_report d u k = Some r \<Longrightarrow> r \<in> set (reports d) \<and> report_pk r = k \<and> report_author r = u"
  by (auto simp: get_own_report_def dest: find_Some_mem)

lemma get_own_report_other:
  assumes "distinct (map report_pk (reports d))" and "r \<in> set (reports d)" and "report_author r \<noteq> u"
  shows "get_own_report d u (report_pk r) = None"
proof -
  have "\<forall>x \<in> set (reports d). report_pk x = report_pk r \<longrightarrow> x = r"
    using assms(1,2) by (metis distinct_map inj_on_eq_iff)
  with assms(3) show ?thesis by (auto simp: get_own_report_def find_None_iff)
qed

lemma reports_report_update:
  "reports (report_update ok now r rd d) =
     map (\<lambda>x. if report_pk x = report_pk r
               then r\<lparr>report_place := place_pk (rd_place rd), description := rd_description rd,
                      rating := rd_rating rd, report_tags := rd_tags rd, photo := rd_photo rd\<rparr>
               else x) (reports d)"
  by (simp add: report_update_def Let_def create_favorite_place_notifications_def)

lemma report_view_post_reports:
  "reports (snd (snd (report_view_post ok now u inp d))) = reports d \<or>
   (\<exists>rd. report_form_clean d None inp = Inr rd \<and>
      reports (snd (snd (report_view_post ok now u inp d))) =
        reports d @ [\<lparr>report_pk = next_pk d, report_place = place_pk (rd_place rd), report_author = u,
                      description = rd_description rd, rating = rd_rating rd, report_tags = rd_tags rd,
                      photo = rd_photo rd, report_created_at = now\<rparr>])"
proof (cases "report_form_clean d None inp")
  case (Inl errs)
  then show ?thesis by (simp add: report_view_post_def)
next
  case (Inr rd)
  then have "0 \<le> rd_rating rd" "rd_rating rd < 2 ^ 63" using report_form_clean_rating by fastforce+
  with Inr show ?thesis by (simp add: report_view_post_valid report_create_Inr)
qed

lemma tag_choice_shape:
  "t \<in> set TAGS_CHOICES \<Longrightarrow> py_strip t = t \<and> t \<noteq> [] \<and> CHR '','' \<notin> set t"
  by (auto simp: TAGS_CHOICES_def py_strip_def py_rstrip_def py_lstrip_def py_isspace_def)

lemmas report_input_eval = report_form_clean_def clean_place_def clean_rating_def clean_tags_def
  clean_photo_def clean_photo_field_def tags_model_errors_def Let_def py_int_def int_digits_def int_digits_val_def py_strip_def py_rstrip_def py_lstrip_def py_isspace_def is_digit_def
  rating_choices_def TAGS_CHOICES_def field_err_def get_place_def

text \<open>A submission of the report form: place 1, the given rating, the tag \<open>ascensor\<close>.\<close>

definition ascensor_input :: "string \<Rightarrow> report_form_input" where
  "ascensor_input rt = \<lparr>f_place = ''1'', f_description = '' Ascensor operativo '', f_rating = rt,
     f_tags = [''ascensor''], f_photo = None\<rparr>"

lemma ascensor_input_clean:
  "report_form_clean mall_db None (ascensor_input ''4'') =
     Inr \<lparr>rd_place = hd (places mall_db), rd_description = ''Ascensor operativo'', rd_rating = 4,
          rd_tags = ''ascensor'', rd_photo = None\<rparr>"
  by (simp add: report_input_eval ascensor_input_def mall_db_def)

section \<open>Properties of the Report ledger\<close>

text \<open>
  C13. The views keep every stored rating between 1 and 5: creation and edition accept only
  the choices 1 to 5 of the form.
\<close>

theorem report_views_keep_rating_range:
  assumes "\<forall>r \<in> set (reports d). 1 \<le> rating r \<and> rating r \<le> 5"
  shows "(\<forall>r \<in> set (reports (snd (snd (report_view_post ok now u inp d)))). 1 \<le> rating r \<and> rating r \<le> 5) \<and>
         (\<forall>r \<in> set (reports (snd (snd (report_edit_post ok now u k inp d)))). 1 \<le> rating r \<and> rating r \<le> 5)"
proof
  show "\<forall>r \<in> set (reports (snd (snd (report_view_post ok now u inp d)))). 1 \<le> rating r \<and> rating r \<le> 5"
    using report_view_post_reports [of ok now u inp d] assms report_form_clean_rating by fastforce
next
  show "\<forall>r \<in> set (reports (snd (snd (report_edit_post ok now u k inp d)))). 1 \<le> rating r \<and> rating r \<le> 5"
  proof (cases "get_own_report d u k")
    case None
    with assms show ?thesis by (simp add: report_edit_post_def)
  next
    case (Some r)
    show ?thesis
    proof (cases "report_form_clean d (photo r) inp")
      case (Inl errs)
      with Some assms show ?thesis by (simp add: report_edit_post_def)
    next
      case (Inr rd)
      with report_form_clean_rating have "1 \<le> rd_rating rd \<and> rd_rating rd \<le> 5" by blast
      with Some Inr assms show ?thesis
        by (auto simp: report_edit_post_def reports_report_update)
    qed
  qed
qed

theorem report_views_keep_rating_range_witness:
  "reports mall_db = [] \<and>
   reports (snd (snd (report_view_post (\<lambda>_. True) 0 7 (ascensor_input ''4'') mall_db))) \<noteq> [] \<and>
   list_all (\<lambda>r. 1 \<le> rating r \<and> rating r \<le> 5)
     (reports (snd (snd (report_view_post (\<lambda>_. True) 0 7 (ascensor_input ''4'') mall_db))))"
proof -
  have e: "reports mall_db = []" by (simp add: mall_db_def empty_db_def)
  then have h: "\<forall>r \<in> set (reports mall_db). 1 \<le> rating r \<and> rating r \<le> 5" by simp
  have ne: "reports (snd (snd (report_view_post (\<lambda>_. True) 0 7 (ascensor_input ''4'') mall_db))) \<noteq> []"
    by (simp add: report_view_post_valid [OF ascensor_input_clean] report_create_Inr)
  show ?thesis
    using e ne report_views_keep_rating_range [OF h, of "\<lambda>_. True" 0 7 "ascensor_input ''4''"]
    by (simp add: list_all_iff)
qed

text \<open>
  C14. A submission whose rating is not one of 1 to 5 stores nothing and answers with the
  form again and the error message of the report form.
\<close>

theorem report_view_rejects_bad_rating:
  assumes "f_rating inp \<notin> set rating_choices"
  shows "report_view_post ok now u inp d =
           (Render ''core/report_form.html'', [flash_report Error msg_check_fields], d)"
  using report_form_clean_bad_rating [OF assms, of d None]
  by (auto simp: report_view_post_def)

theorem report_view_rejects_bad_rating_witness:
  "f_rating (ascensor_input ''7'') \<notin> set rating_choices \<and>
   report_view_post (\<lambda>_. True) 0 7 (ascensor_input ''7'') mall_db =
     (Render ''core/report_form.html'', [flash_report Error msg_check_fields], mall_db)"
proof -
  have h: "f_rating (ascensor_input ''7'') \<notin> set rating_choices"
    by (simp add: ascensor_input_def rating_choices_def)
  show ?thesis using h report_view_rejects_bad_rating [OF h] by simp
qed



text \<open>
  C16. Editing a report never notifies anybody: the notifications and the outbox are those
  before the edit, on every path of the view.
\<close>

theorem report_edit_never_notifies:
  "notifications (snd (snd (report_edit_post ok now u k inp d))) = notifications d \<and>
   outbox (snd (snd (report_edit_post ok now u k inp d))) = outbox d"
  by (simp add: report_edit_post_def split: option.splits sum.splits)

text \<open>
  C17. A user who is not the author of a report can neither edit nor delete it: both views
  answer 404, as for a report that does not exist, and change nothing.
\<close>

theorem report_not_author_not_found:
  assumes "distinct (map report_pk (reports d))" and "r \<in> set (reports d)" and "report_author r \<noteq> u"
  shows "report_edit_post ok now u (report_pk r) inp d = (NotFound, [], d) \<and>
         report_delete_view is_post u (report_pk r) d = (NotFound, [], d)"
  using get_own_report_other [OF assms]
  by (simp add: report_edit_post_def report_delete_view_def)

text \<open>The database of \<open>NotificationModelTest\<close> after user 2 reported on place 1 through the form.\<close>

definition reported_db :: db where
  "reported_db = snd (snd (report_view_post (\<lambda>_. True) 0 2 (ascensor_input ''4'') follow_db))"

text \<open>The same database after the admin attached a photo to the report.\<close>

definition photo_db :: db where
  "photo_db = reported_db\<lparr>reports := map (\<lambda>r. r\<lparr>photo := Some ''reports/rampa.jpg''\<rparr>) (reports reported_db)\<rparr>"

lemma reported_db_reports:
  "reports reported_db = [\<lparr>report_pk = 6, report_place = 1, report_author = 2,
     description = ''Ascensor operativo'', rating = 4, report_tags = ''ascensor'', photo = None,
     report_created_at = 0\<rparr>]"
proof -
  have c: "report_form_clean follow_db None (ascensor_input ''4'') =
     Inr \<lparr>rd_place = hd (places mall_db), rd_description = ''Ascensor operativo'', rd_rating = 4,
          rd_tags = ''ascensor'', rd_photo = None\<rparr>"
    by (simp add: report_input_eval ascensor_input_def follow_db_def mall_db_def)
  show ?thesis
    by (simp add: reported_db_def report_view_post_valid [OF c] report_create_Inr)
       (simp add: follow_db_def mall_db_def empty_db_def)
qed

theorem report_not_author_not_found_witness:
  "report_edit_post (\<lambda>_. True) 0 3 6 (ascensor_input ''1'') reported_db = (NotFound, [], reported_db) \<and>
   report_delete_view True 3 6 reported_db = (NotFound, [], reported_db)"
proof -
  have d: "distinct (map report_pk (reports reported_db))" by (simp add: reported_db_reports)
  have m: "hd (reports reported_db) \<in> set (reports reported_db)" by (simp add: reported_db_reports)
  have a: "report_author (hd (reports reported_db)) \<noteq> 3" by (simp add: reported_db_reports)
  show ?thesis
    using report_not_author_not_found [OF d m a, of "\<lambda>_. True" 0 "ascensor_input ''1''" True]
    by (simp add: reported_db_reports)
qed

text \<open>
  C18. When its author deletes a report, the report, its comments and the notifications
  that refer to it are gone, and every other comment, notification and place is kept.
\<close>

theorem report_delete_cascades:
  assumes "get_own_report d u k = Some r"
  shows "k \<notin> report_pk ` set (reports (snd (snd (report_delete_view True u k d)))) \<and>
         (\<forall>c \<in> set (comments (snd (snd (report_delete_view True u k d)))). comment_report c \<noteq> k) \<and>
         (\<forall>n \<in> set (notifications (snd (snd (report_delete_view True u k d)))). notification_report n \<noteq> Some k) \<and>
         (\<forall>c \<in> set (comments d). comment_report c \<noteq> k \<longrightarrow>
             c \<in> set (comments (snd (snd (report_delete_view True u k d))))) \<and>
         (\<forall>n \<in> set (notifications d). notification_report n \<noteq> Some k \<longrightarrow>
             n \<in> set (notifications (snd (snd (report_delete_view True u k d))))) \<and>
         places (snd (snd (report_delete_view True u k d))) = places d"
proof -
  from get_own_report_Some [OF assms] have "report_pk r = k" by simp
  with assms show ?thesis by (auto simp: report_delete_view_def report_delete_def)
qed

theorem report_delete_cascades_witness:
  "get_own_report reported_db 2 6 = Some (hd (reports reported_db)) \<and>
   6 \<notin> report_pk ` set (reports (snd (snd (report_delete_view True 2 6 reported_db)))) \<and>
   list_all (\<lambda>n. notification_report n \<noteq> Some 6)
     (notifications (snd (snd (report_delete_view True 2 6 reported_db)))) \<and>
   places (snd (snd (report_delete_view True 2 6 reported_db))) = places reported_db"
proof -
  have g: "get_own_report reported_db 2 6 = Some (hd (reports reported_db))"
    by (simp add: get_own_report_def reported_db_reports)
  show ?thesis
    using g report_delete_cascades [OF g] unfolding list_all_iff by blast
qed



theorem report_form_tags_roundtrip:
  assumes "clean_tags ts = Inr s"
  shows "report_form_initial_tags s = ts"
proof -
  from assms have v: "list_all (\<lambda>t. t \<in> set TAGS_CHOICES) ts" and s: "s = py_join '','' ts"
    by (auto simp: clean_tags_def split: if_splits)
  then have shape: "\<forall>t \<in> set ts. t \<noteq> [] \<and> py_strip t = t \<and> CHR '','' \<notin> set t"
    using tag_choice_shape by (auto simp: list_all_iff)
  show ?thesis
  proof (cases "ts = []")
    case True
    with s show ?thesis by (simp add: report_form_initial_tags_def)
  next
    case False
    with py_split_join_pieces [OF shape] s shape v show ?thesis
      by (simp add: report_form_initial_tags_def list_all_iff filter_id_conv map_idI)
  qed
qed

theorem report_form_tags_roundtrip_witness:
  "clean_tags [''rampa'', ''bano''] = Inr ''rampa,bano'' \<and>
   report_form_initial_tags ''rampa,bano'' = [''rampa'', ''bano'']"
proof -
  have h: "clean_tags [''rampa'', ''bano''] = Inr ''rampa,bano''"
    by (simp add: clean_tags_def TAGS_CHOICES_def)
  show ?thesis using h report_form_tags_roundtrip [OF h] by simp
qed

text \<open>
  The report form never lets a submission reach the database's rating check: the
  create view never ends in a server error.
\<close>

theorem report_view_no_server_error:
  "fst (report_view_post ok now u inp d) \<noteq> ServerError"
proof (cases "report_form_clean d None inp")
  case (Inl errs)
  then show ?thesis by (simp add: report_view_post_def)
next
  case (Inr rd)
  then have "0 \<le> rd_rating rd" "rd_rating rd < 2 ^ 63" using report_form_clean_rating by fastforce+
  with Inr show ?thesis by (simp add: report_view_post_valid report_create_Inr)
qed

end
