(* ===== verification/Comments.thy ===== *)
theory Comments
  imports Reports
begin

text \<open>
  The Comment thread.  \<open>report_detail\<close> (\<open>src/core/views.py\<close>, lines 482--522) looks
  the report up (404 if it does not exist); a POST from an anonymous visitor is sent to the
  login page; otherwise the field \<open>text\<close> (missing: the empty string) is stripped, a
  blank comment only adds an error message and the page is rendered, a non-blank one is
  inserted (\<open>Comment.objects.create\<close>) and the browser redirected to the detail page.
  The page lists \<open>report.comments\<close>, ordered by \<open>Comment.Meta.ordering =
  ['created_at']\<close> (\<open>src/core/models.py\<close>, lines 201--216).  Ties between equal
  timestamps keep insertion order in the model (\<open>sort_key\<close> is stable); the database
  does not promise an order for them.
\<close>

text \<open>The acting user: \<open>request.user\<close> is anonymous or a logged-in user.\<close>

datatype actor = Anonymous | Authenticated user_id

text \<open>The request: a GET, or a POST whose body may lack the field \<open>text\<close>.\<close>

datatype detail_request = Detail_GET | Detail_POST "string option"

definition flash_comment :: "level \<Rightarrow> string \<Rightarrow> flash" where
  "flash_comment lv t = \<lparr>flash_level = lv, flash_text = t, flash_tag = ''comment''\<rparr>"

definition msg_login_to_comment :: string where
  "msg_login_to_comment = ''Debes iniciar sesi'' @ [CHR 0xF3] @ ''n para comentar.''"

definition msg_comment_empty :: string where
  "msg_comment_empty = ''El comentario no puede estar vac'' @ [CHR 0xED] @ ''o.''"

definition msg_comment_published :: string where
  "msg_comment_published = ''Comentario publicado.''"

text \<open>\<open>Comment.objects.create(report=report, author=request.user, text=text)\<close>.\<close>

definition comment_create :: "timestamp \<Rightarrow> report \<Rightarrow> user_id \<Rightarrow> string \<Rightarrow> db \<Rightarrow> comment \<times> db" where
  "comment_create now r u t d =
     (let c = \<lparr>comment_pk = next_pk d, comment_report = report_pk r, comment_author = u,
               comment_text = t, comment_created_at = now\<rparr>
      in (c, d\<lparr>comments := comments d @ [c], next_pk := Suc (next_pk d)\<rparr>))"

text \<open>\<open>report.comments.select_related('author')\<close> under the model's ordering.\<close>

definition report_comments :: "db \<Rightarrow> report \<Rightarrow> comment list" where
  "report_comments d r =
     sort_key comment_created_at (filter (\<lambda>c. comment_report c = report_pk r) (comments d))"

text \<open>
  \<open>report_detail\<close>: the response, the comments the rendered page lists (none on a
  redirect), the messages added, and the database afterwards.
\<close>

definition report_detail ::
  "timestamp \<Rightarrow> actor \<Rightarrow> report_id \<Rightarrow> detail_request \<Rightarrow> db \<Rightarrow>
     response \<times> comment list \<times> flash list \<times> db" where
  "report_detail now who k req d =
     (case get_report d k of
        None \<Rightarrow> (NotFound, [], [], d)
      | Some r \<Rightarrow>
          (case req of
             Detail_GET \<Rightarrow> (Render ''core/report_detail.html'', report_comments d r, [], d)
           | Detail_POST txt \<Rightarrow>
               (case who of
                  Anonymous \<Rightarrow> (Redirect ''login'', [], [flash_comment Error msg_login_to_comment], d)
                | Authenticated u \<Rightarrow>
                    (let t = py_strip (case txt of None \<Rightarrow> [] | Some s \<Rightarrow> s)
                     in if t = []
                        then (Render ''core/report_detail.html'', report_comments d r,
                              [flash_comment Error msg_comment_empty], d)
                        else (Redirect ''report_detail'', [],
                              [flash_comment Success msg_comment_published],
                              snd (comment_create now r u t d))))))"

section \<open>Lemmas\<close>

lemma comment_create_tables [simp]:
  "users (snd (comment_create now r u t d)) = users d"
  "profiles (snd (comment_create now r u t d)) = profiles d"
  "favorites (snd (comment_create now r u t d)) = favorites d"
  "places (snd (comment_create now r u t d)) = places d"
  "reports (snd (comment_create now r u t d)) = reports d"
  "notifications (snd (comment_create now r u t d)) = notifications d"
  "outbox (snd (comment_create now r u t d)) = outbox d"
  "comments (snd (comment_create now r u t d)) = comments d @ [fst (comment_create now r u t d)]"
  "next_pk (snd (comment_create now r u t d)) = Suc (next_pk d)"
  by (simp_all add: comment_create_def Let_def)

lemma comment_create_fst [simp]:
  "fst (comment_create now r u t d) =
     \<lparr>comment_pk = next_pk d, comment_report = report_pk r, comment_author = u,
      comment_text = t, comment_created_at = now\<rparr>"
  by (simp add: comment_create_def Let_def)

lemma report_detail_found:
  "get_report d k = Some r \<Longrightarrow> report_detail now who k req d =
     (case req of
        Detail_GET \<Rightarrow> (Render ''core/report_detail.html'', report_comments d r, [], d)
      | Detail_POST txt \<Rightarrow>
          (case who of
             Anonymous \<Rightarrow> (Redirect ''login'', [], [flash_comment Error msg_login_to_comment], d)
           | Authenticated u \<Rightarrow>
               (let t = py_strip (case txt of None \<Rightarrow> [] | Some s \<Rightarrow> s)
                in if t = []
                   then (Render ''core/report_detail.html'', report_comments d r,
                         [flash_comment Error msg_comment_empty], d)
                   else (Redirect ''report_detail'', [],
                         [flash_comment Success msg_comment_published],
                         snd (comment_create now r u t d)))))"
  by (simp add: report_detail_def)

lemma get_report_Some: "get_report d k = Some r \<Longrightarrow> r \<in> set (reports d) \<and> report_pk r = k"
  by (auto simp: get_report_def dest: find_Some_mem)

lemma report_view_post_comments:
  "comments (snd (snd (report_view_post ok now u inp d))) = comments d"
  by (simp add: report_view_post_def report_create_def Let_def split: sum.splits)

lemma reported_db_report_6: "get_report reported_db 6 = Some (hd (reports reported_db))"
  by (simp add: get_report_def reported_db_reports)

section \<open>Properties of the Comment thread\<close>

text \<open>
  C22. A comment that is empty or whitespace only (or a POST without the field) creates no
  row: the page is rendered again with the error message \<open>El comentario no puede estar
  vac\<acute>io.\<close> and the database is unchanged.
\<close>

theorem comment_blank_rejected:
  assumes "get_report d k = Some r"
    and "\<forall>c \<in> set (case txt of None \<Rightarrow> [] | Some s \<Rightarrow> s). py_isspace c"
  shows "report_detail now (Authenticated u) k (Detail_POST txt) d =
           (Render ''core/report_detail.html'', report_comments d r, [flash_comment Error msg_comment_empty], d)"
proof -
  have "py_strip (case txt of None \<Rightarrow> [] | Some s \<Rightarrow> s) = []"
    using assms(2) by (simp add: py_strip_Nil_iff)
  then show ?thesis by (simp add: report_detail_found [OF assms(1)])
qed

theorem comment_blank_rejected_witness:
  "report_detail 9 (Authenticated 3) 6 (Detail_POST (Some ''  '')) reported_db =
     (Render ''core/report_detail.html'', report_comments reported_db (hd (reports reported_db)),
      [flash_comment Error msg_comment_empty], reported_db)"
  by (rule comment_blank_rejected [OF reported_db_report_6]) (simp add: py_isspace_def)

text \<open>
  C23. A logged-in user's non-blank comment on an existing report inserts exactly one row:
  for that report, by that user, with the stripped text and a fresh key, whatever its length
  (the \<open>max_length=1000\<close> of \<open>Comment.text\<close> is not checked); nothing else changes
  and the browser is sent back to the detail page.
\<close>

theorem comment_nonblank_appends_one:
  assumes "get_report d k = Some r" and "py_strip t \<noteq> []"
  shows "\<exists>c. report_detail now (Authenticated u) k (Detail_POST (Some t)) d =
             (Redirect ''report_detail'', [], [flash_comment Success msg_comment_published],
              d\<lparr>comments := comments d @ [c], next_pk := Suc (next_pk d)\<rparr>) \<and>
           comment_pk c = next_pk d \<and> comment_report c = k \<and> comment_author c = u \<and>
           comment_text c = py_strip t \<and> comment_created_at c = now"
proof -
  have k: "report_pk r = k" using get_report_Some [OF assms(1)] by simp
  let ?c = "\<lparr>comment_pk = next_pk d, comment_report = k, comment_author = u,
             comment_text = py_strip t, comment_created_at = now\<rparr>"
  show ?thesis
    using assms(2) k
    by (intro exI [of _ ?c]) (simp add: report_detail_found [OF assms(1)] comment_create_def Let_def)
qed

theorem comment_nonblank_appends_one_witness:
  "\<exists>c. report_detail 9 (Authenticated 3) 6 (Detail_POST (Some (replicate 1001 CHR ''a''))) reported_db =
         (Redirect ''report_detail'', [], [flash_comment Success msg_comment_published],
          reported_db\<lparr>comments := comments reported_db @ [c], next_pk := Suc (next_pk reported_db)\<rparr>) \<and>
       length (comment_text c) = 1001"
proof -
  have s: "py_strip (replicate 1001 CHR ''a'') = replicate 1001 CHR ''a''"
    by (rule py_strip_noop) (simp add: py_isspace_def)
  then have "py_strip (replicate 1001 CHR ''a'') \<noteq> []" by simp
  from comment_nonblank_appends_one [OF reported_db_report_6 this, of 9 3] s show ?thesis
    by auto
qed

text \<open>
  C24. An anonymous POST never writes: it is sent to the login page with the message
  \<open>Debes iniciar sesi\<acute>on para comentar.\<close>, or answered 404 when the report does not
  exist.
\<close>

theorem comment_anonymous_never_writes:
  "report_detail now Anonymous k (Detail_POST txt) d =
     (if get_report d k = None then (NotFound, [], [], d)
      else (Redirect ''login'', [], [flash_comment Error msg_login_to_comment], d))"
  by (simp add: report_detail_def split: option.splits)

text \<open>
  When the clock has not gone backwards, the comment just posted is the last one the
  detail page lists after the redirect, below the earlier thread unchanged.
\<close>

theorem comment_appears_last:
  assumes "get_report d k = Some r" and "py_strip t \<noteq> []"
    and "\<forall>c \<in> set (comments d). comment_created_at c \<le> now"
  shows "\<exists>c. report_comments (snd (snd (snd (report_detail now (Authenticated u) k (Detail_POST (Some t)) d)))) r =
             report_comments d r @ [c] \<and> comment_author c = u \<and> comment_text c = py_strip t"
proof -
  have k: "report_pk r = k" using get_report_Some [OF assms(1)] by simp
  let ?c = "\<lparr>comment_pk = next_pk d, comment_report = k, comment_author = u,
             comment_text = py_strip t, comment_created_at = now\<rparr>"
  have d': "snd (snd (snd (report_detail now (Authenticated u) k (Detail_POST (Some t)) d))) =
      d\<lparr>comments := comments d @ [?c], next_pk := Suc (next_pk d)\<rparr>"
    using assms(2) k by (simp add: report_detail_found [OF assms(1)] comment_create_def Let_def)
  have "\<forall>y \<in> set (filter (\<lambda>c. comment_report c = report_pk r) (comments d)). comment_created_at y \<le> now"
    using assms(3) by simp
  then have "report_comments (d\<lparr>comments := comments d @ [?c], next_pk := Suc (next_pk d)\<rparr>) r =
      report_comments d r @ [?c]"
    using k by (simp add: report_comments_def sort_key_snoc_max)
  with d' show ?thesis by auto
qed

theorem comment_appears_last_witness:
  "\<exists>c. report_comments (snd (snd (snd (report_detail 9 (Authenticated 3) 6 (Detail_POST (Some ''Sigue bloqueada'')) reported_db))))
          (hd (reports reported_db)) = report_comments reported_db (hd (reports reported_db)) @ [c] \<and>
       comment_author c = 3"
proof -
  have c: "comments reported_db = []"
    by (simp add: reported_db_def report_view_post_comments follow_db_def mall_db_def empty_db_def)
  have s: "py_strip ''Sigue bloqueada'' \<noteq> []" by (simp add: py_strip_Nil_iff py_isspace_def)
  show ?thesis
    using comment_appears_last [OF reported_db_report_6 s, of 9 3] c by auto
qed

end
