(* ===== verification/Geofence.thy ===== *)
theory Geofence
  imports Models
begin

text \<open>
  The Place registry and its geofence (\<open>src/core/models.py\<close>, class \<open>Place\<close>, lines
  52--99).  \<open>Place.save\<close> calls \<open>full_clean\<close> before every insert or update, so the
  checks run on every path that stores a place, forms or not.  \<open>full_clean\<close> first runs the
  field checks that the field declarations ask for (\<open>clean_fields\<close>: \<open>name\<close> required and
  at most 200 characters, \<open>address\<close> and \<open>tags\<close> at most 255, \<open>lat\<close>/\<open>lng\<close> non-null
  decimals with at most 9 digits of which at most 6 after the point), collecting one error per
  field, then \<open>Place.clean\<close>, the bounding box of the commune of Maipu, which adds an error
  to both coordinate fields when either is outside; it raises when any error was collected.
  The box test \<open>MIN_LAT <= float(lat) <= MAX_LAT\<close> is modelled on the exact decimal value:
  a coordinate that passes the field check is a multiple of \<open>10^-6\<close> below 1000 in
  magnitude, such values lie far more than a double's rounding error apart, and rounding to
  the nearest double is monotone, so the float comparison agrees with the exact one.
\<close>

section \<open>Decimals and \<open>DecimalField(max_digits=9, decimal_places=6)\<close>\<close>

text \<open>\<open>len(Decimal(n).as_tuple().digits)\<close>: the number of decimal digits of \<open>n\<close>, 1 for 0.\<close>

fun ndigits :: "nat \<Rightarrow> nat" where
  "ndigits n = (if n < 10 then 1 else Suc (ndigits (n div 10)))"

declare ndigits.simps [simp del]

text \<open>
  \<open>float(d)\<close>, kept exact.  Python rounds to the nearest double; for a value with at most
  six decimals and below 1000 in magnitude, which is what \<open>DecimalField(9, 6)\<close> accepts,
  comparing the rounded values with the bounds (three decimals) gives the exact answer, as
  the doubles near 70 lie about \<open>1e-14\<close> apart.  For a coordinate the field refuses
  (more decimals) the exact comparison can differ from Python's, so the properties of
  \<open>Place.clean\<close> are stated for coordinates that pass the field check.
\<close>

definition dec_val :: "decimal \<Rightarrow> rat" where
  "dec_val d =
     (if 0 \<le> exponent d then of_int (coeff d * 10 ^ nat (exponent d))
      else of_int (coeff d) / of_int (10 ^ nat (- exponent d)))"

datatype place_field = F_name | F_address | F_lat | F_lng | F_tags

datatype field_error =
  Blank | Null | Max_length nat | Max_digits | Max_decimal_places | Max_whole_digits
  | Outside_maipu

text \<open>Django's \<open>DecimalValidator(max_digits, decimal_places)\<close>: the first check that fails.\<close>

definition decimal_validator :: "nat \<Rightarrow> nat \<Rightarrow> decimal \<Rightarrow> field_error option" where
  "decimal_validator max_digits decimal_places d =
     (let len = ndigits (nat \<bar>coeff d\<bar>); e = exponent d;
          digits = (if 0 \<le> e then (if coeff d = 0 then len else len + nat e)
                    else if len < nat (- e) then nat (- e) else len);
          decimals = (if 0 \<le> e then 0 else nat (- e))
      in if max_digits < digits then Some Max_digits
         else if decimal_places < decimals then Some Max_decimal_places
         else if max_digits - decimal_places < digits - decimals then Some Max_whole_digits
         else None)"

section \<open>\<open>Place.full_clean\<close>\<close>

text \<open>An unsaved \<open>Place\<close> instance: the fields the caller sets.\<close>

record place_input =
  in_name :: string
  in_address :: string
  in_lat :: "decimal option"
  in_lng :: "decimal option"
  in_tags :: string

text \<open>
  \<open>Field.clean\<close> of a \<open>CharField\<close>: a blank value of a \<open>blank=True\<close> field is skipped,
  a blank value of a required one is \<open>Blank\<close>, a longer value than \<open>max_length\<close> fails
  the \<open>MaxLengthValidator\<close>.
\<close>

definition char_field_errors :: "bool \<Rightarrow> nat \<Rightarrow> string \<Rightarrow> field_error list" where
  "char_field_errors blank_ok max_len s =
     (if s = [] then (if blank_ok then [] else [Blank])
      else if max_len < length s then [Max_length max_len] else [])"

definition decimal_field_errors :: "decimal option \<Rightarrow> field_error list" where
  "decimal_field_errors v =
     (case v of None \<Rightarrow> [Null]
      | Some d \<Rightarrow> (case decimal_validator 9 6 d of None \<Rightarrow> [] | Some e \<Rightarrow> [e]))"

text \<open>\<open>clean_fields\<close>, in the declaration order of the fields.\<close>

definition place_field_errors :: "place_input \<Rightarrow> (place_field \<times> field_error) list" where
  "place_field_errors p =
     map (Pair F_name) (char_field_errors False 200 (in_name p))
     @ map (Pair F_address) (char_field_errors True 255 (in_address p))
     @ map (Pair F_lat) (decimal_field_errors (in_lat p))
     @ map (Pair F_lng) (decimal_field_errors (in_lng p))
     @ map (Pair F_tags) (char_field_errors True 255 (in_tags p))"

definition MIN_LAT :: rat where "MIN_LAT = - 33585 / 1000"
definition MAX_LAT :: rat where "MAX_LAT = - 3348 / 100"
definition MIN_LNG :: rat where "MIN_LNG = - 70835 / 1000"
definition MAX_LNG :: rat where "MAX_LNG = - 707 / 10"

text \<open>The condition of \<open>Place.clean\<close>, line 81.\<close>

definition in_maipu :: "decimal \<Rightarrow> decimal \<Rightarrow> bool" where
  "in_maipu a b \<longleftrightarrow>
     MIN_LAT \<le> dec_val a \<and> dec_val a \<le> MAX_LAT \<and> MIN_LNG \<le> dec_val b \<and> dec_val b \<le> MAX_LNG"

text \<open>\<open>Place.clean\<close>: nothing to check while a coordinate is missing.\<close>

definition place_clean :: "decimal option \<Rightarrow> decimal option \<Rightarrow> (place_field \<times> field_error) list" where
  "place_clean olat olng =
     (case (olat, olng) of
        (Some a, Some b) \<Rightarrow>
          if in_maipu a b then [] else [(F_lat, Outside_maipu), (F_lng, Outside_maipu)]
      | _ \<Rightarrow> [])"

definition place_full_clean :: "place_input \<Rightarrow> (place_field \<times> field_error) list" where
  "place_full_clean p = place_field_errors p @ place_clean (in_lat p) (in_lng p)"

section \<open>\<open>Place.save\<close>\<close>

text \<open>
  Creating a place (\<open>Place.objects.create\<close>, or \<open>save()\<close> of a new instance): the
  \<open>ValidationError\<close> is \<open>Inl\<close>; otherwise the row is inserted with a fresh key and
  \<open>created_at = now\<close> (\<open>auto_now_add\<close>).  The last branch is dead: an empty error list
  has both coordinates (\<open>place_full_clean_Nil\<close>).
\<close>

definition place_create :: "timestamp \<Rightarrow> place_input \<Rightarrow> db \<Rightarrow> (place_field \<times> field_error) list + db" where
  "place_create now p d =
     (case place_full_clean p of
        [] \<Rightarrow> (case (in_lat p, in_lng p) of
                 (Some a, Some b) \<Rightarrow>
                   Inr (d\<lparr>places := places d @
                            [\<lparr>place_pk = next_pk d, name = in_name p, address = in_address p,
                              lat = a, lng = b, place_tags = in_tags p, place_created_at = now\<rparr>],
                          next_pk := Suc (next_pk d)\<rparr>)
               | _ \<Rightarrow> Inl [])
      | errs \<Rightarrow> Inl errs)"

text \<open>
  Saving an existing place after editing its fields (the admin's change form, or code):
  the same \<open>full_clean\<close>, then an \<open>UPDATE\<close> of the row; \<open>created_at\<close> is kept.
  A key with no row is \<open>Place.DoesNotExist\<close>, here \<open>Inl []\<close>.
\<close>

definition place_update :: "place_id \<Rightarrow> place_input \<Rightarrow> db \<Rightarrow> (place_field \<times> field_error) list + db" where
  "place_update k p d =
     (case get_place d k of
        None \<Rightarrow> Inl []
      | Some old \<Rightarrow>
          (case place_full_clean p of
             [] \<Rightarrow> (case (in_lat p, in_lng p) of
                      (Some a, Some b) \<Rightarrow>
                        Inr (d\<lparr>places := map (\<lambda>q. if place_pk q = k
                                   then q\<lparr>name := in_name p, address := in_address p, lat := a,
                                          lng := b, place_tags := in_tags p\<rparr>
                                   else q) (places d)\<rparr>)
                    | _ \<Rightarrow> Inl [])
           | errs \<Rightarrow> Inl errs))"

section \<open>Lemmas\<close>

lemmas place_check_defs = place_full_clean_def place_clean_def

lemma place_full_clean_Nil:
  "place_full_clean p = [] \<Longrightarrow>
     \<exists>a b. in_lat p = Some a \<and> in_lng p = Some b \<and> in_maipu a b"
  by (auto simp: place_check_defs place_field_errors_def decimal_field_errors_def
      split: option.splits if_splits)

lemma place_clean_Some:
  "place_clean (Some a) (Some b) = (if in_maipu a b then [] else [(F_lat, Outside_maipu), (F_lng, Outside_maipu)])"
  by (simp add: place_clean_def)

text \<open>What a successful insert does: one new row, in the box, with a fresh key.\<close>

lemma place_create_Inr:
  assumes "place_create now p d = Inr d'"
  shows "\<exists>a b. in_lat p = Some a \<and> in_lng p = Some b \<and> in_maipu a b \<and>
           d' = d\<lparr>places := places d @
                   [\<lparr>place_pk = next_pk d, name = in_name p, address = in_address p,
                     lat = a, lng = b, place_tags = in_tags p, place_created_at = now\<rparr>],
                 next_pk := Suc (next_pk d)\<rparr>"
proof (cases "place_full_clean p")
  case Nil
  with place_full_clean_Nil obtain a b where "in_lat p = Some a" "in_lng p = Some b" "in_maipu a b"
    by blast
  with Nil assms show ?thesis by (simp add: place_create_def)
next
  case (Cons e es)
  with assms show ?thesis by (simp add: place_create_def)
qed

lemma place_create_errors:
  "place_create now p d = Inl errs \<Longrightarrow> errs = place_full_clean p"
  using place_full_clean_Nil [of p]
  by (auto simp: place_create_def split: list.splits option.splits)

lemma place_update_Inr:
  assumes "place_update k p d = Inr d'"
  shows "\<exists>a b. in_lat p = Some a \<and> in_lng p = Some b \<and> in_maipu a b \<and>
           d' = d\<lparr>places := map (\<lambda>q. if place_pk q = k
                   then q\<lparr>name := in_name p, address := in_address p, lat := a,
                          lng := b, place_tags := in_tags p\<rparr> else q) (places d)\<rparr>"
proof (cases "place_full_clean p")
  case Nil
  with place_full_clean_Nil obtain a b where "in_lat p = Some a" "in_lng p = Some b" "in_maipu a b"
    by blast
  with Nil assms show ?thesis by (auto simp: place_update_def split: option.splits)
next
  case (Cons e es)
  with assms show ?thesis by (simp add: place_update_def split: option.splits)
qed

subsection \<open>Bounds of an accepted coordinate\<close>

lemma ndigits_bound: "n < 10 ^ ndigits n"
proof (induction n rule: ndigits.induct)
  case (1 n)
  show ?case
  proof (cases "n < 10")
    case True
    then show ?thesis by (simp add: ndigits.simps)
  next
    case False
    with "1.IH" have "n div 10 < 10 ^ ndigits (n div 10)" by simp
    then have "n < 10 * 10 ^ ndigits (n div 10)" by linarith
    with False show ?thesis by (simp add: ndigits.simps [of n])
  qed
qed

lemma dec_val_abs:
  "\<bar>dec_val d\<bar> =
     (if 0 \<le> exponent d then of_nat (nat \<bar>coeff d\<bar>) * 10 ^ nat (exponent d)
      else of_nat (nat \<bar>coeff d\<bar>) / 10 ^ nat (- exponent d))"
  by (simp add: dec_val_def abs_mult abs_divide)

lemma decimal_ok_nat_bound:
  assumes "decimal_validator 9 6 d = None"
  shows "if 0 \<le> exponent d then nat \<bar>coeff d\<bar> * 10 ^ nat (exponent d) < 1000
         else nat (- exponent d) \<le> 6 \<and> nat \<bar>coeff d\<bar> < 1000 * 10 ^ nat (- exponent d)"
proof -
  define c where "c = nat \<bar>coeff d\<bar>"
  define len where "len = ndigits c"
  have c: "c < 10 ^ len" unfolding len_def by (rule ndigits_bound)
  show ?thesis
  proof (cases "0 \<le> exponent d")
    case True
    show ?thesis
    proof (cases "coeff d = 0")
      case True
      with \<open>0 \<le> exponent d\<close> show ?thesis by simp
    next
      case False
      with True assms have le: "len + nat (exponent d) \<le> 3"
        by (simp add: decimal_validator_def Let_def c_def len_def split: if_splits)
      have "c * 10 ^ nat (exponent d) < 10 ^ len * 10 ^ nat (exponent d)"
        using c by simp
      also have "\<dots> = 10 ^ (len + nat (exponent d))" by (simp add: power_add)
      also have "\<dots> \<le> 10 ^ 3" using le by (rule power_increasing) simp
      finally show ?thesis using True by (simp add: c_def)
    qed
  next
    case False
    define k where "k = nat (- exponent d)"
    from False assms have k6: "k \<le> 6" and wh: "len < k \<or> len - k \<le> 3"
      by (auto simp: decimal_validator_def Let_def c_def len_def k_def split: if_splits)
    have "len \<le> k + 3" using wh by linarith
    then have "(10::nat) ^ len \<le> 10 ^ (k + 3)" by (rule power_increasing) simp
    with c have "c < 1000 * 10 ^ k" by (simp add: power_add)
    with False k6 show ?thesis by (simp add: c_def k_def)
  qed
qed

lemma decimal_ok_abs_bound:
  assumes "decimal_validator 9 6 d = None"
  shows "\<bar>dec_val d\<bar> < 1000"
proof (cases "0 \<le> exponent d")
  case True
  with decimal_ok_nat_bound [OF assms]
  have "nat \<bar>coeff d\<bar> * 10 ^ nat (exponent d) < 1000" by simp
  then have "(of_nat (nat \<bar>coeff d\<bar> * 10 ^ nat (exponent d)) :: rat) < 1000"
    by (metis of_nat_less_numeral_iff)
  with True show ?thesis by (simp add: dec_val_abs)
next
  case False
  with decimal_ok_nat_bound [OF assms]
  have "nat \<bar>coeff d\<bar> < 1000 * 10 ^ nat (- exponent d)" by simp
  then have "(of_nat (nat \<bar>coeff d\<bar>) :: rat) < 1000 * 10 ^ nat (- exponent d)"
    by (metis of_nat_less_iff of_nat_mult of_nat_numeral of_nat_power)
  with False show ?thesis by (simp add: dec_val_abs pos_divide_less_eq)
qed

lemma decimal_ok_micro:
  assumes "decimal_validator 9 6 d = None"
  shows "\<exists>n. dec_val d = of_int n / 1000000"
proof (cases "0 \<le> exponent d")
  case True
  then have "dec_val d = of_int (coeff d * 10 ^ nat (exponent d) * 1000000) / 1000000"
    by (simp add: dec_val_def)
  then show ?thesis by blast
next
  case False
  define k where "k = nat (- exponent d)"
  from False decimal_ok_nat_bound [OF assms] have k6: "k \<le> 6" by (simp add: k_def)
  then have e: "(1000000 :: rat) = 10 ^ k * 10 ^ (6 - k)"
    by (simp flip: power_add)
  have "dec_val d = of_int (coeff d) / 10 ^ k"
    using False by (simp add: dec_val_def k_def)
  also have "\<dots> = of_int (coeff d * 10 ^ (6 - k)) / 1000000"
    by (simp add: e)
  finally have "dec_val d = of_int (coeff d * 10 ^ (6 - k)) / 1000000" .
  then show ?thesis by blast
qed

lemmas place_eval = place_field_errors_def char_field_errors_def decimal_field_errors_def
  decimal_validator_def ndigits.simps dec_val_def

section \<open>Properties of the Place registry\<close>

text \<open>
  C1. Place creation succeeds, for a place whose other fields are valid, exactly when its
  coordinates lie in the fixed box lat in [-33.585, -33.480], lng in [-70.835, -70.700]:
  the geofence is the only further condition of \<open>Place.save\<close>.
\<close>

theorem place_create_accepts_maipu:
  assumes "place_field_errors p = []" and "in_lat p = Some a" and "in_lng p = Some b"
  shows "(\<exists>d'. place_create now p d = Inr d') \<longleftrightarrow>
           - 33585 / 1000 \<le> dec_val a \<and> dec_val a \<le> - 3348 / 100 \<and>
           - 70835 / 1000 \<le> dec_val b \<and> dec_val b \<le> - 707 / 10"
  using assms
  by (simp add: place_create_def place_full_clean_def place_clean_Some in_maipu_def
      MIN_LAT_def MAX_LAT_def MIN_LNG_def MAX_LNG_def)

theorem place_create_accepts_maipu_witness:
  "place_field_errors \<lparr>in_name = ''Plaza de Maipu'', in_address = ''Av. Pajaritos 123'',
       in_lat = Some \<lparr>coeff = -33520000, exponent = -6\<rparr>,
       in_lng = Some \<lparr>coeff = -70770000, exponent = -6\<rparr>, in_tags = ''rampa, ascensor''\<rparr> = [] \<and>
   (\<exists>d'. place_create 0 \<lparr>in_name = ''Plaza de Maipu'', in_address = ''Av. Pajaritos 123'',
       in_lat = Some \<lparr>coeff = -33520000, exponent = -6\<rparr>,
       in_lng = Some \<lparr>coeff = -70770000, exponent = -6\<rparr>, in_tags = ''rampa, ascensor''\<rparr> empty_db = Inr d')"
proof -
  let ?p = "\<lparr>in_name = ''Plaza de Maipu'', in_address = ''Av. Pajaritos 123'',
       in_lat = Some \<lparr>coeff = -33520000, exponent = -6\<rparr>,
       in_lng = Some \<lparr>coeff = -70770000, exponent = -6\<rparr>, in_tags = ''rampa, ascensor''\<rparr>"
  have f: "place_field_errors ?p = []" by (simp add: place_eval)
  show ?thesis
    using f place_create_accepts_maipu [OF f, of "\<lparr>coeff = -33520000, exponent = -6\<rparr>"
        "\<lparr>coeff = -70770000, exponent = -6\<rparr>" 0 empty_db]
    by (simp add: dec_val_def)
qed

text \<open>
  C2. A place whose coordinates pass their \<open>DecimalField\<close> checks but lie outside the
  box is refused, whatever its other fields, and the refusal carries an error on both the
  latitude and the longitude field, so that a form can flag both even when only one of
  them is out of range.  (On such coordinates, at most six decimals and below 1000,
  \<open>float\<close> comparison with the bounds agrees with the exact one that \<open>in_maipu\<close> makes.)
\<close>

theorem place_create_rejects_both_fields:
  assumes "in_lat p = Some a" and "in_lng p = Some b"
    and "decimal_validator 9 6 a = None" and "decimal_validator 9 6 b = None"
    and "\<not> (- 33585 / 1000 \<le> dec_val a \<and> dec_val a \<le> - 3348 / 100 \<and>
            - 70835 / 1000 \<le> dec_val b \<and> dec_val b \<le> - 707 / 10)"
  shows "\<exists>errs. place_create now p d = Inl errs \<and>
           (F_lat, Outside_maipu) \<in> set errs \<and> (F_lng, Outside_maipu) \<in> set errs"
proof -
  from assms(5) have "\<not> in_maipu a b"
    by (simp add: in_maipu_def MIN_LAT_def MAX_LAT_def MIN_LNG_def MAX_LNG_def)
  with assms(1,2) have "(F_lat, Outside_maipu) \<in> set (place_full_clean p)"
    and "(F_lng, Outside_maipu) \<in> set (place_full_clean p)"
    by (simp_all add: place_full_clean_def place_clean_Some)
  moreover have "place_full_clean p \<noteq> []" using calculation by auto
  ultimately show ?thesis
    by (auto simp: place_create_def neq_Nil_conv)
qed

theorem place_create_rejects_both_fields_witness:
  "decimal_validator 9 6 \<lparr>coeff = -33400000, exponent = -6\<rparr> = None \<and>
   decimal_validator 9 6 \<lparr>coeff = -70770000, exponent = -6\<rparr> = None \<and>
   (\<exists>errs. place_create 0 \<lparr>in_name = ''Lugar Invalido'', in_address = [],
       in_lat = Some \<lparr>coeff = -33400000, exponent = -6\<rparr>,
       in_lng = Some \<lparr>coeff = -70770000, exponent = -6\<rparr>, in_tags = []\<rparr> empty_db = Inl errs \<and>
     (F_lat, Outside_maipu) \<in> set errs \<and> (F_lng, Outside_maipu) \<in> set errs)"
proof -
  have va: "decimal_validator 9 6 \<lparr>coeff = -33400000, exponent = -6\<rparr> = None"
    and vb: "decimal_validator 9 6 \<lparr>coeff = -70770000, exponent = -6\<rparr> = None"
    by (simp_all add: place_eval)
  have "\<exists>errs. place_create 0 \<lparr>in_name = ''Lugar Invalido'', in_address = [],
       in_lat = Some \<lparr>coeff = -33400000, exponent = -6\<rparr>,
       in_lng = Some \<lparr>coeff = -70770000, exponent = -6\<rparr>, in_tags = []\<rparr> empty_db = Inl errs \<and>
     (F_lat, Outside_maipu) \<in> set errs \<and> (F_lng, Outside_maipu) \<in> set errs"
    by (rule place_create_rejects_both_fields [OF _ _ va vb]) (simp_all add: dec_val_def)
  with va vb show ?thesis by blast
qed

text \<open>
  C3. A coordinate that passes the \<open>DecimalField(max_digits=9, decimal_places=6)\<close> check
  is a whole number of millionths of a degree and less than 1000 in magnitude.
\<close>

theorem decimal_field_bounds:
  assumes "decimal_field_errors (Some x) = []"
  shows "\<bar>dec_val x\<bar> < 1000 \<and> (\<exists>n. dec_val x = of_int n / 1000000)"
proof -
  from assms have "decimal_validator 9 6 x = None"
    by (simp add: decimal_field_errors_def split: option.splits)
  then show ?thesis using decimal_ok_abs_bound decimal_ok_micro by blast
qed

theorem decimal_field_bounds_witness:
  "decimal_field_errors (Some \<lparr>coeff = -33520000, exponent = -6\<rparr>) = [] \<and>
   \<bar>dec_val \<lparr>coeff = -33520000, exponent = -6\<rparr>\<bar> < 1000"
proof -
  have h: "decimal_field_errors (Some \<lparr>coeff = -33520000, exponent = -6\<rparr>) = []"
    by (simp add: place_eval)
  show ?thesis using h decimal_field_bounds [OF h] by simp
qed

end
