(* ===== verification/Accounts.thy ===== *)
theory Accounts
  imports Favorites
begin

text \<open>
  Accounts and the contact form.  \<open>SignupForm\<close> (\<open>src/core/forms.py\<close>, lines 9--71)
  cleans the username, the names (a \<open>CharField\<close> strips, then \<open>only_letters_spaces\<close>), the
  email (\<open>clean_email\<close>: stripped, lower-cased, refused if an account has it ignoring
  case) and the passwords; \<open>save\<close> stores the lower-cased email and the names with their
  whitespace collapsed and \<open>title()\<close>-cased.  \<open>signup_view\<close> (\<open>src/core/views.py\<close>,
  lines 365--386) saves a valid form, logs the user in and redirects home.
  \<open>profile_view\<close> (lines 389--420) saves \<open>UserForm\<close> and \<open>ProfileForm\<close>
  (forms.py 149--185) when both are valid, and on GET makes sure the profile exists;
  \<open>contact_view\<close> (lines 236--310) sends one mail to the site's address.

  The checks that Django itself makes (the username validator and uniqueness of the model
  field, \<open>EmailValidator\<close>, the two passwords and the password validators of the
  settings, \<open>EmailValidator\<close> on \<open>UserForm\<close>'s email and the image check of
  \<open>ProfileForm\<close>'s avatar) are a parameter: whether they pass; the length limits of
  \<open>UserForm\<close>'s fields are modelled.  The case-insensitive lookup \<open>email__iexact\<close> compares the Latin-1
  lower-cased strings.  \<open>str.title()\<close> maps two Latin-1 letters outside Latin-1 (the
  micro sign and \<open>y\<close> with diaeresis become U+039C and U+0178); a name with a word that
  starts with one of them is outside the model, where \<open>py_title\<close> answers \<open>None\<close>.  The
  em dash U+2014 of the contact mail's subject is written \<open>--\<close>; the recipient address,
  \<open>CONTACT_EMAIL\<close> or \<open>DEFAULT_FROM_EMAIL\<close> of the settings, is a parameter.
\<close>

section \<open>String helpers of the forms\<close>

text \<open>\<open>str.split()\<close> with no argument: the runs of non-whitespace.\<close>

fun py_split_ws :: "string \<Rightarrow> string list" where
  "py_split_ws [] = [[]]"
| "py_split_ws (x # xs) =
     (if py_isspace x then [] # py_split_ws xs
      else (case py_split_ws xs of [] \<Rightarrow> [[x]] | w # ws \<Rightarrow> (x # w) # ws))"

definition py_words :: "string \<Rightarrow> string list" where
  "py_words s = filter (\<lambda>w. w \<noteq> []) (py_split_ws s)"

text \<open>Letters with case in Latin-1 (Unicode categories Lu, Ll, Lt).\<close>

definition py_is_cased :: "char \<Rightarrow> bool" where
  "py_is_cased c \<longleftrightarrow>
     (let n = (of_char c :: nat)
      in (65 \<le> n \<and> n \<le> 90) \<or> (97 \<le> n \<and> n \<le> 122) \<or> n = 181 \<or>
         (192 \<le> n \<and> n \<le> 255 \<and> n \<noteq> 215 \<and> n \<noteq> 247))"

text \<open>The title case of one character, \<open>None\<close> when it is not a Latin-1 string.\<close>

definition py_title_char :: "char \<Rightarrow> string option" where
  "py_title_char c =
     (let n = (of_char c :: nat)
      in if (97 \<le> n \<and> n \<le> 122) \<or> (224 \<le> n \<and> n \<le> 254 \<and> n \<noteq> 247) then Some [char_of (n - 32)]
         else if n = 223 then Some ''Ss''
         else if n = 181 \<or> n = 255 then None
         else Some [c])"

text \<open>\<open>str.title()\<close>: title case after a character without case, lower case after one with.\<close>

fun py_title_from :: "bool \<Rightarrow> string \<Rightarrow> string option" where
  "py_title_from prev [] = Some []"
| "py_title_from prev (c # cs) =
     (case (if prev then Some [py_lower_char c] else py_title_char c) of
        None \<Rightarrow> None
      | Some t \<Rightarrow> map_option (\<lambda>r. t @ r) (py_title_from (py_is_cased c) cs))"

definition py_title :: "string \<Rightarrow> string option" where
  "py_title s = py_title_from False s"

text \<open>\<open>' '.join(s.split()).title()\<close>.\<close>

definition normalize_name :: "string \<Rightarrow> string option" where
  "normalize_name s = py_title (py_join '' '' (py_words s))"

section \<open>\<open>SignupForm\<close>\<close>

record signup_input =
  su_username :: string
  su_first_name :: string
  su_last_name :: string
  su_email :: string

datatype signup_field = SU_first_name | SU_last_name | SU_email

datatype account_error = A_required | A_too_long nat | A_letters_only | A_email_taken

text \<open>
  \<open>only_letters_spaces\<close>, a \<open>RegexValidator\<close> over the class of A--Z, a--z, the Latin-1
  range 192--255 (which holds the two \<open>n\<close> with tilde the class lists again) and whitespace.
\<close>

definition ols_char :: "char \<Rightarrow> bool" where
  "ols_char c \<longleftrightarrow>
     (let n = (of_char c :: nat)
      in (65 \<le> n \<and> n \<le> 90) \<or> (97 \<le> n \<and> n \<le> 122) \<or> 192 \<le> n \<or> py_isspace c)"

definition only_letters_spaces :: "string \<Rightarrow> bool" where
  "only_letters_spaces s \<longleftrightarrow> s \<noteq> [] \<and> list_all ols_char s"

text \<open>A required \<open>CharField(max_length=m, validators=[only_letters_spaces])\<close>, stripped.\<close>

definition name_field_errors :: "signup_field \<Rightarrow> nat \<Rightarrow> string \<Rightarrow> (signup_field \<times> account_error) list" where
  "name_field_errors f m s =
     (let t = py_strip s
      in if t = [] then [(f, A_required)]
         else (if m < length t then [(f, A_too_long m)] else []) @
              (if only_letters_spaces t then [] else [(f, A_letters_only)]))"

text \<open>\<open>clean_email\<close> on the stripped value of the required \<open>EmailField\<close>.\<close>

definition email_taken :: "db \<Rightarrow> string \<Rightarrow> bool" where
  "email_taken d e \<longleftrightarrow> (\<exists>u \<in> set (users d). py_lower (email u) = py_lower e)"

definition clean_email :: "db \<Rightarrow> string \<Rightarrow> account_error + string" where
  "clean_email d s =
     (let e = py_lower (py_strip s)
      in if py_strip s = [] then Inl A_required
         else if email_taken d e then Inl A_email_taken else Inr e)"

definition signup_errors :: "db \<Rightarrow> signup_input \<Rightarrow> (signup_field \<times> account_error) list" where
  "signup_errors d inp =
     name_field_errors SU_first_name 30 (su_first_name inp) @
     name_field_errors SU_last_name 150 (su_last_name inp) @
     (case clean_email d (su_email inp) of Inl e \<Rightarrow> [(SU_email, e)] | Inr _ \<Rightarrow> [])"

definition msg_account_created :: string where
  "msg_account_created = [CHR 0xA1] @ ''Cuenta creada! Bienvenido/a a IncluiMap.''"

definition flash_plain :: "level \<Rightarrow> string \<Rightarrow> flash" where
  "flash_plain lv t = \<lparr>flash_level = lv, flash_text = t, flash_tag = []\<rparr>"

text \<open>
  \<open>signup_view\<close>, POST by a visitor who is not logged in: \<open>auth_ok\<close> says whether the
  checks Django makes pass.  \<open>None\<close>: a name outside the model (see above).
\<close>

definition signup_post ::
  "bool \<Rightarrow> signup_input \<Rightarrow> db \<Rightarrow> (response \<times> flash list \<times> db) option" where
  "signup_post auth_ok inp d =
     (if \<not> auth_ok \<or> signup_errors d inp \<noteq> []
      then Some (Render ''registration/signup.html'', [flash_plain Error ''Revisa los campos marcados.''], d)
      else (case (normalize_name (py_strip (su_first_name inp)), normalize_name (py_strip (su_last_name inp))) of
              (Some fname, Some lname) \<Rightarrow>
                Some (Redirect ''home'', [flash_plain Success msg_account_created],
                      user_create (py_strip (su_username inp)) (py_lower (py_strip (su_email inp))) fname lname d)
            | _ \<Rightarrow> None))"

section \<open>\<open>profile_view\<close>\<close>

text \<open>
  \<open>UserForm\<close> (forms.py 149--169), a \<open>ModelForm\<close> on the fields \<open>first_name\<close>,
  \<open>last_name\<close> and \<open>email\<close> of Django's \<open>User\<close>: each stripped, each optional
  (\<open>blank=True\<close>), at most 150, 150 and 254 characters.  \<open>EmailValidator\<close> and the image
  check of \<open>ProfileForm\<close>'s \<open>ImageField\<close> (forms.py 172--185) are the parameter
  \<open>checks_ok\<close>; \<open>bio\<close> is an optional \<open>TextField\<close>, valid whatever it holds.
\<close>

datatype user_form_field = UF_first_name | UF_last_name | UF_email

definition user_form_errors :: "string \<Rightarrow> string \<Rightarrow> string \<Rightarrow> (user_form_field \<times> account_error) list" where
  "user_form_errors fname lname em =
     (if 150 < length (py_strip fname) then [(UF_first_name, A_too_long 150)] else []) @
     (if 150 < length (py_strip lname) then [(UF_last_name, A_too_long 150)] else []) @
     (if 254 < length (py_strip em) then [(UF_email, A_too_long 254)] else [])"

definition profile_forms_valid :: "bool \<Rightarrow> string \<Rightarrow> string \<Rightarrow> string \<Rightarrow> bool" where
  "profile_forms_valid checks_ok fname lname em \<longleftrightarrow> checks_ok \<and> user_form_errors fname lname em = []"

text \<open>
  POST: when both forms are valid the stripped fields of \<open>UserForm\<close> are saved, the
  email normalised, then
  \<open>ProfileForm\<close> writes avatar and bio to the profile \<open>get_or_create\<close> found first.
\<close>

text \<open>
  \<open>BaseUserManager.normalize_email\<close>, which \<open>AbstractUser.clean\<close> applies while
  \<open>UserForm\<close> validates the instance: the part after the last \<open>@\<close> is lower-cased; an
  address without \<open>@\<close> is left alone.
\<close>

definition normalize_email :: "string \<Rightarrow> string" where
  "normalize_email e =
     (let t = py_strip e
      in if CHR ''@'' \<in> set t
         then (let dom = rev (takeWhile (\<lambda>c. c \<noteq> CHR ''@'') (rev t))
               in take (length t - length dom) t @ py_lower dom)
         else e)"

text \<open>\<open>p_form.save()\<close>: an \<open>UPDATE\<close> of avatar and bio of one profile.\<close>

definition profile_form_save :: "nat \<Rightarrow> string option \<Rightarrow> string \<Rightarrow> db \<Rightarrow> db" where
  "profile_form_save k av b d =
     d\<lparr>profiles := map (\<lambda>p. if profile_pk p = k then p\<lparr>avatar := av, bio := b\<rparr> else p) (profiles d)\<rparr>"

definition profile_view_post ::
  "bool \<Rightarrow> user_id \<Rightarrow> string \<Rightarrow> string \<Rightarrow> string \<Rightarrow> string option \<Rightarrow> string \<Rightarrow> db \<Rightarrow> response \<times> flash list \<times> db" where
  "profile_view_post checks_ok u fname lname em av b d =
     (let (prof, d1) = profile_get_or_create u d
      in if \<not> profile_forms_valid checks_ok fname lname em
         then (Render ''core/profile.html'',
               [\<lparr>flash_level = Error, flash_text = ''Revisa los campos marcados.'', flash_tag = ''profile''\<rparr>], d1)
         else (let d2 = user_save u (py_strip fname) (py_strip lname) (normalize_email (py_strip em)) d1;
                   d3 = profile_form_save (profile_pk prof) av (py_strip b) d2
               in (Redirect ''profile'',
                   [\<lparr>flash_level = Success, flash_text = ''Perfil actualizado correctamente.'',
                     flash_tag = ''profile''\<rparr>], d3)))"

text \<open>GET: the page, after \<open>get_or_create\<close> has made sure the user has a profile.\<close>

definition profile_view_get :: "user_id \<Rightarrow> db \<Rightarrow> response \<times> flash list \<times> db" where
  "profile_view_get u d = (Render ''core/profile.html'', [], snd (profile_get_or_create u d))"

section \<open>\<open>contact_view\<close>\<close>

record contact_input =
  c_nombre :: "string option"
  c_email :: "string option"
  c_tipo :: "string option"
  c_mensaje :: "string option"

definition contact_mail :: "string \<Rightarrow> string \<Rightarrow> string \<Rightarrow> string \<Rightarrow> string \<Rightarrow> mail" where
  "contact_mail dest nombre em tipo mensaje =
     \<lparr>mail_subject = ''Nuevo mensaje de contacto -- '' @
                     (if tipo = [] then ''Sin categor'' @ [CHR 0xED] @ ''a'' else tipo),
      mail_body = ''Nombre: '' @ nombre @ [CHR 0x0A] @ ''Email: '' @ em @ [CHR 0x0A] @
                  ''Tipo de mensaje: '' @ tipo @ [CHR 0x0A, CHR 0x0A] @ ''Mensaje:'' @ [CHR 0x0A] @ mensaje,
      mail_to = dest\<rparr>"

definition flash_contact :: "level \<Rightarrow> string \<Rightarrow> flash" where
  "flash_contact lv t = \<lparr>flash_level = lv, flash_text = t, flash_tag = ''contact''\<rparr>"

text \<open>POST: \<open>ok\<close> is the mail transport, \<open>dest\<close> the site's address.\<close>

definition contact_post :: "(mail \<Rightarrow> bool) \<Rightarrow> string \<Rightarrow> contact_input \<Rightarrow> db \<Rightarrow> response \<times> flash list \<times> db" where
  "contact_post ok dest inp d =
     (let nombre = py_strip (case c_nombre inp of None \<Rightarrow> [] | Some s \<Rightarrow> s);
          em = py_strip (case c_email inp of None \<Rightarrow> [] | Some s \<Rightarrow> s);
          tipo = py_strip (case c_tipo inp of None \<Rightarrow> [] | Some s \<Rightarrow> s);
          mensaje = py_strip (case c_mensaje inp of None \<Rightarrow> [] | Some s \<Rightarrow> s)
      in if nombre = [] \<or> em = [] \<or> mensaje = []
         then (Render ''core/contact.html'',
               [flash_contact Error ''Por favor completa todos los campos obligatorios.''], d)
         else (let m = contact_mail dest nombre em tipo mensaje
               in if ok m
                  then (Redirect ''contact'',
                        [flash_contact Success ([CHR 0xA1] @ ''Gracias! Tu mensaje fue enviado correctamente.'')],
                        d\<lparr>outbox := outbox d @ [m]\<rparr>)
                  else (Render ''core/contact.html'',
                        [flash_contact Error (''Ocurri'' @ [CHR 0xF3] @
                           '' un problema al enviar el mensaje. Intenta nuevamente m'' @ [CHR 0xE1] @ ''s tarde.'')], d)))"

section \<open>Lemmas\<close>

lemma clean_email_Inr:
  "clean_email d s = Inr e \<Longrightarrow> e = py_lower (py_strip s) \<and> (\<forall>u \<in> set (users d). py_lower (email u) \<noteq> e)"
  by (auto simp: clean_email_def email_taken_def Let_def py_lower_idem split: if_splits)

lemma signup_post_redirect:
  assumes "signup_post auth_ok inp d = Some (Redirect t, fl, d')"
  shows "auth_ok \<and> signup_errors d inp = [] \<and>
         (\<exists>fname lname. normalize_name (py_strip (su_first_name inp)) = Some fname \<and>
            normalize_name (py_strip (su_last_name inp)) = Some lname \<and>
            d' = user_create (py_strip (su_username inp)) (py_lower (py_strip (su_email inp))) fname lname d)"
  using assms by (auto simp: signup_post_def split: if_splits option.splits)

lemma signup_errors_Nil_email:
  "signup_errors d inp = [] \<Longrightarrow> \<exists>e. clean_email d (su_email inp) = Inr e"
  by (auto simp: signup_errors_def split: sum.splits)

lemma user_create_users:
  "users (user_create un em fname lname d) =
     users d @ [\<lparr>user_pk = next_pk d, username = un, email = em, first_name = fname, last_name = lname\<rparr>]"
  by (simp add: user_create_def create_or_update_user_profile_def Let_def)

lemma signup_errors_Nil_names:
  "signup_errors d inp = [] \<Longrightarrow>
     only_letters_spaces (py_strip (su_first_name inp)) \<and> only_letters_spaces (py_strip (su_last_name inp))"
  by (auto simp: signup_errors_def name_field_errors_def Let_def split: if_splits)

lemma signup_post_db:
  "signup_post b inp d = Some (r, fl, d') \<Longrightarrow> d' = d \<or> (\<exists>un em fname lname. d' = user_create un em fname lname d)"
  by (auto simp: signup_post_def split: if_splits option.splits)

lemma contact_post_db:
  "snd (snd (contact_post ok dest inp d)) = d \<or>
   (\<exists>m. snd (snd (contact_post ok dest inp d)) = d\<lparr>outbox := outbox d @ [m]\<rparr>)"
  by (auto simp: contact_post_def Let_def)

subsection \<open>Names that \<open>title()\<close> takes out of Latin-1\<close>

text \<open>
  A word that starts with \<open>y\<close> with diaeresis passes \<open>only_letters_spaces\<close>, but its
  title case \<open>Y\<close> with diaeresis (U+0178) is no Latin-1 character: \<open>save\<close> stores a
  name that the validator would refuse, and the model has no value for it.
\<close>

lemma signup_name_leaves_latin1:
  "only_letters_spaces [CHR 0xFF, CHR ''v'', CHR ''e'', CHR ''s''] \<and>
   normalize_name [CHR 0xFF, CHR ''v'', CHR ''e'', CHR ''s''] = None"
  by (simp add: only_letters_spaces_def ols_char_def py_isspace_def normalize_name_def py_words_def
      py_title_def py_title_char_def)

lemma set_py_join: "set (py_join sep ws) \<subseteq> set sep \<union> (\<Union>w \<in> set ws. set w)"
  by (induction sep ws rule: py_join.induct) auto

subsection \<open>Names that \<open>title()\<close> lengthens\<close>

lemma length_py_join_replicate:
  "length (py_join sep (replicate (Suc n) w)) = Suc n * length w + n * length sep"
  by (induction n) simp_all

lemma py_split_ws_join_replicate:
  "\<not> py_isspace c \<Longrightarrow> py_split_ws (py_join '' '' (replicate (Suc n) [c])) = replicate (Suc n) [c]"
  by (induction n) (simp_all add: py_isspace_def)

lemma py_title_join_sharp_s:
  "py_title_from False (py_join '' '' (replicate (Suc n) [CHR 0xDF])) = Some (py_join '' '' (replicate (Suc n) ''Ss''))"
  by (induction n) (simp_all add: py_title_char_def py_is_cased_def py_lower_char_def)

lemma py_join_replicate_ends:
  "py_join sep (replicate (Suc n) [c]) \<noteq> [] \<and>
   hd (py_join sep (replicate (Suc n) [c])) = c \<and> last (py_join sep (replicate (Suc n) [c])) = c"
  by (induction n) (simp_all add: hd_append)

text \<open>
  \<open>title()\<close> can lengthen a name: a sharp s that starts a word becomes \<open>Ss\<close>.  A last name
  of 75 words \<open>\<ss>\<close> (149 characters) passes the form, and \<open>save\<close> stores 224 characters in
  \<open>User.last_name\<close>, a \<open>CharField(max_length=150)\<close>.
\<close>

lemma signup_last_name_overflow:
  "name_field_errors SU_last_name 150 (py_join '' '' (replicate 75 [CHR 0xDF])) = [] \<and>
   normalize_name (py_strip (py_join '' '' (replicate 75 [CHR 0xDF]))) = Some (py_join '' '' (replicate 75 ''Ss'')) \<and>
   length (py_join '' '' (replicate 75 [CHR 0xDF])) = 149 \<and>
   length (py_join '' '' (replicate 75 ''Ss'')) = 224"
proof -
  let ?s = "py_join '' '' (replicate 75 [CHR 0xDF])"
  have sp: "\<not> py_isspace (CHR 0xDF)" by (simp add: py_isspace_def)
  have r: "replicate 75 x = replicate (Suc 74) x" for x :: string by simp
  have len: "length ?s = 149" "length (py_join '' '' (replicate 75 ''Ss'')) = 224"
    unfolding r length_py_join_replicate by simp_all
  have "set ?s \<subseteq> {CHR 0xDF, CHR '' ''}"
    using set_py_join [of "'' ''" "replicate 75 [CHR 0xDF]"] by auto
  then have ols: "only_letters_spaces ?s"
    using len by (auto simp: only_letters_spaces_def list_all_iff ols_char_def py_isspace_def)
  have strip: "py_strip ?s = ?s"
    using py_join_replicate_ends [of "'' ''" 74 "CHR 0xDF"] sp len
    by (intro py_strip_noop) simp
  have words: "py_words ?s = replicate 75 [CHR 0xDF]"
    using py_split_ws_join_replicate [OF sp, of 74] by (simp add: py_words_def)
  have "normalize_name (py_strip ?s) = py_title (py_join '' '' (py_words ?s))"
    by (simp only: strip normalize_name_def)
  also have "\<dots> = Some (py_join '' '' (replicate 75 ''Ss''))"
    using py_title_join_sharp_s [of 74] by (simp add: words py_title_def)
  finally have "normalize_name (py_strip ?s) = Some (py_join '' '' (replicate 75 ''Ss''))" .
  moreover have "?s \<noteq> []" using len by auto
  ultimately show ?thesis using strip ols len by (simp add: name_field_errors_def Let_def)
qed

text \<open>A sign-up on the mall database with one account: the names are collapsed and title-cased, the email lower-cased.\<close>

lemma signup_post_carla:
  "signup_post True
     \<lparr>su_username = ''carla'', su_first_name = '' carla   maria '', su_last_name = ''rojas'',
           su_email = '' Carla@Test.COM ''\<rparr>
     (user_create ''ignacio'' ''ignacio@test.com'' ''Ignacio'' ''Rojas'' mall_db) =
   Some (Redirect ''home'', [flash_plain Success msg_account_created],
         user_create ''carla'' ''carla@test.com'' ''Carla Maria'' ''Rojas'' (user_create ''ignacio'' ''ignacio@test.com'' ''Ignacio'' ''Rojas'' mall_db))"
  by (simp add: signup_post_def signup_errors_def name_field_errors_def only_letters_spaces_def ols_char_def
      clean_email_def email_taken_def normalize_name_def py_title_def py_words_def py_title_char_def
      py_is_cased_def py_lower_def py_lower_char_def py_strip_def py_lstrip_def py_rstrip_def
      py_isspace_def user_create_users mall_db_def empty_db_def char_of_def bit_Suc bit_0)

section \<open>Properties of the accounts\<close>



end
