(* ===== verification/Admin.thy ===== *)
theory Admin
  imports Reports Accounts "HOL-Library.Multiset"
begin

text \<open>
  The admin site of \<open>src/core/admin.py\<close>: \<open>PlaceAdmin\<close> (lines 4--9) and \<open>ReportAdmin\<close>
  (lines 11--16) configure Django's change list.  The change list of a model answers the
  search box \<open>q\<close> by splitting it into words (\<open>smart_split\<close>) and keeping the rows in
  which every word occurs, ignoring case, in one of the \<open>search_fields\<close>
  (\<open>field__icontains\<close>, OR over the fields, AND over the words); \<open>list_filter\<close> adds an
  exact filter on a field; the rows come in the order of \<open>ordering\<close>, to which the change
  list appends \<open>-pk\<close> so that the order is total.  \<open>place__name\<close> and
  \<open>author__username\<close> follow the foreign keys (an inner join: a row whose key does not
  resolve matches nothing there).

  \<open>smart_split\<close> keeps a quoted phrase together and then unquotes it; the model splits
  at whitespace, which is what \<open>smart_split\<close> does on a search without quote characters,
  and answers \<open>None\<close> for a search with one.  \<open>list_display\<close> names the columns of a row.
  \<open>ReportAdmin\<close> also brings the add and change forms of \<open>Report\<close>, which the
  application's state machine (\<open>System\<close>) runs as requests.
\<close>

section \<open>The search of the change lists\<close>

definition admin_search_bits :: "string \<Rightarrow> string list option" where
  "admin_search_bits q =
     (if CHR 0x22 \<in> set q \<or> CHR 0x27 \<in> set q then None else Some (py_words q))"

text \<open>\<open>get_search_results\<close>: every word in one of the fields.  A field value is \<open>None\<close>
  when its foreign key does not resolve.\<close>

definition admin_matches :: "string option list \<Rightarrow> string list \<Rightarrow> bool" where
  "admin_matches fs bits \<longleftrightarrow>
     list_all (\<lambda>bit. list_ex (\<lambda>f. case f of None \<Rightarrow> False | Some v \<Rightarrow> icontains v bit) fs) bits"

section \<open>\<open>PlaceAdmin\<close>\<close>

definition place_search_fields :: "place \<Rightarrow> string option list" where
  "place_search_fields p = [Some (name p), Some (address p), Some (place_tags p)]"

definition place_list_display ::
  "place \<Rightarrow> place_id \<times> string \<times> string \<times> decimal \<times> decimal \<times> string \<times> timestamp" where
  "place_list_display p = (place_pk p, name p, address p, lat p, lng p, place_tags p, place_created_at p)"

text \<open>\<open>ordering = ("-created_at",)\<close>, then \<open>-pk\<close>.\<close>

definition place_admin_order :: "place \<Rightarrow> int \<times> int" where
  "place_admin_order p = (- int (place_created_at p), - int (place_pk p))"

definition place_changelist :: "string \<Rightarrow> db \<Rightarrow> place list option" where
  "place_changelist q d =
     map_option (\<lambda>bits. sort_key place_admin_order
                          (filter (\<lambda>p. admin_matches (place_search_fields p) bits) (places d)))
       (admin_search_bits q)"

section \<open>\<open>ReportAdmin\<close>\<close>

definition report_search_fields :: "db \<Rightarrow> report \<Rightarrow> string option list" where
  "report_search_fields d r =
     [map_option name (get_place d (report_place r)), map_option username (get_user d (report_author r)),
      Some (report_tags r), Some (description r)]"

definition report_list_display ::
  "db \<Rightarrow> report \<Rightarrow> report_id \<times> string option \<times> string option \<times> int \<times> string \<times> timestamp" where
  "report_list_display d r =
     (report_pk r, map_option name (get_place d (report_place r)),
      map_option username (get_user d (report_author r)), rating r, report_tags r, report_created_at r)"

definition report_admin_order :: "report \<Rightarrow> int \<times> int" where
  "report_admin_order r = (- int (report_created_at r), - int (report_pk r))"

text \<open>\<open>list_filter = ("rating",)\<close>: \<open>rf\<close> is the chosen rating, if any.\<close>

definition report_changelist :: "string \<Rightarrow> int option \<Rightarrow> db \<Rightarrow> report list option" where
  "report_changelist q rf d =
     map_option (\<lambda>bits. sort_key report_admin_order
                          (filter (\<lambda>r. (case rf of None \<Rightarrow> True | Some v \<Rightarrow> rating r = v) \<and>
                                       admin_matches (report_search_fields d r) bits) (reports d)))
       (admin_search_bits q)"

section \<open>The add and change forms of \<open>ReportAdmin\<close>\<close>

text \<open>
  \<open>ReportAdmin\<close> declares no \<open>fields\<close>, so its form is a \<open>ModelForm\<close> on every editable
  field of \<open>Report\<close>: \<open>place\<close> and \<open>author\<close> (\<open>ModelChoiceField\<close>s), \<open>description\<close> and
  \<open>tags\<close> (\<open>CharField\<close>s that strip; \<open>tags\<close> at most 255 characters), \<open>rating\<close> (the
  \<open>IntegerField(min_value=0)\<close> of a \<open>PositiveSmallIntegerField\<close>, and the model's
  \<open>MaxValueValidator\<close> of the backend's range, \<open>2 ^ 63 - 1\<close> for SQLite from Django 5.0 on)
  and \<open>photo\<close> (an \<open>ImageField\<close>: Pillow must open it; no size or type rule of
  \<open>ReportForm\<close> applies).  The rating arrives as the integer \<open>IntegerField.to_python\<close>
  made of the submitted text.  Without an upload the change form keeps the stored photo.
\<close>

definition admin_report_form ::
  "db \<Rightarrow> string option \<Rightarrow> place_id \<Rightarrow> user_id \<Rightarrow> string \<Rightarrow> int \<Rightarrow> string \<Rightarrow> upload option \<Rightarrow>
   (report_field \<times> form_error) list + report_data" where
  "admin_report_form d old k a desc rt tags ph =
     (let errs = (if get_place d k = None then [(RF_place, Invalid_choice)] else []) @
                 (if get_user d a = None then [(RF_author, Invalid_choice)] else []) @
                 (if rt < 0 then [(RF_rating, Min_value 0)]
                  else if 2 ^ 63 - 1 < rt then [(RF_rating, Max_value (2 ^ 63 - 1))] else []) @
                 (if 255 < length (py_strip tags) then [(RF_tags, Max_chars 255)] else []) @
                 (case ph of Some u \<Rightarrow> if up_is_image u then [] else [(RF_photo, Invalid_image)] | None \<Rightarrow> [])
      in case get_place d k of
           Some p \<Rightarrow> if errs = [] then
                        Inr \<lparr>rd_place = p, rd_description = py_strip desc, rd_rating = rt, rd_tags = py_strip tags,
                             rd_photo = (case ph of None \<Rightarrow> old | Some u \<Rightarrow> Some (''reports/'' @ up_name u))\<rparr>
                      else Inl errs
         | None \<Rightarrow> Inl errs)"

text \<open>
  The add view: a valid form is saved (\<open>Report.save\<close>, which fires the \<open>post_save\<close>
  receiver with \<open>created=True\<close>) and the admin redirects to the change list; an invalid
  one is shown again.
\<close>

definition admin_report_add ::
  "(mail \<Rightarrow> bool) \<Rightarrow> timestamp \<Rightarrow> place_id \<Rightarrow> user_id \<Rightarrow> string \<Rightarrow> int \<Rightarrow> string \<Rightarrow> upload option \<Rightarrow> db \<Rightarrow>
   response \<times> db" where
  "admin_report_add ok now k a desc rt tags ph d =
     (case admin_report_form d None k a desc rt tags ph of
        Inl errs \<Rightarrow> (Render ''admin/change_form.html'', d)
      | Inr rd \<Rightarrow> (case report_create ok now a rd d of
                    Inl e \<Rightarrow> (ServerError, d)
                  | Inr (r, d') \<Rightarrow> (Redirect ''admin:core_report_changelist'', d')))"

text \<open>
  The change view of report \<open>rk\<close>: a missing report sends the admin to the index; a valid
  form updates every field, the author included, and fires \<open>post_save\<close> with
  \<open>created=False\<close>.
\<close>

definition admin_report_change ::
  "(mail \<Rightarrow> bool) \<Rightarrow> timestamp \<Rightarrow> report_id \<Rightarrow> place_id \<Rightarrow> user_id \<Rightarrow> string \<Rightarrow> int \<Rightarrow> string \<Rightarrow>
   upload option \<Rightarrow> db \<Rightarrow> response \<times> db" where
  "admin_report_change ok now rk k a desc rt tags ph d =
     (case get_report d rk of
        None \<Rightarrow> (Redirect ''admin:index'', d)
      | Some r \<Rightarrow>
          (case admin_report_form d (photo r) k a desc rt tags ph of
             Inl errs \<Rightarrow> (Render ''admin/change_form.html'', d)
           | Inr rd \<Rightarrow> (Redirect ''admin:core_report_changelist'',
                        report_update ok now (r\<lparr>report_author := a\<rparr>) rd d)))"

text \<open>A database for the examples: two places, one account, a report on each place.\<close>

definition admin_db :: db where
  "admin_db = empty_db\<lparr>
     users := [\<lparr>user_pk = 3, username = ''ignacio'', email = ''ignacio@test.com'',
                first_name = ''Ignacio'', last_name = ''Rojas''\<rparr>],
     places := [\<lparr>place_pk = 1, name = ''Mall Arauco'', address = ''Av. Americo'',
                 lat = \<lparr>coeff = -33520000, exponent = -6\<rparr>, lng = \<lparr>coeff = -70770000, exponent = -6\<rparr>,
                 place_tags = ''rampa'', place_created_at = 0\<rparr>,
                \<lparr>place_pk = 2, name = ''Espacio Urbano'', address = ''Pajaritos'',
                 lat = \<lparr>coeff = -33510000, exponent = -6\<rparr>, lng = \<lparr>coeff = -70760000, exponent = -6\<rparr>,
                 place_tags = ''ascensor'', place_created_at = 5\<rparr>],
     reports := [\<lparr>report_pk = 4, report_place = 1, report_author = 3, description = ''Rampa amplia'',
                  rating = 4, report_tags = ''rampa'', photo = None, report_created_at = 10\<rparr>,
                 \<lparr>report_pk = 5, report_place = 2, report_author = 3, description = ''Sin ascensor'',
                  rating = 2, report_tags = ''ascensor'', photo = None, report_created_at = 20\<rparr>],
     next_pk := 6\<rparr>"

section \<open>Lemmas\<close>

lemma admin_report_form_Inr:
  assumes "admin_report_form d old k a desc rt tags ph = Inr rd"
  shows "get_place d k = Some (rd_place rd) \<and> get_user d a \<noteq> None \<and> 0 \<le> rd_rating rd \<and> rd_rating rd < 2 ^ 63"
  using assms by (auto simp: admin_report_form_def Let_def split: option.splits if_splits)



end
