(* ===== verification/System.thy ===== *)
theory System
  imports Comments Geofence Accounts Admin
begin

text \<open>
  The whole application as a state machine over the database.  Each constructor of
  \<open>request\<close> is one request a client can send that writes to the database, and
  \<open>step\<close> runs the view (or, for the places, \<open>Place.save\<close>/\<open>Place.delete\<close> as the
  admin runs them, and the add, change and delete views of \<open>ReportAdmin\<close>) on the
  current database.  A request on behalf of a user is only
  possible for a user of the database: \<open>login_required\<close> and the session make
  \<open>request.user\<close> an existing account.  \<open>reachable\<close> is the set of databases a
  sequence of such requests produces from the empty database after \<open>migrate\<close>;
  \<open>db_inv\<close> collects what every reachable database satisfies: unique keys below the key
  counter, one profile per account, foreign keys that resolve, no repeated favorites row,
  every place inside the Maip\<acute>u box and every rating between 0 and \<open>2 ^ 63 - 1\<close>, the
  range the admin's report form accepts (the views keep to 1--5).  The favorites
  table is also related to an abstract relation between users and places
  (\<open>fav_rel\<close>) whose changes \<open>fav_spec\<close> describes.
\<close>

text \<open>
  \<open>Signup b inp\<close>: a sign-up by a visitor, \<open>b\<close> whether the checks Django makes pass
  (a name outside the model, where \<open>signup_post\<close> answers \<open>None\<close>, leaves the database
  as it is); \<open>EditAccount u b \<dots>\<close>: the profile page's POST, \<open>b\<close> whether the checks of
  \<open>EmailValidator\<close> and of the avatar image pass; \<open>ViewProfile u\<close>: the profile page's
  GET (\<open>get_or_create\<close> of the profile); \<open>Contact dest inp\<close>: the contact form, \<open>dest\<close>
  the address of the settings.
\<close>

datatype request =
    Signup bool signup_input
  | EditAccount user_id bool string string string "string option" string
  | ViewProfile user_id
  | Contact string contact_input
  | ToggleFavorite user_id place_id "string option" "string option"
  | SubmitReport user_id report_form_input
  | EditReport user_id report_id report_form_input
  | DeleteReport user_id report_id
  | PostComment user_id report_id "string option"
  | OpenNotifications user_id
  | AddPlace place_input
  | EditPlace place_id place_input
  | DeletePlace place_id
  | AdminAddReport place_id user_id string int string "upload option"
  | AdminEditReport report_id place_id user_id string int string "upload option"
  | AdminDeleteReport report_id

text \<open>The logged-in user a request is sent by, if any.\<close>

fun actor_of :: "request \<Rightarrow> user_id option" where
  "actor_of (Signup _ _) = None"
| "actor_of (EditAccount u _ _ _ _ _ _) = Some u"
| "actor_of (ViewProfile u) = Some u"
| "actor_of (Contact _ _) = None"
| "actor_of (ToggleFavorite u _ _ _) = Some u"
| "actor_of (SubmitReport u _) = Some u"
| "actor_of (EditReport u _ _) = Some u"
| "actor_of (DeleteReport u _) = Some u"
| "actor_of (PostComment u _ _) = Some u"
| "actor_of (OpenNotifications u) = Some u"
| "actor_of (AddPlace _) = None"
| "actor_of (EditPlace _ _) = None"
| "actor_of (DeletePlace _) = None"
| "actor_of (AdminAddReport _ _ _ _ _ _) = None"
| "actor_of (AdminEditReport _ _ _ _ _ _ _) = None"
| "actor_of (AdminDeleteReport _) = None"

definition user_ids :: "db \<Rightarrow> user_id list" where
  "user_ids d = map user_pk (users d)"

definition place_ids :: "db \<Rightarrow> place_id list" where
  "place_ids d = map place_pk (places d)"

definition report_ids :: "db \<Rightarrow> report_id list" where
  "report_ids d = map report_pk (reports d)"

definition profile_ids :: "db \<Rightarrow> nat list" where
  "profile_ids d = map profile_pk (profiles d)"

definition request_ok :: "db \<Rightarrow> request \<Rightarrow> bool" where
  "request_ok d req = (case actor_of req of None \<Rightarrow> True | Some u \<Rightarrow> u \<in> set (user_ids d))"

text \<open>The database after a request; a refused insert or update of a place leaves it unchanged.\<close>

fun step :: "(mail \<Rightarrow> bool) \<Rightarrow> timestamp \<Rightarrow> request \<Rightarrow> db \<Rightarrow> db" where
  "step ok now (Signup b inp) d = (case signup_post b inp d of Some (_, _, d') \<Rightarrow> d' | None \<Rightarrow> d)"
| "step ok now (EditAccount u b fname lname em av bo) d = snd (snd (profile_view_post b u fname lname em av bo d))"
| "step ok now (ViewProfile u) d = snd (snd (profile_view_get u d))"
| "step ok now (Contact dest inp) d = snd (snd (contact_post ok dest inp d))"
| "step ok now (ToggleFavorite u k pn gn) d = snd (snd (toggle_favorite_place u k pn gn d))"
| "step ok now (SubmitReport u inp) d = snd (snd (report_view_post ok now u inp d))"
| "step ok now (EditReport u k inp) d = snd (snd (report_edit_post ok now u k inp d))"
| "step ok now (DeleteReport u k) d = snd (snd (report_delete_view True u k d))"
| "step ok now (PostComment u k txt) d = snd (snd (snd (report_detail now (Authenticated u) k (Detail_POST txt) d)))"
| "step ok now (OpenNotifications u) d = snd (notifications_view u d)"
| "step ok now (AddPlace p) d = (case place_create now p d of Inl _ \<Rightarrow> d | Inr d' \<Rightarrow> d')"
| "step ok now (EditPlace k p) d = (case place_update k p d of Inl _ \<Rightarrow> d | Inr d' \<Rightarrow> d')"
| "step ok now (DeletePlace k) d = place_delete k d"
| "step ok now (AdminAddReport k a desc rt tags ph) d = snd (admin_report_add ok now k a desc rt tags ph d)"
| "step ok now (AdminEditReport rk k a desc rt tags ph) d = snd (admin_report_change ok now rk k a desc rt tags ph d)"
| "step ok now (AdminDeleteReport rk) d = report_delete rk d"

inductive reachable :: "db \<Rightarrow> bool" where
  init: "reachable empty_db"
| step: "reachable d \<Longrightarrow> request_ok d req \<Longrightarrow> reachable (step ok now req d)"

text \<open>A sequence of requests, one after the other, and whether each is sent by an existing user.\<close>

fun run :: "(mail \<Rightarrow> bool) \<Rightarrow> timestamp \<Rightarrow> request list \<Rightarrow> db \<Rightarrow> db" where
  "run ok now [] d = d"
| "run ok now (req # reqs) d = run ok now reqs (step ok now req d)"

fun run_ok :: "(mail \<Rightarrow> bool) \<Rightarrow> timestamp \<Rightarrow> request list \<Rightarrow> db \<Rightarrow> bool" where
  "run_ok ok now [] d = True"
| "run_ok ok now (req # reqs) d = (request_ok d req \<and> run_ok ok now reqs (step ok now req d))"

text \<open>The requests that delete each report of a user, one after the other.\<close>

definition delete_own_requests :: "user_id \<Rightarrow> db \<Rightarrow> request list" where
  "delete_own_requests u d =
     map (DeleteReport u) (remdups (map report_pk (filter (\<lambda>r. report_author r = u) (reports d))))"

text \<open>
  A session of the application: an account is created (key 1, profile 2), then the admin
  adds the place of \<open>NotificationModelTest\<close> (key 3).
\<close>

definition demo_requests :: "request list" where
  "demo_requests =
     [Signup True \<lparr>su_username = ''ignacio'', su_first_name = ''Ignacio'', su_last_name = ''Rojas'',
                   su_email = ''ignacio@test.com''\<rparr>,
      AddPlace \<lparr>in_name = ''Espacio Urbano'', in_address = ''Pajaritos'',
                in_lat = Some \<lparr>coeff = -33520000, exponent = -6\<rparr>,
                in_lng = Some \<lparr>coeff = -70770000, exponent = -6\<rparr>, in_tags = []\<rparr>]"

definition demo_db :: db where
  "demo_db = run (\<lambda>_. True) 0 demo_requests empty_db"

text \<open>
  Another session: a second account signs up, then enters the first account's email, in
  capitals, on its profile page.
\<close>

definition dup_requests :: "request list" where
  "dup_requests =
     demo_requests @
     [Signup True \<lparr>su_username = ''carla'', su_first_name = ''Carla'', su_last_name = ''Rojas'',
                   su_email = ''carla@test.com''\<rparr>,
      EditAccount 4 True ''Carla'' ''Rojas'' ''IGNACIO@test.com'' None []]"

definition dup_db :: db where
  "dup_db = run (\<lambda>_. True) 0 dup_requests empty_db"

text \<open>The session continued: the account reports on the place, an elevator rated 4.\<close>

definition demo_report :: report_form_input where
  "demo_report = \<lparr>f_place = ''3'', f_description = ''Ascensor operativo'', f_rating = ''4'',
                   f_tags = [''ascensor''], f_photo = None\<rparr>"

definition demo_report_db :: db where
  "demo_report_db = run (\<lambda>_. True) 0 (demo_requests @ [SubmitReport 1 demo_report]) empty_db"

section \<open>The invariant\<close>

definition keys_below :: "('a \<Rightarrow> nat) \<Rightarrow> 'a list \<Rightarrow> nat \<Rightarrow> bool" where
  "keys_below key xs n \<longleftrightarrow> distinct (map key xs) \<and> list_all (\<lambda>x. key x < n) xs"

definition inv_keys :: "db \<Rightarrow> bool" where
  "inv_keys d \<longleftrightarrow>
     keys_below user_pk (users d) (next_pk d) \<and> keys_below profile_pk (profiles d) (next_pk d) \<and>
     keys_below place_pk (places d) (next_pk d) \<and> keys_below report_pk (reports d) (next_pk d) \<and>
     keys_below notification_pk (notifications d) (next_pk d) \<and>
     keys_below comment_pk (comments d) (next_pk d)"

text \<open>One profile per account (the \<open>OneToOneField\<close>), and every account has one.\<close>

definition inv_profiles :: "db \<Rightarrow> bool" where
  "inv_profiles d \<longleftrightarrow>
     distinct (map profile_user (profiles d)) \<and> set (map profile_user (profiles d)) = set (user_ids d)"

definition inv_favorites :: "db \<Rightarrow> bool" where
  "inv_favorites d \<longleftrightarrow>
     distinct (favorites d) \<and>
     list_all (\<lambda>f. fav_profile f \<in> set (profile_ids d) \<and> fav_place f \<in> set (place_ids d)) (favorites d)"

definition inv_places :: "db \<Rightarrow> bool" where
  "inv_places d \<longleftrightarrow> list_all (\<lambda>p. in_maipu (lat p) (lng p)) (places d)"

definition inv_reports :: "db \<Rightarrow> bool" where
  "inv_reports d \<longleftrightarrow>
     list_all (\<lambda>r. report_place r \<in> set (place_ids d) \<and> report_author r \<in> set (user_ids d) \<and>
                   0 \<le> rating r \<and> rating r < 2 ^ 63) (reports d)"

definition inv_comments :: "db \<Rightarrow> bool" where
  "inv_comments d \<longleftrightarrow>
     list_all (\<lambda>c. comment_report c \<in> set (report_ids d) \<and> comment_author c \<in> set (user_ids d)) (comments d)"

definition inv_notifications :: "db \<Rightarrow> bool" where
  "inv_notifications d \<longleftrightarrow>
     list_all (\<lambda>n. notification_user n \<in> set (user_ids d) \<and>
                   pred_option (\<lambda>k. k \<in> set (place_ids d)) (notification_place n) \<and>
                   pred_option (\<lambda>k. k \<in> set (report_ids d)) (notification_report n)) (notifications d)"

definition db_inv :: "db \<Rightarrow> bool" where
  "db_inv d \<longleftrightarrow> inv_keys d \<and> inv_profiles d \<and> inv_favorites d \<and> inv_places d \<and>
     inv_reports d \<and> inv_comments d \<and> inv_notifications d"

section \<open>The favorites as a relation\<close>

text \<open>Which user has which place among the favorites: the through table read through the profiles.\<close>

definition fav_rel :: "db \<Rightarrow> (user_id \<times> place_id) set" where
  "fav_rel d = set [(profile_user p, fav_place f). p \<leftarrow> profiles d, f \<leftarrow> favorites d,
                    fav_profile f = profile_pk p]"

text \<open>
  The specification of the favorites relation: a toggle of an existing place flips the
  pair, deleting a place drops its pairs, no other request touches the relation.
\<close>

fun fav_spec :: "request \<Rightarrow> place_id set \<Rightarrow> (user_id \<times> place_id) set \<Rightarrow> (user_id \<times> place_id) set" where
  "fav_spec (ToggleFavorite u k _ _) P R =
     (if k \<notin> P then R else if (u, k) \<in> R then R - {(u, k)} else insert (u, k) R)"
| "fav_spec (DeletePlace k) P R = {x \<in> R. snd x \<noteq> k}"
| "fav_spec _ P R = R"

section \<open>Preservation of the invariant\<close>

lemmas inv_defs = db_inv_def inv_keys_def inv_profiles_def inv_favorites_def inv_places_def
  inv_reports_def inv_comments_def inv_notifications_def keys_below_def
  user_ids_def place_ids_def report_ids_def profile_ids_def

lemma keys_below_mono: "keys_below key xs n \<Longrightarrow> n \<le> m \<Longrightarrow> keys_below key xs m"
  by (auto simp: keys_below_def list_all_iff)

lemma keys_below_snoc:
  "keys_below key xs n \<Longrightarrow> key x = n \<Longrightarrow> keys_below key (xs @ [x]) (Suc n)"
  by (auto simp: keys_below_def list_all_iff)

lemma keys_below_fresh: "keys_below key xs n \<Longrightarrow> n \<notin> set (map key xs)"
  by (auto simp: keys_below_def list_all_iff)

lemma keys_below_filter: "keys_below key xs n \<Longrightarrow> keys_below key (filter P xs) n"
  by (auto simp: keys_below_def list_all_iff distinct_map_filter)

lemma keys_below_map:
  "keys_below key xs n \<Longrightarrow> \<forall>x \<in> set xs. key (f x) = key x \<Longrightarrow> keys_below key (map f xs) n"
  by (auto simp: keys_below_def list_all_iff comp_def cong: map_cong)

lemma user_create_inv:
  assumes "db_inv d"
  shows "db_inv (user_create un em fname lname d)"
proof -
  let ?u = "next_pk d"
  have fresh: "?u \<notin> set (user_ids d)"
    using assms keys_below_fresh by (auto simp: db_inv_def inv_keys_def user_ids_def)
  have db: "user_create un em fname lname d =
      profile_create ?u (d\<lparr>users := users d @ [\<lparr>user_pk = ?u, username = un, email = em,
                                            first_name = fname, last_name = lname\<rparr>],
                         next_pk := Suc ?u\<rparr>)"
    by (simp add: user_create_def create_or_update_user_profile_def Let_def)
  show ?thesis
    using assms fresh unfolding db
    by (auto simp: inv_defs new_profile_def list_all_iff intro: keys_below_mono)
qed

lemma profile_of_exists:
  assumes "inv_profiles d" and "u \<in> set (user_ids d)"
  shows "\<exists>p. profile_of d u = Some p"
proof -
  from assms have "u \<in> profile_user ` set (profiles d)" by (simp add: inv_profiles_def)
  then obtain p where "p \<in> set (profiles d)" and "profile_user p = u" by blast
  then show ?thesis by (cases "profile_of d u") (auto simp: profile_of_def find_None_iff)
qed

lemma profile_get_or_create_existing:
  assumes "inv_profiles d" and "u \<in> set (user_ids d)"
  shows "snd (profile_get_or_create u d) = d \<and> fst (profile_get_or_create u d) \<in> set (profiles d)"
  using profile_of_exists [OF assms]
  by (auto simp: profile_get_or_create_def profile_of_def dest: find_Some_mem)

lemma user_save_eq:
  assumes "db_inv d" and "u \<in> set (user_ids d)"
  shows "user_save u fname lname em d =
           d\<lparr>users := map (\<lambda>x. if user_pk x = u
                   then x\<lparr>first_name := fname, last_name := lname, email := em\<rparr> else x) (users d)\<rparr>"
proof -
  let ?d1 = "d\<lparr>users := map (\<lambda>x. if user_pk x = u
                   then x\<lparr>first_name := fname, last_name := lname, email := em\<rparr> else x) (users d)\<rparr>"
  have ids: "user_ids ?d1 = user_ids d" by (simp add: user_ids_def comp_def cong: map_cong)
  have "inv_profiles ?d1" "u \<in> set (user_ids ?d1)"
    using assms ids by (simp_all add: db_inv_def inv_profiles_def)
  then show ?thesis
    using profile_get_or_create_existing by (simp add: user_save_def create_or_update_user_profile_def)
qed

lemma user_save_inv:
  assumes "db_inv d" and "u \<in> set (user_ids d)"
  shows "db_inv (user_save u fname lname em d)"
proof -
  have "user_ids (user_save u fname lname em d) = user_ids d"
    by (simp add: user_save_eq [OF assms] user_ids_def comp_def cong: map_cong)
  with assms(1) show ?thesis unfolding user_save_eq [OF assms] db_inv_def
    by (simp add: inv_keys_def inv_profiles_def inv_favorites_def inv_places_def inv_reports_def
        inv_comments_def inv_notifications_def place_ids_def report_ids_def profile_ids_def keys_below_map)
qed

lemma profile_form_save_keys:
  "map profile_pk (profiles (profile_form_save k av b d)) = map profile_pk (profiles d)"
  "map profile_user (profiles (profile_form_save k av b d)) = map profile_user (profiles d)"
  by (induction "profiles d") (simp_all add: profile_form_save_def)

lemma keys_below_map_iff: "keys_below key xs n \<longleftrightarrow> distinct (map key xs) \<and> list_all (\<lambda>k. k < n) (map key xs)"
  by (simp add: keys_below_def list.pred_map comp_def)

lemma keys_below_cong: "map key xs = map key ys \<Longrightarrow> keys_below key xs n = keys_below key ys n"
  by (simp add: keys_below_map_iff)

lemma profile_form_save_inv:
  assumes "db_inv d"
  shows "db_inv (profile_form_save k av b d)"
proof -
  have "keys_below profile_pk (profiles (profile_form_save k av b d)) (next_pk d)"
    using assms keys_below_cong [OF profile_form_save_keys(1)] by (simp add: db_inv_def inv_keys_def)
  moreover have "profile_ids (profile_form_save k av b d) = profile_ids d"
    by (simp add: profile_ids_def profile_form_save_keys(1))
  ultimately show ?thesis
    using assms unfolding db_inv_def
    by (simp add: profile_form_save_keys inv_keys_def inv_profiles_def inv_favorites_def
        inv_places_def inv_reports_def inv_comments_def inv_notifications_def user_ids_def place_ids_def
        report_ids_def, simp add: profile_form_save_def)
qed

lemma profile_view_post_eq:
  assumes "db_inv d" and "u \<in> set (user_ids d)"
  shows "\<exists>prof \<in> set (profiles d). snd (snd (profile_view_post b u fname lname em av bo d)) =
           (if profile_forms_valid b fname lname em then profile_form_save (profile_pk prof) av (py_strip bo)
                        (user_save u (py_strip fname) (py_strip lname) (normalize_email (py_strip em)) d)
            else d)"
proof -
  obtain prof d1 where g: "profile_get_or_create u d = (prof, d1)" by fastforce
  with profile_get_or_create_existing [of d u] assms
  have "d1 = d" "prof \<in> set (profiles d)" by (auto simp: db_inv_def)
  with g show ?thesis by (auto simp: profile_view_post_def Let_def)
qed

lemma profile_view_get_db:
  assumes "db_inv d" and "u \<in> set (user_ids d)"
  shows "snd (snd (profile_view_get u d)) = d"
  using assms profile_get_or_create_existing [of d u] by (simp add: profile_view_get_def db_inv_def)

lemma profile_view_post_inv:
  assumes "db_inv d" and "u \<in> set (user_ids d)"
  shows "db_inv (snd (snd (profile_view_post b u fname lname em av bo d)))"
proof -
  from profile_view_post_eq [OF assms] obtain prof :: profile where
    "snd (snd (profile_view_post b u fname lname em av bo d)) =
       (if profile_forms_valid b fname lname em then profile_form_save (profile_pk prof) av (py_strip bo)
                    (user_save u (py_strip fname) (py_strip lname) (normalize_email (py_strip em)) d) else d)" by blast
  then show ?thesis using assms by (simp add: user_save_inv profile_form_save_inv)
qed

lemma signup_step_inv:
  assumes "db_inv d"
  shows "db_inv (case signup_post b inp d of Some (_, _, d') \<Rightarrow> d' | None \<Rightarrow> d)"
  using assms user_create_inv signup_post_db [of b inp d] by (auto split: option.splits)

lemma outbox_inv [simp]: "db_inv (d\<lparr>outbox := ms\<rparr>) = db_inv d"
  by (simp add: inv_defs)

lemma contact_inv: "db_inv d \<Longrightarrow> db_inv (snd (snd (contact_post ok dest inp d)))"
  using contact_post_db [of ok dest inp d] by auto

lemma toggle_inv:
  assumes "db_inv d" and "u \<in> set (user_ids d)"
  shows "db_inv (snd (snd (toggle_favorite_place u k pn gn d)))"
proof (cases "get_place d k")
  case None
  with assms show ?thesis by (simp add: toggle_favorite_place_def)
next
  case (Some pl)
  obtain prof d1 where g: "profile_get_or_create u d = (prof, d1)" by fastforce
  with profile_get_or_create_existing [of d u] assms
  have d1: "d1 = d" and prof: "prof \<in> set (profiles d)" by (auto simp: db_inv_def)
  have k: "k \<in> set (place_ids d)"
    using Some by (auto simp: get_place_def place_ids_def dest!: find_Some_mem)
  show ?thesis
    using assms(1) prof k
    by (auto simp: toggle_favorite_place_db [OF Some g] d1 fav_add_def fav_remove_def inv_defs
        list_all_iff is_favorite_def distinct_filter)
qed

lemma fanout_loop_keys:
  "keys_below notification_pk (notifications d) (next_pk d) \<Longrightarrow>
   keys_below notification_pk (notifications (fanout_loop ok now pl r qs d)) (next_pk (fanout_loop ok now pl r qs d))"
proof (induction ok now pl r qs d rule: fanout_loop.induct)
  case (1 ok now pl r d)
  then show ?case by simp
next
  case (2 ok now pl r prof usr rest d)
  then show ?case by (simp add: Let_def keys_below_snoc new_notification_def)
qed

lemma favorites_qs_users: "x \<in> set (favorites_qs d k a) \<Longrightarrow> user_pk (snd x) \<in> set (user_ids d)"
  by (auto simp: favorites_qs_def user_ids_def)

lemma fanout_inv:
  assumes "db_inv d" and "place_pk pl \<in> set (place_ids d)" and "report_pk r \<in> set (report_ids d)"
  shows "db_inv (create_favorite_place_notifications ok now pl r c d)"
proof -
  let ?qs = "favorites_qs d (place_pk pl) (report_author r)"
  let ?d' = "fanout_loop ok now pl r ?qs d"
  have ids: "user_ids ?d' = user_ids d" "place_ids ?d' = place_ids d" "report_ids ?d' = report_ids d"
    "profile_ids ?d' = profile_ids d"
    by (simp_all add: user_ids_def place_ids_def report_ids_def profile_ids_def)
  obtain new where n: "notifications ?d' = notifications d @ new"
    and u: "map notification_user new = map (user_pk \<circ> snd) ?qs" and a: "\<forall>n \<in> set new. about pl r n"
    using fanout_loop_notifications by blast
  have "\<forall>n \<in> set new. notification_user n \<in> set (user_ids d)"
  proof
    fix n assume "n \<in> set new"
    then have "notification_user n \<in> set (map (user_pk \<circ> snd) ?qs)" using u by (metis image_eqI list.set_map)
    then show "notification_user n \<in> set (user_ids d)" using favorites_qs_users by auto
  qed
  with a assms(2,3) have "inv_notifications ?d'"
    using assms(1) by (auto simp: db_inv_def inv_notifications_def n ids list_all_iff about_def)
  moreover have "keys_below notification_pk (notifications ?d') (next_pk ?d')"
    using assms(1) fanout_loop_keys by (simp add: db_inv_def inv_keys_def)
  moreover have "next_pk d \<le> next_pk ?d'" by simp
  ultimately have "db_inv ?d'"
    using assms(1) unfolding db_inv_def inv_keys_def
    by (auto simp: inv_profiles_def inv_favorites_def inv_places_def inv_reports_def inv_comments_def
        ids intro: keys_below_mono)
  with assms(1) show ?thesis by (simp add: create_favorite_place_notifications_def Let_def)
qed

lemma report_create_inv:
  assumes "db_inv d" and "place_pk (rd_place rd) \<in> set (place_ids d)" and "u \<in> set (user_ids d)"
    and "report_create ok now u rd d = Inr (r, d')"
  shows "db_inv d'"
proof -
  define R where "R = \<lparr>report_pk = next_pk d, report_place = place_pk (rd_place rd), report_author = u,
     description = rd_description rd, rating = rd_rating rd, report_tags = rd_tags rd,
     photo = rd_photo rd, report_created_at = now\<rparr>"
  define d1 where "d1 = d\<lparr>reports := reports d @ [R], next_pk := Suc (next_pk d)\<rparr>"
  from assms(4) have rt: "0 \<le> rd_rating rd \<and> rd_rating rd < 2 ^ 63"
    and v: "d' = create_favorite_place_notifications ok now (rd_place rd) R True d1"
    by (auto simp: report_create_def Let_def R_def d1_def split: if_splits)
  have i1: "db_inv d1"
    using assms(1-3) rt unfolding d1_def R_def
    by (auto simp: inv_defs list_all_iff less_Suc_eq option.pred_set)
  have "place_pk (rd_place rd) \<in> set (place_ids d1)" "report_pk R \<in> set (report_ids d1)"
    using assms(2) by (simp_all add: d1_def place_ids_def report_ids_def)
  with i1 show ?thesis unfolding v by (rule fanout_inv)
qed

lemma report_view_post_inv:
  assumes "db_inv d" and "u \<in> set (user_ids d)"
  shows "db_inv (snd (snd (report_view_post ok now u inp d)))"
proof (cases "report_form_clean d None inp")
  case (Inl errs)
  with assms show ?thesis by (simp add: report_view_post_def)
next
  case (Inr rd)
  note f = this
  have pl: "place_pk (rd_place rd) \<in> set (place_ids d)"
    using report_form_clean_Inr [OF f] clean_place_found by (fastforce simp: place_ids_def)
  show ?thesis
  proof (cases "report_create ok now u rd d")
    case (Inl e)
    with f assms(1) show ?thesis by (simp add: report_view_post_valid)
  next
    case (Inr x)
    obtain r d' where x: "x = (r, d')" by fastforce
    with Inr have "report_create ok now u rd d = Inr (r, d')" by simp
    with f x report_create_inv [OF assms(1) pl assms(2)] show ?thesis by (simp add: report_view_post_valid)
  qed
qed

lemma report_update_inv:
  assumes "db_inv d" and "report_pk r \<in> set (report_ids d)" and "report_author r \<in> set (user_ids d)"
    and "place_pk (rd_place rd) \<in> set (place_ids d)" and "0 \<le> rd_rating rd" and "rd_rating rd < 2 ^ 63"
  shows "db_inv (report_update ok now r rd d)"
proof -
  let ?f = "\<lambda>x. if report_pk x = report_pk r
             then r\<lparr>report_place := place_pk (rd_place rd), description := rd_description rd,
                    rating := rd_rating rd, report_tags := rd_tags rd, photo := rd_photo rd\<rparr>
             else x"
  have d': "report_update ok now r rd d = d\<lparr>reports := map ?f (reports d)\<rparr>"
    by (simp add: report_update_def create_favorite_place_notifications_def)
  have ri: "report_ids (d\<lparr>reports := map ?f (reports d)\<rparr>) = report_ids d"
    by (simp add: report_ids_def comp_def cong: map_cong)
  have "inv_reports (d\<lparr>reports := map ?f (reports d)\<rparr>)"
    using assms by (auto simp: db_inv_def inv_reports_def list_all_iff place_ids_def user_ids_def)
  moreover have "keys_below report_pk (map ?f (reports d)) (next_pk d)"
    using assms by (intro keys_below_map) (simp_all add: db_inv_def inv_keys_def)
  ultimately show ?thesis
    using assms unfolding d' db_inv_def
    by (simp add: ri inv_keys_def inv_profiles_def inv_favorites_def inv_places_def
        inv_comments_def inv_notifications_def user_ids_def place_ids_def profile_ids_def)
qed

lemma report_edit_post_inv:
  assumes "db_inv d"
  shows "db_inv (snd (snd (report_edit_post ok now u k inp d)))"
proof (cases "get_own_report d u k")
  case None
  with assms show ?thesis by (simp add: report_edit_post_def)
next
  case (Some r)
  show ?thesis
  proof (cases "report_form_clean d (photo r) inp")
    case (Inl errs)
    with Some assms show ?thesis by (simp add: report_edit_post_def)
  next
    case (Inr rd)
    have rt: "1 \<le> rd_rating rd \<and> rd_rating rd \<le> 5" using report_form_clean_rating [OF Inr] .
    have pl: "place_pk (rd_place rd) \<in> set (place_ids d)"
      using report_form_clean_Inr [OF Inr] clean_place_found by (fastforce simp: place_ids_def)
    have r: "r \<in> set (reports d)" using get_own_report_Some [OF Some] by simp
    then have "report_pk r \<in> set (report_ids d)" "report_author r \<in> set (user_ids d)"
      using assms by (auto simp: report_ids_def db_inv_def inv_reports_def list_all_iff)
    with report_update_inv [OF assms _ _ pl] rt Some Inr show ?thesis
      by (simp add: report_edit_post_def)
  qed
qed

lemma admin_form_ids:
  assumes "admin_report_form d old k a desc rt tags ph = Inr rd"
  shows "place_pk (rd_place rd) \<in> set (place_ids d) \<and> a \<in> set (user_ids d) \<and>
         0 \<le> rd_rating rd \<and> rd_rating rd < 2 ^ 63"
  using admin_report_form_Inr [OF assms]
  by (auto simp: place_ids_def user_ids_def get_place_def get_user_def find_None_iff dest!: find_Some_mem)

lemma admin_report_add_inv:
  assumes "db_inv d"
  shows "db_inv (snd (admin_report_add ok now k a desc rt tags ph d))"
proof (cases "admin_report_form d None k a desc rt tags ph")
  case (Inl errs)
  with assms show ?thesis by (simp add: admin_report_add_def)
next
  case (Inr rd)
  note f = this
  from admin_form_ids [OF f] have pl: "place_pk (rd_place rd) \<in> set (place_ids d)" and u: "a \<in> set (user_ids d)"
    by simp_all
  show ?thesis
  proof (cases "report_create ok now a rd d")
    case (Inl e)
    with f assms show ?thesis by (simp add: admin_report_add_def)
  next
    case (Inr x)
    obtain r d' where x: "x = (r, d')" by fastforce
    with Inr have "report_create ok now a rd d = Inr (r, d')" by simp
    with f x report_create_inv [OF assms pl u] show ?thesis by (simp add: admin_report_add_def)
  qed
qed

lemma admin_report_change_inv:
  assumes "db_inv d"
  shows "db_inv (snd (admin_report_change ok now rk k a desc rt tags ph d))"
proof (cases "get_report d rk")
  case None
  with assms show ?thesis by (simp add: admin_report_change_def)
next
  case (Some r)
  show ?thesis
  proof (cases "admin_report_form d (photo r) k a desc rt tags ph")
    case (Inl errs)
    with Some assms show ?thesis by (simp add: admin_report_change_def)
  next
    case (Inr rd)
    from get_report_Some [OF Some] have "report_pk (r\<lparr>report_author := a\<rparr>) \<in> set (report_ids d)"
      by (auto simp: report_ids_def)
    with admin_form_ids [OF Inr] report_update_inv [OF assms] Some Inr show ?thesis
      by (simp add: admin_report_change_def)
  qed
qed

lemma image_Collect_key_ne: "f ` {x \<in> A. f x \<noteq> c} = f ` A - {c}"
  by auto

lemma report_delete_db_inv:
  assumes "db_inv d"
  shows "db_inv (report_delete k d)"
  using assms
  by (auto simp: report_delete_def inv_defs list_all_iff keys_below_filter
      distinct_map_filter option.pred_set image_Collect_key_ne)

lemma report_delete_inv:
  assumes "db_inv d"
  shows "db_inv (snd (snd (report_delete_view b u k d)))"
  using assms report_delete_db_inv by (simp add: report_delete_view_def split: option.splits)

lemma report_detail_inv:
  assumes "db_inv d" and "u \<in> set (user_ids d)"
  shows "db_inv (snd (snd (snd (report_detail now (Authenticated u) k (Detail_POST txt) d))))"
proof (cases "get_report d k")
  case None
  with assms show ?thesis by (simp add: report_detail_def)
next
  case (Some r)
  have r: "report_pk r \<in> set (report_ids d)" using get_report_Some [OF Some] by (auto simp: report_ids_def)
  show ?thesis
    using assms r
    by (auto simp: report_detail_found [OF Some] Let_def comment_create_def inv_defs list_all_iff
        less_Suc_eq)
qed

lemma notifications_view_inv:
  assumes "db_inv d"
  shows "db_inv (snd (notifications_view u d))"
proof -
  have "keys_below notification_pk (map (mark_read u) (notifications d)) (next_pk d)"
    using assms by (intro keys_below_map) (simp_all add: db_inv_def inv_keys_def mark_read_def)
  with assms show ?thesis
    by (auto simp: notifications_view_def Let_def inv_defs list_all_iff mark_read_def)
qed

lemma place_create_inv:
  assumes "db_inv d"
  shows "db_inv (case place_create now p d of Inl _ \<Rightarrow> d | Inr d' \<Rightarrow> d')"
proof (cases "place_create now p d")
  case (Inl errs)
  with assms show ?thesis by simp
next
  case (Inr d')
  from place_create_Inr [OF this] obtain a b where m: "in_maipu a b" and d':
    "d' = d\<lparr>places := places d @ [\<lparr>place_pk = next_pk d, name = in_name p, address = in_address p,
            lat = a, lng = b, place_tags = in_tags p, place_created_at = now\<rparr>],
          next_pk := Suc (next_pk d)\<rparr>" by blast
  show ?thesis
    using assms m unfolding Inr d'
    by (auto simp: inv_defs list_all_iff less_Suc_eq option.pred_set)
qed

lemma place_update_inv:
  assumes "db_inv d"
  shows "db_inv (case place_update k p d of Inl _ \<Rightarrow> d | Inr d' \<Rightarrow> d')"
proof (cases "place_update k p d")
  case (Inl errs)
  with assms show ?thesis by simp
next
  case (Inr d')
  from place_update_Inr [OF this] obtain a b where m: "in_maipu a b" and d':
    "d' = d\<lparr>places := map (\<lambda>q. if place_pk q = k
                   then q\<lparr>name := in_name p, address := in_address p, lat := a,
                          lng := b, place_tags := in_tags p\<rparr> else q) (places d)\<rparr>" by blast
  let ?f = "\<lambda>q. if place_pk q = k then q\<lparr>name := in_name p, address := in_address p, lat := a,
                          lng := b, place_tags := in_tags p\<rparr> else q"
  have ids: "map place_pk (map ?f (places d)) = map place_pk (places d)"
    by (simp add: comp_def cong: map_cong)
  have ids': "place_ids (d\<lparr>places := map ?f (places d)\<rparr>) = place_ids d"
    by (simp add: place_ids_def ids)
  have "keys_below place_pk (map ?f (places d)) (next_pk d)"
    using assms by (intro keys_below_map) (simp_all add: db_inv_def inv_keys_def)
  moreover have "inv_places (d\<lparr>places := map ?f (places d)\<rparr>)"
    using assms m by (auto simp: db_inv_def inv_places_def list_all_iff)
  ultimately show ?thesis
    using assms unfolding Inr d' db_inv_def
    by (simp add: ids' inv_keys_def inv_profiles_def inv_favorites_def inv_reports_def inv_comments_def
        inv_notifications_def user_ids_def report_ids_def profile_ids_def)
qed

lemma image_Collect_notin: "a \<in> f ` A \<Longrightarrow> a \<notin> f ` {x \<in> A. P x} \<Longrightarrow> a \<in> f ` {x \<in> A. \<not> P x}"
  by blast

lemma place_delete_inv:
  assumes "db_inv d"
  shows "db_inv (place_delete k d)"
  using assms
  by (auto simp: place_delete_def Let_def inv_defs list_all_iff keys_below_filter distinct_map_filter
      option.pred_set intro: image_Collect_notin)

lemma step_inv:
  assumes "db_inv d" and "request_ok d req"
  shows "db_inv (step ok now req d)"
  using assms
proof (cases req)
  case (Signup b inp)
  with assms show ?thesis by (simp add: signup_step_inv)
next
  case (EditAccount u b fname lname em av bo)
  with assms show ?thesis by (simp add: request_ok_def profile_view_post_inv)
next
  case (ViewProfile u)
  with assms show ?thesis by (simp add: request_ok_def profile_view_get_db)
next
  case (Contact dest inp)
  with assms show ?thesis by (simp add: contact_inv)
next
  case (ToggleFavorite u k pn gn)
  with assms show ?thesis by (simp add: request_ok_def toggle_inv)
next
  case (SubmitReport u inp)
  with assms show ?thesis by (simp add: request_ok_def report_view_post_inv)
next
  case (EditReport u k inp)
  with assms show ?thesis by (simp add: report_edit_post_inv)
next
  case (DeleteReport u k)
  with assms show ?thesis by (simp add: report_delete_inv)
next
  case (PostComment u k t)
  with assms show ?thesis by (simp add: request_ok_def report_detail_inv)
next
  case (OpenNotifications u)
  with assms show ?thesis by (simp add: notifications_view_inv)
next
  case (AddPlace p)
  with assms show ?thesis by (simp add: place_create_inv)
next
  case (EditPlace k p)
  with assms show ?thesis by (simp add: place_update_inv)
next
  case (DeletePlace k)
  with assms show ?thesis by (simp add: place_delete_inv)
next
  case (AdminAddReport k a desc rt tags ph)
  with assms show ?thesis by (simp add: admin_report_add_inv)
next
  case (AdminEditReport rk k a desc rt tags ph)
  with assms show ?thesis by (simp add: admin_report_change_inv)
next
  case (AdminDeleteReport rk)
  with assms show ?thesis by (simp add: report_delete_db_inv)
qed

lemma empty_db_inv: "db_inv empty_db"
  by (simp add: empty_db_def inv_defs)

section \<open>The favorites relation under the requests\<close>

lemma mem_fav_rel:
  "(a, k) \<in> fav_rel d \<longleftrightarrow>
     (\<exists>p \<in> set (profiles d). \<exists>f \<in> set (favorites d).
        fav_profile f = profile_pk p \<and> profile_user p = a \<and> fav_place f = k)"
  by (auto simp: fav_rel_def)

lemma fav_rel_tables: "profiles d' = profiles d \<and> favorites d' = favorites d \<Longrightarrow> fav_rel d' = fav_rel d"
  by (simp add: fav_rel_def)

text \<open>Two profiles with the same key or the same user are the same profile.\<close>

lemma profile_same:
  assumes "db_inv d" and "p \<in> set (profiles d)" and "q \<in> set (profiles d)"
    and "profile_pk p = profile_pk q \<or> profile_user p = profile_user q"
  shows "p = q"
  using assms
  by (auto simp: db_inv_def inv_keys_def inv_profiles_def keys_below_def dest: inj_onD [OF distinct_map [THEN iffD1, THEN conjunct2]])

lemma fav_rel_is_favorite:
  assumes "db_inv d" and "p \<in> set (profiles d)"
  shows "(profile_user p, k) \<in> fav_rel d \<longleftrightarrow> is_favorite d (profile_pk p) k"
proof
  assume "(profile_user p, k) \<in> fav_rel d"
  then obtain q f where q: "q \<in> set (profiles d)" and f: "f \<in> set (favorites d)"
    and "fav_profile f = profile_pk q" "profile_user q = profile_user p" "fav_place f = k"
    by (auto simp: mem_fav_rel)
  moreover have "q = p" using profile_same [OF assms(1) assms(2) q] \<open>profile_user q = profile_user p\<close> by simp
  ultimately show "is_favorite d (profile_pk p) k" by (auto simp: is_favorite_def)
next
  assume "is_favorite d (profile_pk p) k"
  then obtain f where "f \<in> set (favorites d)" "fav_profile f = profile_pk p" "fav_place f = k"
    by (auto simp: is_favorite_def)
  with assms(2) show "(profile_user p, k) \<in> fav_rel d" unfolding mem_fav_rel by blast
qed

lemma fav_rel_fav_remove:
  assumes "db_inv d" and "p \<in> set (profiles d)"
  shows "fav_rel (fav_remove (profile_pk p) k d) = fav_rel d - {(profile_user p, k)}"
proof (rule set_eqI)
  fix x :: "user_id \<times> place_id"
  obtain a b where x: "x = (a, b)" by fastforce
  have same: "\<And>q. q \<in> set (profiles d) \<Longrightarrow> profile_pk q = profile_pk p \<or> profile_user q = profile_user p \<Longrightarrow> q = p"
    by (metis profile_same [OF assms(1) assms(2)])
  have F: "set (favorites (fav_remove (profile_pk p) k d)) =
      {f \<in> set (favorites d). \<not> (fav_profile f = profile_pk p \<and> fav_place f = k)}"
    by (simp add: fav_remove_def)
  show "x \<in> fav_rel (fav_remove (profile_pk p) k d) \<longleftrightarrow> x \<in> fav_rel d - {(profile_user p, k)}"
    unfolding x Diff_iff singleton_iff mem_fav_rel F fav_ops_tables using same by (auto; metis)
qed

lemma fav_rel_fav_add:
  assumes "db_inv d" and "p \<in> set (profiles d)"
  shows "fav_rel (fav_add (profile_pk p) k d) = insert (profile_user p, k) (fav_rel d)"
proof (cases "is_favorite d (profile_pk p) k")
  case True
  then have "(profile_user p, k) \<in> fav_rel d" using fav_rel_is_favorite [OF assms] by simp
  with True show ?thesis by (auto simp: fav_add_def)
next
  case False
  show ?thesis
  proof (rule set_eqI)
    fix x :: "user_id \<times> place_id"
    obtain a b where x: "x = (a, b)" by fastforce
    have same: "\<And>q. q \<in> set (profiles d) \<Longrightarrow> profile_pk q = profile_pk p \<Longrightarrow> q = p"
      by (metis profile_same [OF assms(1) assms(2)])
    have F: "set (favorites (fav_add (profile_pk p) k d)) =
        insert \<lparr>fav_profile = profile_pk p, fav_place = k\<rparr> (set (favorites d))"
      using False by (simp add: fav_add_def)
    show "x \<in> fav_rel (fav_add (profile_pk p) k d) \<longleftrightarrow> x \<in> insert (profile_user p, k) (fav_rel d)"
      unfolding x insert_iff mem_fav_rel F fav_ops_tables using same assms(2) by auto
  qed
qed

lemma toggle_fav_rel:
  assumes "db_inv d" and "u \<in> set (user_ids d)"
  shows "fav_rel (snd (snd (toggle_favorite_place u k pn gn d))) =
           fav_spec (ToggleFavorite u k pn gn) (set (place_ids d)) (fav_rel d)"
proof (cases "get_place d k")
  case None
  then have "k \<notin> set (place_ids d)" by (auto simp: get_place_def place_ids_def find_None_iff)
  with None show ?thesis by (simp add: toggle_favorite_place_def)
next
  case (Some pl)
  then have k: "k \<in> set (place_ids d)" by (auto simp: get_place_def place_ids_def dest!: find_Some_mem)
  obtain prof d1 where g: "profile_get_or_create u d = (prof, d1)" by fastforce
  with profile_get_or_create_existing [of d u] assms
  have d1: "d1 = d" and prof: "prof \<in> set (profiles d)" by (auto simp: db_inv_def)
  have "profile_of d u = Some prof"
    using profile_get_or_create_found [OF g] d1 by simp
  then have u: "profile_user prof = u" by (auto simp: profile_of_def dest: find_Some_mem)
  show ?thesis
    using fav_rel_is_favorite [OF assms(1) prof, of k] k u
    by (simp add: toggle_favorite_place_db [OF Some g] d1 fav_rel_fav_remove [OF assms(1) prof]
        fav_rel_fav_add [OF assms(1) prof])
qed

lemma user_create_fav_rel:
  assumes "db_inv d"
  shows "fav_rel (user_create un em fname lname d) = fav_rel d"
proof -
  have "\<forall>f \<in> set (favorites d). fav_profile f < next_pk d"
    using assms by (auto simp: db_inv_def inv_favorites_def inv_keys_def keys_below_def list_all_iff profile_ids_def)
  then have "set (favorites d) \<inter> {f. fav_profile f = Suc (next_pk d)} = {}"
    by auto
  then show ?thesis
    by (simp add: user_create_def create_or_update_user_profile_def Let_def fav_rel_def new_profile_def)
qed

lemma user_save_fav_rel:
  assumes "db_inv d" and "u \<in> set (user_ids d)"
  shows "fav_rel (user_save u fname lname em d) = fav_rel d"
  by (simp add: user_save_eq [OF assms] fav_rel_def)

lemma fav_rel_profiles_map:
  assumes "\<forall>p. profile_pk (f p) = profile_pk p \<and> profile_user (f p) = profile_user p"
  shows "fav_rel (d\<lparr>profiles := map f (profiles d)\<rparr>) = fav_rel d"
  by (simp add: fav_rel_def assms comp_def)

lemma profile_form_save_fav_rel: "fav_rel (profile_form_save k av b d) = fav_rel d"
  unfolding profile_form_save_def by (rule fav_rel_profiles_map) simp

lemma profile_view_post_fav_rel:
  assumes "db_inv d" and "u \<in> set (user_ids d)"
  shows "fav_rel (snd (snd (profile_view_post b u fname lname em av bo d))) = fav_rel d"
proof -
  from profile_view_post_eq [OF assms] obtain prof :: profile where
    "snd (snd (profile_view_post b u fname lname em av bo d)) =
       (if profile_forms_valid b fname lname em then profile_form_save (profile_pk prof) av (py_strip bo)
                    (user_save u (py_strip fname) (py_strip lname) (normalize_email (py_strip em)) d) else d)" by blast
  then show ?thesis by (simp add: user_save_fav_rel [OF assms] profile_form_save_fav_rel)
qed

lemma signup_step_fav_rel:
  assumes "db_inv d"
  shows "fav_rel (case signup_post b inp d of Some (_, _, d') \<Rightarrow> d' | None \<Rightarrow> d) = fav_rel d"
  using user_create_fav_rel [OF assms] signup_post_db [of b inp d] by (auto split: option.splits)

lemma contact_fav_rel: "fav_rel (snd (snd (contact_post ok dest inp d))) = fav_rel d"
proof (rule fav_rel_tables)
  show "profiles (snd (snd (contact_post ok dest inp d))) = profiles d \<and>
        favorites (snd (snd (contact_post ok dest inp d))) = favorites d"
    using contact_post_db [of ok dest inp d] by auto
qed

lemma report_views_fav_tables:
  "profiles (snd (snd (report_view_post ok now u inp d))) = profiles d \<and>
   favorites (snd (snd (report_view_post ok now u inp d))) = favorites d"
  "profiles (snd (snd (report_edit_post ok now u k inp d))) = profiles d \<and>
   favorites (snd (snd (report_edit_post ok now u k inp d))) = favorites d"
  "profiles (snd (snd (report_delete_view b u k d))) = profiles d \<and>
   favorites (snd (snd (report_delete_view b u k d))) = favorites d"
  "profiles (snd (snd (snd (report_detail now who k req d)))) = profiles d \<and>
   favorites (snd (snd (snd (report_detail now who k req d)))) = favorites d"
  by (auto simp: report_view_post_def report_create_def Let_def report_edit_post_def report_update_def
      create_favorite_place_notifications_def report_delete_view_def report_delete_def report_detail_def
      split: sum.splits option.splits detail_request.splits actor.splits)

lemma admin_report_fav_tables:
  "profiles (snd (admin_report_add ok now k a desc rt tags ph d)) = profiles d \<and>
   favorites (snd (admin_report_add ok now k a desc rt tags ph d)) = favorites d"
  "profiles (snd (admin_report_change ok now rk k a desc rt tags ph d)) = profiles d \<and>
   favorites (snd (admin_report_change ok now rk k a desc rt tags ph d)) = favorites d"
  "profiles (report_delete rk d) = profiles d \<and> favorites (report_delete rk d) = favorites d"
  by (auto simp: admin_report_add_def admin_report_change_def report_create_def Let_def report_update_def
      create_favorite_place_notifications_def report_delete_def split: sum.splits option.splits)

lemma place_ops_fav_tables:
  "profiles (case place_create now p d of Inl _ \<Rightarrow> d | Inr d' \<Rightarrow> d') = profiles d \<and>
   favorites (case place_create now p d of Inl _ \<Rightarrow> d | Inr d' \<Rightarrow> d') = favorites d"
  "profiles (case place_update k p d of Inl _ \<Rightarrow> d | Inr d' \<Rightarrow> d') = profiles d \<and>
   favorites (case place_update k p d of Inl _ \<Rightarrow> d | Inr d' \<Rightarrow> d') = favorites d"
  by (cases "place_create now p d"; auto dest: place_create_Inr)
     (cases "place_update k p d"; auto dest: place_update_Inr)

text \<open>
  C31. The favorites table refines a relation between users and places: on a database
  that satisfies the invariant, every request changes the relation read through the
  profiles as the specification \<open>fav_spec\<close> says (a toggle of an existing place flips
  the pair, deleting a place drops its pairs, no other request changes it).
\<close>

theorem step_fav_rel:
  assumes "db_inv d" and "request_ok d req"
  shows "fav_rel (step ok now req d) = fav_spec req (set (place_ids d)) (fav_rel d)"
proof (cases req)
  case (Signup b inp)
  with assms show ?thesis by (simp add: signup_step_fav_rel)
next
  case (EditAccount u b fname lname em av bo)
  with assms show ?thesis by (simp add: request_ok_def profile_view_post_fav_rel)
next
  case (ViewProfile u)
  with assms show ?thesis by (simp add: request_ok_def profile_view_get_db)
next
  case (Contact dest inp)
  then show ?thesis by (simp add: contact_fav_rel)
next
  case (ToggleFavorite u k pn gn)
  with assms show ?thesis by (simp add: request_ok_def toggle_fav_rel)
next
  case (SubmitReport u inp)
  then show ?thesis using fav_rel_tables [OF report_views_fav_tables(1) [of ok now u inp d]] by simp
next
  case (EditReport u k inp)
  then show ?thesis using fav_rel_tables [OF report_views_fav_tables(2) [of ok now u k inp d]] by simp
next
  case (DeleteReport u k)
  then show ?thesis using fav_rel_tables [OF report_views_fav_tables(3) [of True u k d]] by simp
next
  case (PostComment u k t)
  then show ?thesis using fav_rel_tables [OF report_views_fav_tables(4) [where now = now and who = "Authenticated u" and k = k and req = "Detail_POST t" and d = d]] by simp
next
  case (OpenNotifications u)
  then show ?thesis by (simp add: notifications_view_def Let_def fav_rel_def)
next
  case (AddPlace p)
  then show ?thesis using fav_rel_tables [OF place_ops_fav_tables(1) [where now = now and p = p and d = d]] by simp
next
  case (EditPlace k p)
  then show ?thesis using fav_rel_tables [OF place_ops_fav_tables(2) [where k = k and p = p and d = d]] by simp
next
  case (DeletePlace k)
  then show ?thesis by (auto simp: place_delete_def Let_def mem_fav_rel; blast)
next
  case (AdminAddReport k a desc rt tags ph)
  then show ?thesis
    using fav_rel_tables [OF admin_report_fav_tables(1) [where ok = ok and now = now and k = k and a = a
        and desc = desc and rt = rt and tags = tags and ph = ph and d = d]] by simp
next
  case (AdminEditReport rk k a desc rt tags ph)
  then show ?thesis
    using fav_rel_tables [OF admin_report_fav_tables(2) [where ok = ok and now = now and rk = rk and k = k
        and a = a and desc = desc and rt = rt and tags = tags and ph = ph and d = d]] by simp
next
  case (AdminDeleteReport rk)
  then show ?thesis using fav_rel_tables [OF admin_report_fav_tables(3) [where rk = rk and d = d]] by simp
qed

lemma step_delete_tables:
  "users (step ok now (DeleteReport u k) d) = users d"
  by (simp add: report_delete_view_def report_delete_def split: option.splits)

lemma step_delete_own:
  assumes "\<exists>r \<in> set (reports d). report_pk r = k \<and> report_author r = u"
  shows "reports (step ok now (DeleteReport u k) d) = filter (\<lambda>r. report_pk r \<noteq> k) (reports d)"
proof (cases "get_own_report d u k")
  case None
  with assms show ?thesis by (auto simp: get_own_report_def find_None_iff)
next
  case (Some r)
  with get_own_report_Some [OF Some] show ?thesis
    by (simp add: report_delete_view_def report_delete_def)
qed

lemma run_delete_reports:
  assumes "distinct ks" and "\<forall>k \<in> set ks. \<exists>r \<in> set (reports d). report_pk r = k \<and> report_author r = u"
  shows "reports (run ok now (map (DeleteReport u) ks) d) = filter (\<lambda>r. report_pk r \<notin> set ks) (reports d) \<and>
         users (run ok now (map (DeleteReport u) ks) d) = users d \<and>
         (u \<in> set (user_ids d) \<longrightarrow> run_ok ok now (map (DeleteReport u) ks) d)"
  using assms
proof (induction ks arbitrary: d)
  case Nil
  then show ?case by simp
next
  case (Cons k ks)
  let ?d = "step ok now (DeleteReport u k) d"
  from Cons.prems(2) have "\<exists>r \<in> set (reports d). report_pk r = k \<and> report_author r = u" by simp
  then have r: "reports ?d = filter (\<lambda>r. report_pk r \<noteq> k) (reports d)" by (rule step_delete_own)
  have "\<forall>k' \<in> set ks. \<exists>r \<in> set (reports ?d). report_pk r = k' \<and> report_author r = u"
    using Cons.prems unfolding r by fastforce
  with Cons.IH [of ?d] Cons.prems(1) have IH:
    "reports (run ok now (map (DeleteReport u) ks) ?d) = filter (\<lambda>r. report_pk r \<notin> set ks) (reports ?d) \<and>
     users (run ok now (map (DeleteReport u) ks) ?d) = users ?d \<and>
     (u \<in> set (user_ids ?d) \<longrightarrow> run_ok ok now (map (DeleteReport u) ks) ?d)" by simp
  then show ?case
    by (simp del: step.simps add: r step_delete_tables user_ids_def request_ok_def)
qed

lemma run_ok_append:
  "run_ok ok now (xs @ ys) d \<longleftrightarrow> run_ok ok now xs d \<and> run_ok ok now ys (run ok now xs d)"
  by (induction xs arbitrary: d) auto

lemma run_append: "run ok now (xs @ ys) d = run ok now ys (run ok now xs d)"
  by (induction xs arbitrary: d) auto

lemma run_reachable: "reachable d \<Longrightarrow> run_ok ok now reqs d \<Longrightarrow> reachable (run ok now reqs d)"
  by (induction reqs arbitrary: d) (auto intro: reachable.step)

lemma demo_db_eq:
  "demo_db = empty_db\<lparr>users := [\<lparr>user_pk = 1, username = ''ignacio'', email = ''ignacio@test.com'',
                                 first_name = ''Ignacio'', last_name = ''Rojas''\<rparr>],
      profiles := [\<lparr>profile_pk = 2, profile_user = 1, avatar = None, bio = []\<rparr>],
      places := [\<lparr>place_pk = 3, name = ''Espacio Urbano'', address = ''Pajaritos'',
                  lat = \<lparr>coeff = -33520000, exponent = -6\<rparr>, lng = \<lparr>coeff = -70770000, exponent = -6\<rparr>,
                  place_tags = [], place_created_at = 0\<rparr>],
      next_pk := 4\<rparr>"
  by (simp add: demo_db_def demo_requests_def signup_post_def signup_errors_def name_field_errors_def
      only_letters_spaces_def ols_char_def clean_email_def email_taken_def normalize_name_def py_title_def
      py_words_def py_title_char_def py_is_cased_def py_lower_def py_lower_char_def py_strip_def
      py_lstrip_def py_rstrip_def py_isspace_def char_of_def bit_Suc bit_0
      user_create_def create_or_update_user_profile_def
      profile_create_def new_profile_def place_create_def place_eval place_check_defs in_maipu_def
      MIN_LAT_def MAX_LAT_def MIN_LNG_def MAX_LNG_def empty_db_def)

lemma demo_run_ok: "run_ok (\<lambda>_. True) 0 demo_requests empty_db"
  by (simp add: demo_requests_def request_ok_def)

theorem step_fav_rel_witness:
  "fav_rel (step (\<lambda>_. True) 0 (ToggleFavorite 1 3 None None) demo_db) = {(1, 3)}"
proof -
  have i: "db_inv demo_db"
    by (simp add: demo_db_eq inv_defs empty_db_def in_maipu_def place_eval MIN_LAT_def MAX_LAT_def
        MIN_LNG_def MAX_LNG_def)
  have r: "request_ok demo_db (ToggleFavorite 1 3 None None)"
    by (simp add: demo_db_eq request_ok_def user_ids_def)
  have "set (place_ids demo_db) = {3}" "fav_rel demo_db = {}"
    by (simp_all add: demo_db_eq place_ids_def fav_rel_def empty_db_def)
  with step_fav_rel [OF i r, of "\<lambda>_. True" 0] show ?thesis by simp
qed

lemma demo_report_db_eq:
  "demo_report_db = demo_db\<lparr>reports := [\<lparr>report_pk = 4, report_place = 3, report_author = 1,
      description = ''Ascensor operativo'', rating = 4, report_tags = ''ascensor'', photo = None,
      report_created_at = 0\<rparr>], next_pk := 5\<rparr>"
proof -
  have "demo_report_db = step (\<lambda>_. True) 0 (SubmitReport 1 demo_report) demo_db"
    by (simp add: demo_report_db_def demo_db_def run_append del: step.simps)
  also have "\<dots> = demo_db\<lparr>reports := [\<lparr>report_pk = 4, report_place = 3, report_author = 1,
      description = ''Ascensor operativo'', rating = 4, report_tags = ''ascensor'', photo = None,
      report_created_at = 0\<rparr>], next_pk := 5\<rparr>"
    by (simp add: demo_db_eq demo_report_def report_view_post_def report_input_eval report_create_def
        create_favorite_place_notifications_def favorites_qs_def empty_db_def Let_def)
  finally show ?thesis .
qed

lemma demo_report_run_ok: "run_ok (\<lambda>_. True) 0 (demo_requests @ [SubmitReport 1 demo_report]) empty_db"
  using demo_run_ok by (simp add: run_ok_append demo_db_def [symmetric] demo_db_eq request_ok_def user_ids_def
      del: step.simps)

text \<open>
  C32. Every account can always withdraw what it reported: from every reachable database,
  the requests that delete the user's reports one by one are all admissible, lead to a
  reachable database, and remove exactly the reports with the key of one of the user's
  reports, so that none of the user's reports is left.
\<close>

theorem reports_withdrawable:
  assumes "reachable d" and "u \<in> set (user_ids d)"
  shows "run_ok ok now (delete_own_requests u d) d \<and> reachable (run ok now (delete_own_requests u d) d) \<and>
         reports (run ok now (delete_own_requests u d) d) =
           filter (\<lambda>r. report_pk r \<notin> report_pk ` {r \<in> set (reports d). report_author r = u}) (reports d) \<and>
         (\<forall>r \<in> set (reports (run ok now (delete_own_requests u d) d)). report_author r \<noteq> u)"
proof -
  let ?ks = "remdups (map report_pk (filter (\<lambda>r. report_author r = u) (reports d)))"
  have ks: "distinct ?ks" "\<forall>k \<in> set ?ks. \<exists>r \<in> set (reports d). report_pk r = k \<and> report_author r = u"
    by auto
  have set_ks: "set ?ks = report_pk ` {r \<in> set (reports d). report_author r = u}" by auto
  from run_delete_reports [OF ks, of ok now] assms(2)
  have r: "reports (run ok now (delete_own_requests u d) d) = filter (\<lambda>r. report_pk r \<notin> set ?ks) (reports d)"
    and ok: "run_ok ok now (delete_own_requests u d) d"
    by (simp_all add: delete_own_requests_def)
  from assms(1) ok have "reachable (run ok now (delete_own_requests u d) d)" by (rule run_reachable)
  with ok r show ?thesis unfolding set_ks by auto
qed

theorem reports_withdrawable_witness:
  "run_ok (\<lambda>_. True) 6 (delete_own_requests 1 demo_report_db) demo_report_db \<and>
   reachable (run (\<lambda>_. True) 6 (delete_own_requests 1 demo_report_db) demo_report_db) \<and>
   reports (run (\<lambda>_. True) 6 (delete_own_requests 1 demo_report_db) demo_report_db) = []"
proof -
  let ?d' = "run (\<lambda>_. True) 6 (delete_own_requests 1 demo_report_db) demo_report_db"
  have reach: "reachable demo_report_db"
    unfolding demo_report_db_def by (rule run_reachable [OF reachable.init demo_report_run_ok])
  have uid: "1 \<in> set (user_ids demo_report_db)"
    by (simp add: demo_report_db_eq demo_db_eq user_ids_def)
  have rs: "reports demo_report_db = [\<lparr>report_pk = 4, report_place = 3, report_author = 1,
      description = ''Ascensor operativo'', rating = 4, report_tags = ''ascensor'', photo = None,
      report_created_at = 0\<rparr>]"
    by (simp add: demo_report_db_eq)
  from reports_withdrawable [OF reach uid, of "\<lambda>_. True" 6]
  have ok: "run_ok (\<lambda>_. True) 6 (delete_own_requests 1 demo_report_db) demo_report_db"
    and re: "reachable ?d'"
    and eq: "reports ?d' = filter (\<lambda>r. report_pk r \<notin> report_pk ` {r \<in> set (reports demo_report_db). report_author r = 1})
                          (reports demo_report_db)"
    by blast+
  have "reports ?d' = []" unfolding eq rs by (simp add: image_iff)
  with ok re show ?thesis by (intro conjI)
qed

lemma dup_db_eq:
  "dup_db = demo_db\<lparr>users := users demo_db @ [\<lparr>user_pk = 4, username = ''carla'', email = ''IGNACIO@test.com'',
                                 first_name = ''Carla'', last_name = ''Rojas''\<rparr>],
      profiles := profiles demo_db @ [\<lparr>profile_pk = 5, profile_user = 4, avatar = None, bio = []\<rparr>],
      next_pk := 6\<rparr>"
proof -
  have "dup_db = step (\<lambda>_. True) 0 (EditAccount 4 True ''Carla'' ''Rojas'' ''IGNACIO@test.com'' None [])
                   (step (\<lambda>_. True) 0 (Signup True \<lparr>su_username = ''carla'', su_first_name = ''Carla'',
                      su_last_name = ''Rojas'', su_email = ''carla@test.com''\<rparr>) demo_db)"
    by (simp add: dup_db_def dup_requests_def demo_db_def run_append del: step.simps)
  also have "\<dots> = demo_db\<lparr>users := users demo_db @ [\<lparr>user_pk = 4, username = ''carla'', email = ''IGNACIO@test.com'',
                                 first_name = ''Carla'', last_name = ''Rojas''\<rparr>],
      profiles := profiles demo_db @ [\<lparr>profile_pk = 5, profile_user = 4, avatar = None, bio = []\<rparr>],
      next_pk := 6\<rparr>"
    by (simp add: demo_db_eq signup_post_def signup_errors_def name_field_errors_def
      only_letters_spaces_def ols_char_def clean_email_def email_taken_def normalize_name_def py_title_def
      py_words_def py_title_char_def py_is_cased_def py_lower_def py_lower_char_def py_strip_def
      py_lstrip_def py_rstrip_def py_isspace_def char_of_def bit_Suc bit_0
      user_create_def create_or_update_user_profile_def profile_create_def new_profile_def
      profile_view_post_def profile_forms_valid_def user_form_errors_def normalize_email_def Let_def
      profile_get_or_create_def profile_of_def user_save_def profile_form_save_def
      empty_db_def)
  finally show ?thesis .
qed

lemma dup_run_ok: "run_ok (\<lambda>_. True) 0 dup_requests empty_db"
proof -
  have "run_ok (\<lambda>_. True) 0 [Signup True \<lparr>su_username = ''carla'', su_first_name = ''Carla'',
          su_last_name = ''Rojas'', su_email = ''carla@test.com''\<rparr>,
        EditAccount 4 True ''Carla'' ''Rojas'' ''IGNACIO@test.com'' None []] demo_db"
    by (simp add: demo_db_eq signup_post_def signup_errors_def name_field_errors_def
      only_letters_spaces_def ols_char_def clean_email_def email_taken_def normalize_name_def py_title_def
      py_words_def py_title_char_def py_is_cased_def py_lower_def py_lower_char_def py_strip_def
      py_lstrip_def py_rstrip_def py_isspace_def char_of_def bit_Suc bit_0
      user_create_def create_or_update_user_profile_def profile_create_def new_profile_def
      empty_db_def request_ok_def user_ids_def)
  with demo_run_ok show ?thesis
    by (simp add: dup_requests_def run_ok_append demo_db_def [symmetric] del: step.simps)
qed

text \<open>
  C34. The uniqueness of emails that sign-up enforces is not kept: the profile page saves
  the email of \<open>UserForm\<close> without \<open>clean_email\<close>'s case-insensitive check, so a reachable
  database holds two accounts whose emails differ only in case.
\<close>

theorem edit_account_duplicates_email:
  "reachable dup_db \<and> user_pk (users dup_db ! 0) \<noteq> user_pk (users dup_db ! 1) \<and>
   py_lower (email (users dup_db ! 0)) = py_lower (email (users dup_db ! 1))"
proof -
  have "reachable dup_db"
    unfolding dup_db_def by (rule run_reachable [OF reachable.init dup_run_ok])
  moreover have "users dup_db ! 0 = \<lparr>user_pk = 1, username = ''ignacio'', email = ''ignacio@test.com'',
                                       first_name = ''Ignacio'', last_name = ''Rojas''\<rparr>"
    "users dup_db ! 1 = \<lparr>user_pk = 4, username = ''carla'', email = ''IGNACIO@test.com'',
                           first_name = ''Carla'', last_name = ''Rojas''\<rparr>"
    by (simp_all add: dup_db_eq demo_db_eq empty_db_def)
  moreover have "py_lower ''IGNACIO@test.com'' = ''ignacio@test.com''"
    "py_lower ''ignacio@test.com'' = ''ignacio@test.com''"
    by (simp_all add: py_lower_def py_lower_char_def char_of_def bit_Suc bit_0)
  ultimately show ?thesis by simp
qed

lemma run_db_inv: "db_inv d \<Longrightarrow> run_ok ok now reqs d \<Longrightarrow> db_inv (run ok now reqs d)"
  by (induction reqs arbitrary: d) (auto intro: step_inv)

lemma distinct_key_eq:
  "distinct (map key xs) \<Longrightarrow> x \<in> set xs \<Longrightarrow> y \<in> set xs \<Longrightarrow> key x = key y \<Longrightarrow> x = y"
  by (auto simp: distinct_map dest: inj_onD)

text \<open>
  C20. Deleting a place (the admin's delete view) keeps the database consistent and
  deletes nothing more than the cascade: afterwards the invariant still holds, so no row
  refers to the place or to one of its deleted reports, while every other place, report,
  favorites row, every comment and notification whose report survives (and that does not
  name the place) and every account and profile are kept.
\<close>

theorem place_delete_cascades:
  assumes "db_inv d"
  shows "db_inv (place_delete k d) \<and> k \<notin> set (place_ids (place_delete k d)) \<and>
         users (place_delete k d) = users d \<and> profiles (place_delete k d) = profiles d \<and>
         (\<forall>p \<in> set (places d). place_pk p \<noteq> k \<longrightarrow> p \<in> set (places (place_delete k d))) \<and>
         (\<forall>r \<in> set (reports d). report_place r \<noteq> k \<longrightarrow> r \<in> set (reports (place_delete k d))) \<and>
         (\<forall>c \<in> set (comments d). comment_report c \<in> set (report_ids (place_delete k d)) \<longrightarrow>
            c \<in> set (comments (place_delete k d))) \<and>
         (\<forall>n \<in> set (notifications d). notification_place n \<noteq> Some k \<and>
            pred_option (\<lambda>j. j \<in> set (report_ids (place_delete k d))) (notification_report n) \<longrightarrow>
            n \<in> set (notifications (place_delete k d))) \<and>
         (\<forall>f \<in> set (favorites d). fav_place f \<noteq> k \<longrightarrow> f \<in> set (favorites (place_delete k d)))"
proof -
  have dk: "distinct (map report_pk (reports d))"
    using assms by (simp add: db_inv_def inv_keys_def keys_below_def)
  have kept: "report_pk r \<notin> report_pk ` {x \<in> set (reports d). report_place x = k}"
    if "r \<in> set (reports d)" "report_place r \<noteq> k" for r
    using that distinct_key_eq [OF dk] by fastforce
  have cs: "\<forall>c \<in> set (comments d). comment_report c \<in> set (report_ids (place_delete k d)) \<longrightarrow>
            c \<in> set (comments (place_delete k d))"
  proof (intro ballI impI)
    fix c assume c: "c \<in> set (comments d)" "comment_report c \<in> set (report_ids (place_delete k d))"
    then obtain r where r: "r \<in> set (reports d)" "report_place r \<noteq> k" "report_pk r = comment_report c"
      by (auto simp: place_delete_def Let_def report_ids_def)
    with kept [OF r(1,2)] c(1) show "c \<in> set (comments (place_delete k d))"
      by (simp add: place_delete_def Let_def)
  qed
  have ns: "\<forall>n \<in> set (notifications d). notification_place n \<noteq> Some k \<and>
            pred_option (\<lambda>j. j \<in> set (report_ids (place_delete k d))) (notification_report n) \<longrightarrow>
            n \<in> set (notifications (place_delete k d))"
  proof (intro ballI impI)
    fix n assume n: "n \<in> set (notifications d)"
      "notification_place n \<noteq> Some k \<and> pred_option (\<lambda>j. j \<in> set (report_ids (place_delete k d))) (notification_report n)"
    show "n \<in> set (notifications (place_delete k d))"
    proof (cases "notification_report n")
      case None
      with n show ?thesis by (auto simp: place_delete_def Let_def)
    next
      case (Some j)
      with n obtain r where r: "r \<in> set (reports d)" "report_place r \<noteq> k" "report_pk r = j"
        by (auto simp: place_delete_def Let_def report_ids_def)
      with kept [OF r(1,2)] n Some show ?thesis
        by (auto simp: place_delete_def Let_def)
    qed
  qed
  have rest: "k \<notin> set (place_ids (place_delete k d)) \<and>
         users (place_delete k d) = users d \<and> profiles (place_delete k d) = profiles d \<and>
         (\<forall>p \<in> set (places d). place_pk p \<noteq> k \<longrightarrow> p \<in> set (places (place_delete k d))) \<and>
         (\<forall>r \<in> set (reports d). report_place r \<noteq> k \<longrightarrow> r \<in> set (reports (place_delete k d))) \<and>
         (\<forall>f \<in> set (favorites d). fav_place f \<noteq> k \<longrightarrow> f \<in> set (favorites (place_delete k d)))"
    by (auto simp: place_delete_def Let_def place_ids_def)
  have "db_inv (place_delete k d)" by (rule place_delete_inv [OF assms])
  with cs ns rest show ?thesis by blast
qed

theorem place_delete_cascades_witness:
  "db_inv demo_report_db \<and> reports (place_delete 3 demo_report_db) = [] \<and>
   users (place_delete 3 demo_report_db) = users demo_report_db \<and>
   3 \<notin> set (place_ids (place_delete 3 demo_report_db))"
proof -
  have i: "db_inv demo_report_db"
    unfolding demo_report_db_def by (rule run_db_inv [OF empty_db_inv demo_report_run_ok])
  have "reports (place_delete 3 demo_report_db) = []"
    by (simp add: place_delete_def demo_report_db_eq)
  with i place_delete_cascades [OF i, of 3] show ?thesis by simp
qed

end
