(* ===== verification/Aggregation.thy ===== *)
theory Aggregation
  imports Geofence Reports
begin

text \<open>
  The Query/Aggregation layer: the read-only views of \<open>src/core/views.py\<close> that join
  places with their reports.  \<open>places_api\<close> (lines 313--362) filters the places by a
  free-text query and a comma-separated tag list, annotates each with the average rating and
  the number of its reports, orders by count descending then name, and converts the
  coordinates to floats.  \<open>dashboard_view\<close> (lines 441--481) lists the places by average
  rating descending then name, groups the reports by their literal tags string, and
  renders both with the labels, counts and means of the groups.

  An annotation with \<open>Avg\<close> and \<open>Count\<close> over the one relation \<open>report\<close> is a
  \<open>LEFT OUTER JOIN\<close> with \<open>GROUP BY\<close> place, so each place gets \<open>sql_avg\<close> of its
  reports' ratings and their number.  \<open>ORDER BY\<close> is a stable \<open>sort_key\<close> on the
  table order; strings compare by code point, as SQLite's default \<open>BINARY\<close> collation
  does on UTF-8, and a \<open>NULL\<close> average sorts below every number, as in SQLite.  The
  float conversion of the coordinates is modelled as the exact value \<open>dec_val\<close>.
\<close>

text \<open>\<open>request.GET.get(k) or ""\<close>.\<close>

definition get_param :: "string option \<Rightarrow> string" where
  "get_param v = (case v of None \<Rightarrow> [] | Some s \<Rightarrow> s)"

section \<open>Per-place statistics\<close>

definition place_reports :: "db \<Rightarrow> place \<Rightarrow> report list" where
  "place_reports d p = filter (\<lambda>r. report_place r = place_pk p) (reports d)"

text \<open>\<open>Avg("report__rating")\<close> and \<open>Count("report")\<close>.\<close>

definition place_avg :: "db \<Rightarrow> place \<Rightarrow> rat option" where
  "place_avg d p = sql_avg (map rating (place_reports d p))"

definition place_count :: "db \<Rightarrow> place \<Rightarrow> nat" where
  "place_count d p = length (place_reports d p)"

section \<open>\<open>places_api\<close>\<close>

text \<open>One element of the JSON array \<open>places\<close>.\<close>

record place_row =
  pr_id :: place_id
  pr_name :: string
  pr_address :: string
  pr_lat :: rat
  pr_lng :: rat
  pr_tags :: string
  pr_avg :: "rat option"
  pr_count :: nat

text \<open>\<open>tags_raw.split(",")\<close> without the empty pieces; the pieces are not stripped.\<close>

definition api_tags :: "string option \<Rightarrow> string list" where
  "api_tags v = filter (\<lambda>t. t \<noteq> []) (py_split CHR '','' (py_lower (py_strip (get_param v))))"

text \<open>\<open>Q(name__icontains=q) | Q(address__icontains=q)\<close>, applied when \<open>q\<close> is not empty.\<close>

definition q_filter :: "string \<Rightarrow> place \<Rightarrow> bool" where
  "q_filter q p = (q = [] \<or> icontains (name p) q \<or> icontains (address p) q)"

text \<open>The disjunction of \<open>Q(tags__icontains=t)\<close>, applied when the list is not empty.\<close>

definition tags_filter :: "string list \<Rightarrow> place \<Rightarrow> bool" where
  "tags_filter ts p = (ts = [] \<or> list_ex (\<lambda>t. icontains (place_tags p) t) ts)"

text \<open>
  The \<open>commune\<close> filter runs only if \<open>Place\<close> has a field \<open>commune\<close>; it has none
  (\<open>src/core/models.py\<close>, lines 52--58), so the parameter is read and dropped.
\<close>

definition place_has_commune :: bool where
  "place_has_commune = False"

text \<open>\<open>.values(...)\<close> of an annotated place, with the coordinates made floats.\<close>

definition place_row_of :: "db \<Rightarrow> place \<Rightarrow> place_row" where
  "place_row_of d p =
     \<lparr>pr_id = place_pk p, pr_name = name p, pr_address = address p, pr_lat = dec_val (lat p),
      pr_lng = dec_val (lng p), pr_tags = place_tags p, pr_avg = place_avg d p,
      pr_count = place_count d p\<rparr>"

text \<open>\<open>order_by("-reports_count", "name")\<close>.\<close>

definition api_order :: "place_row \<Rightarrow> int \<times> string" where
  "api_order r = (- int (pr_count r), pr_name r)"

definition places_api :: "string option \<Rightarrow> string option \<Rightarrow> string option \<Rightarrow> db \<Rightarrow> place_row list" where
  "places_api qv cv tv d =
     (let q = py_strip (get_param qv);
          commune = py_lower (py_strip (get_param cv));
          ts = api_tags tv;
          qs = places d;
          qs = (if commune \<noteq> [] \<and> place_has_commune then [] else qs);
          qs = filter (q_filter q) qs;
          qs = filter (tags_filter ts) qs
      in sort_key api_order (map (place_row_of d) qs))"

section \<open>\<open>dashboard_view\<close>\<close>

text \<open>\<open>order_by("-avg_rating", "name")\<close>: places without reports last.\<close>

definition dashboard_order :: "db \<Rightarrow> place \<Rightarrow> (nat \<times> rat) \<times> string" where
  "dashboard_order d p =
     ((case place_avg d p of None \<Rightarrow> (1, 0) | Some a \<Rightarrow> (0, - a)), name p)"

definition places_stats :: "db \<Rightarrow> (place \<times> rat option \<times> nat) list" where
  "places_stats d =
     map (\<lambda>p. (p, place_avg d p, place_count d p)) (sort_key (dashboard_order d) (places d))"

record tag_row =
  tr_tags :: string
  tr_total :: nat
  tr_avg :: rat

text \<open>\<open>Report.objects.values("tags").annotate(...)\<close>: one group per stored tags string.\<close>

definition tag_group :: "db \<Rightarrow> string \<Rightarrow> tag_row" where
  "tag_group d t =
     (let rs = filter (\<lambda>r. report_tags r = t) (reports d)
      in \<lparr>tr_tags = t, tr_total = length rs,
          tr_avg = (case sql_avg (map rating rs) of None \<Rightarrow> 0 | Some a \<Rightarrow> a)\<rparr>)"

definition tags_qs :: "db \<Rightarrow> tag_row list" where
  "tags_qs d =
     sort_key (\<lambda>g. (tr_avg g, tr_tags g)) (map (tag_group d) (remdups (map report_tags (reports d))))"

definition tag_labels :: "db \<Rightarrow> string list" where
  "tag_labels d = map (\<lambda>g. if tr_tags g = [] then ''Sin tag'' else tr_tags g) (tags_qs d)"

definition tag_counts :: "db \<Rightarrow> nat list" where
  "tag_counts d = map tr_total (tags_qs d)"

definition tag_avg_ratings :: "db \<Rightarrow> rat list" where
  "tag_avg_ratings d = map tr_avg (tags_qs d)"

text \<open>
  The context \<open>dashboard_view\<close> renders; the three \<open>*_json\<close> entries are
  \<open>json.dumps\<close> of the lists, kept here as the lists they encode.
\<close>

record dashboard_context =
  dc_places_stats :: "(place \<times> rat option \<times> nat) list"
  dc_tags_stats :: "tag_row list"
  dc_tag_labels :: "string list"
  dc_tag_counts :: "nat list"
  dc_tag_avg_ratings :: "rat list"

definition dashboard_view :: "db \<Rightarrow> response \<times> dashboard_context" where
  "dashboard_view d =
     (Render ''core/dashboard.html'',
      \<lparr>dc_places_stats = places_stats d, dc_tags_stats = tags_qs d, dc_tag_labels = tag_labels d,
       dc_tag_counts = tag_counts d, dc_tag_avg_ratings = tag_avg_ratings d\<rparr>)"

section \<open>Lemmas\<close>

lemma places_api_unfold:
  "places_api qv cv tv d =
     sort_key api_order (map (place_row_of d)
       (filter (\<lambda>p. q_filter (py_strip (get_param qv)) p \<and> tags_filter (api_tags tv) p) (places d)))"
  by (simp add: places_api_def place_has_commune_def Let_def conj_commute)

lemma place_avg_None_iff: "place_avg d p = None \<longleftrightarrow> place_count d p = 0"
  by (simp add: place_avg_def place_count_def)

lemma place_avg_bounds:
  assumes "\<forall>r \<in> set (reports d). 1 \<le> rating r \<and> rating r \<le> 5" and "place_avg d p = Some a"
  shows "1 \<le> a \<and> a \<le> 5"
  using sql_avg_bounds [of "map rating (place_reports d p)" a 1 5] assms
  by (auto simp: place_avg_def place_reports_def)

lemma sum_list_group_lengths:
  assumes "distinct ts" and "f ` set xs \<subseteq> set ts"
  shows "sum_list (map (\<lambda>t. length (filter (\<lambda>r. f r = t) xs)) ts) = length xs"
  using assms(2)
proof (induction xs)
  case Nil
  show ?case by (induction ts) simp_all
next
  case (Cons x xs)
  have one: "sum_list (map (\<lambda>t. if f x = t then 1 else 0) ts) = (1::nat)"
    using Cons.prems assms(1) by (simp add: sum_list_distinct_conv_sum_set sum.delta)
  have "sum_list (map (\<lambda>t. length (filter (\<lambda>r. f r = t) (x # xs))) ts) =
        sum_list (map (\<lambda>t. if f x = t then 1 else 0) ts) +
        sum_list (map (\<lambda>t. length (filter (\<lambda>r. f r = t) xs)) ts)"
    by (simp add: sum_list_addf [symmetric]) (rule arg_cong [where f = sum_list], rule map_cong, simp_all)
  with one Cons show ?case by simp
qed

lemma tags_qs_groups:
  "mset (tags_qs d) = mset (map (tag_group d) (remdups (map report_tags (reports d))))"
  by (simp add: tags_qs_def)

lemma tag_group_avg:
  "t \<in> report_tags ` set (reports d) \<Longrightarrow>
     sql_avg (map rating (filter (\<lambda>r. report_tags r = t) (reports d))) = Some (tr_avg (tag_group d t))"
  by (auto simp: tag_group_def Let_def filter_empty_conv split: option.splits)

text \<open>The example database of the specification: a place with the tag \<open>ascensor\<close> and one report of rating 4, and a place with the tag \<open>rampa\<close> and none.\<close>

definition api_db :: db where
  "api_db = empty_db\<lparr>
     places := [\<lparr>place_pk = 1, name = ''Plaza Baquedano'', address = ''Providencia'',
                 lat = \<lparr>coeff = -33520000, exponent = -6\<rparr>, lng = \<lparr>coeff = -70770000, exponent = -6\<rparr>,
                 place_tags = ''ascensor'', place_created_at = 0\<rparr>,
                \<lparr>place_pk = 2, name = ''Plaza Maipu'', address = ''Pajaritos'',
                 lat = \<lparr>coeff = -33520000, exponent = -6\<rparr>, lng = \<lparr>coeff = -70770000, exponent = -6\<rparr>,
                 place_tags = ''rampa'', place_created_at = 0\<rparr>],
     reports := [\<lparr>report_pk = 3, report_place = 1, report_author = 4, description = [], rating = 4,
                  report_tags = ''ascensor'', photo = None, report_created_at = 0\<rparr>],
     next_pk := 5\<rparr>"

lemmas api_eval = places_api_unfold q_filter_def tags_filter_def api_tags_def get_param_def
  place_row_of_def place_avg_def place_count_def place_reports_def sql_avg_def api_order_def
  py_strip_def py_lstrip_def py_rstrip_def py_isspace_def icontains_def sql_lower_char_def py_lower_def py_lower_char_def
  api_db_def empty_db_def dec_val_def

section \<open>Properties of the Query/Aggregation layer\<close>

text \<open>
  C25. Each row carries the mean rating of the place's reports and their number; the mean is
  null exactly when there is no report, and lies between 1 and 5 while the stored ratings do.
\<close>

theorem places_api_stats:
  assumes "r \<in> set (places_api qv cv tv d)" and "\<forall>x \<in> set (reports d). 1 \<le> rating x \<and> rating x \<le> 5"
  shows "\<exists>p \<in> set (places d). pr_id r = place_pk p \<and>
           pr_count r = length (filter (\<lambda>x. report_place x = place_pk p) (reports d)) \<and>
           pr_avg r = sql_avg (map rating (filter (\<lambda>x. report_place x = place_pk p) (reports d))) \<and>
           (pr_avg r = None \<longleftrightarrow> pr_count r = 0) \<and>
           (\<forall>a. pr_avg r = Some a \<longrightarrow> 1 \<le> a \<and> a \<le> 5)"
proof -
  from assms(1) obtain p where p: "p \<in> set (places d)" and r: "r = place_row_of d p"
    by (auto simp: places_api_unfold)
  have "\<forall>a. place_avg d p = Some a \<longrightarrow> 1 \<le> a \<and> a \<le> 5"
    using place_avg_bounds [OF assms(2)] by blast
  with p r show ?thesis
    by (auto simp: place_row_of_def place_avg_None_iff place_avg_def place_count_def place_reports_def)
qed

text \<open>
  The example of the specification: filtering by \<open>tags=ascensor\<close> answers the one
  place with mean 4 and one report; filtering by \<open>tags=rampa\<close> answers the other place,
  with a null mean and no report.
\<close>

theorem places_api_spec_example:
  "map (\<lambda>r. (pr_name r, pr_avg r, pr_count r)) (places_api None None (Some ''ascensor'') api_db) =
     [(''Plaza Baquedano'', Some 4, 1)] \<and>
   map (\<lambda>r. (pr_name r, pr_avg r, pr_count r)) (places_api None None (Some ''rampa'') api_db) =
     [(''Plaza Maipu'', None, 0)]"
  by (simp add: api_eval)

theorem places_api_stats_witness:
  "pr_avg (hd (places_api None None (Some ''ascensor'') api_db)) = Some 4 \<and>
   pr_count (hd (places_api None None (Some ''ascensor'') api_db)) = 1"
proof -
  have m: "hd (places_api None None (Some ''ascensor'') api_db) \<in> set (places_api None None (Some ''ascensor'') api_db)"
    by (simp add: api_eval)
  have h: "\<forall>x \<in> set (reports api_db). 1 \<le> rating x \<and> rating x \<le> 5" by (simp add: api_db_def empty_db_def)
  obtain p where "p \<in> set (places api_db)"
    and "pr_count (hd (places_api None None (Some ''ascensor'') api_db)) = length (filter (\<lambda>x. report_place x = place_pk p) (reports api_db))"
    and "pr_avg (hd (places_api None None (Some ''ascensor'') api_db)) = sql_avg (map rating (filter (\<lambda>x. report_place x = place_pk p) (reports api_db)))"
    and "pr_id (hd (places_api None None (Some ''ascensor'') api_db)) = place_pk p"
    using places_api_stats [OF m h] by blast
  moreover have "pr_id (hd (places_api None None (Some ''ascensor'') api_db)) = 1" by (simp add: api_eval)
  ultimately show ?thesis by (auto simp: api_db_def empty_db_def sql_avg_def)
qed

text \<open>
  The dashboard groups the reports by their literal tags string: one group per distinct
  string, the counts add up to the number of reports, each group carries the count and mean
  rating of its reports, and the groups come in ascending order of mean.
\<close>

theorem dashboard_tag_groups:
  "distinct (map tr_tags (tags_qs d)) \<and>
   set (map tr_tags (tags_qs d)) = report_tags ` set (reports d) \<and>
   sum_list (tag_counts d) = length (reports d) \<and>
   sorted (tag_avg_ratings d) \<and>
   list_all (\<lambda>g. tr_total g = length (filter (\<lambda>r. report_tags r = tr_tags g) (reports d)) \<and>
                 sql_avg (map rating (filter (\<lambda>r. report_tags r = tr_tags g) (reports d))) = Some (tr_avg g))
     (tags_qs d)"
proof -
  have tt: "tr_tags (tag_group d t) = t" for t by (simp add: tag_group_def Let_def)
  have mt: "mset (map tr_tags (tags_qs d)) = mset (remdups (map report_tags (reports d)))"
    by (simp add: tags_qs_def multiset.map_comp comp_def tt)
  have c1: "distinct (map tr_tags (tags_qs d))"
    using mset_eq_imp_distinct_iff [OF mt] by simp
  have st: "set (tags_qs d) = tag_group d ` report_tags ` set (reports d)"
    by (simp add: tags_qs_def)
  have c2: "set (map tr_tags (tags_qs d)) = report_tags ` set (reports d)"
    using st by (simp add: image_image tt)
  have "sum_list (tag_counts d) =
      sum_list (map (\<lambda>t. length (filter (\<lambda>r. report_tags r = t) (reports d))) (remdups (map report_tags (reports d))))"
    unfolding tag_counts_def sum_mset_sum_list [symmetric]
    by (simp add: tags_qs_def tag_group_def Let_def multiset.map_comp comp_def)
  then have c3: "sum_list (tag_counts d) = length (reports d)"
    by (simp add: sum_list_group_lengths)
  have "sorted (map (\<lambda>g. (tr_avg g, tr_tags g)) (tags_qs d))" by (simp add: tags_qs_def)
  then have c4: "sorted (tag_avg_ratings d)"
    unfolding tag_avg_ratings_def sorted_map
    by (rule sorted_wrt_mono_rel [of _ "\<lambda>x y. (tr_avg x, tr_tags x) \<le> (tr_avg y, tr_tags y)", rotated])
       (auto simp: less_eq_prod_def)
  have c5: "list_all (\<lambda>g. tr_total g = length (filter (\<lambda>r. report_tags r = tr_tags g) (reports d)) \<and>
                 sql_avg (map rating (filter (\<lambda>r. report_tags r = tr_tags g) (reports d))) = Some (tr_avg g))
     (tags_qs d)"
    unfolding list_all_iff st using tag_group_avg
    by (auto simp: tt) (simp add: tag_group_def Let_def)
  from c1 c2 c3 c4 c5 show ?thesis by blast
qed

text \<open>
  The pieces of the \<open>tags\<close> parameter are not stripped: \<open>tags=rampa,ascensor\<close>
  finds both places of the example, but \<open>tags=rampa, ascensor\<close> (with a space) looks
  for the substring \<open> ascensor\<close> and misses the place tagged \<open>ascensor\<close>.
\<close>

theorem places_api_tag_pieces_unstripped:
  "api_tags (Some ''rampa, ascensor'') = [''rampa'', '' ascensor''] \<and>
   map pr_name (places_api None None (Some ''rampa,ascensor'') api_db) = [''Plaza Baquedano'', ''Plaza Maipu''] \<and>
   map pr_name (places_api None None (Some ''rampa, ascensor'') api_db) = [''Plaza Maipu'']"
  by (simp add: api_eval)

end
