(* ===== verification/Listings.thy ===== *)
theory Listings
  imports Aggregation
begin

text \<open>
  The report listings \<open>reports_view\<close> (\<open>src/core/views.py\<close>, lines 37--72) and
  \<open>my_reports_view\<close> (lines 75--112): the order parameter \<open>orden\<close> (\<open>oldest\<close>, anything
  else meaning newest first), the date range \<open>desde\<close>/\<open>hasta\<close> compared with the date of
  \<open>created_at\<close>, and the limits 24 and 50.

  A date parameter reaches the ORM as a string; \<open>DateField.to_python\<close> parses it with
  \<open>django.utils.dateparse.parse_date\<close>, whose pattern is four digits, a dash, one or two
  digits, a dash, one or two digits, and then \<open>datetime.date\<close>, which needs a real
  calendar date with a year of at least 1.  Anything else raises \<open>ValidationError\<close> while
  the query is built, which the view does not catch: the request fails with a server
  error.  (Python 3.11's \<open>date.fromisoformat\<close>, which \<open>parse_date\<close> tries first, also
  accepts the compact ISO forms; the model follows the pattern, which is all Python 3.10
  accepts.)  A timestamp counts seconds since 1970-01-01 in the current time zone, and its
  date is the day it falls on, counted by \<open>days_from_civil\<close>.
\<close>

section \<open>Dates\<close>

definition is_leap :: "int \<Rightarrow> bool" where
  "is_leap y \<longleftrightarrow> (y mod 4 = 0 \<and> y mod 100 \<noteq> 0) \<or> y mod 400 = 0"

definition days_in_month :: "int \<Rightarrow> int \<Rightarrow> int" where
  "days_in_month y m =
     (if m = 2 then (if is_leap y then 29 else 28)
      else if m \<in> {4, 6, 9, 11} then 30 else 31)"

text \<open>Days from 1970-01-01 to a civil date (the proleptic Gregorian calendar of \<open>datetime\<close>).\<close>

definition days_from_civil :: "int \<times> int \<times> int \<Rightarrow> int" where
  "days_from_civil ymd =
     (case ymd of (y, m, d) \<Rightarrow>
        let y' = (if m \<le> 2 then y - 1 else y);
            era = y' div 400;
            yoe = y' - era * 400;
            mp = (if 2 < m then m - 3 else m + 9);
            doy = (153 * mp + 2) div 5 + d - 1;
            doe = yoe * 365 + yoe div 4 - yoe div 100 + doy
        in era * 146097 + doe - 719468)"

text \<open>\<open>\\d{n,k}\<close>: between \<open>n\<close> and \<open>k\<close> ASCII digits (the only decimal digits of Latin-1).\<close>

definition digit_run :: "nat \<Rightarrow> nat \<Rightarrow> string \<Rightarrow> bool" where
  "digit_run lo hi s \<longleftrightarrow> lo \<le> length s \<and> length s \<le> hi \<and> list_all is_digit s"

text \<open>\<open>parse_date\<close>: \<open>date_re.match\<close>, then \<open>datetime.date(year, month, day)\<close>.\<close>

definition parse_date :: "string \<Rightarrow> (int \<times> int \<times> int) option" where
  "parse_date s =
     (case py_split CHR ''-'' s of
        [ys, ms, ds] \<Rightarrow>
          if digit_run 4 4 ys \<and> digit_run 1 2 ms \<and> digit_run 1 2 ds
          then (let y = int (digits_val 0 ys); m = int (digits_val 0 ms); d = int (digits_val 0 ds)
                in if 1 \<le> y \<and> 1 \<le> m \<and> m \<le> 12 \<and> 1 \<le> d \<and> d \<le> days_in_month y m
                   then Some (y, m, d) else None)
          else None
      | _ \<Rightarrow> None)"

definition ts_day :: "timestamp \<Rightarrow> int" where
  "ts_day t = int (t div 86400)"

section \<open>The reference calendar\<close>

text \<open>
  Python's \<open>date.toordinal\<close> counts the days the plain way: the days of the whole years
  before, of the whole months before, then the day (1 on 0001-01-01).  \<open>year_days\<close> is
  the count of the first \<open>y\<close> years in closed form.
\<close>

primrec days_before_year :: "nat \<Rightarrow> int" where
  "days_before_year 0 = 0"
| "days_before_year (Suc n) = days_before_year n + (if is_leap (int (Suc n)) then 366 else 365)"

primrec days_before_month :: "int \<Rightarrow> nat \<Rightarrow> int" where
  "days_before_month y 0 = 0"
| "days_before_month y (Suc k) = days_before_month y k + days_in_month y (int (Suc k))"

definition toordinal :: "int \<times> int \<times> int \<Rightarrow> int" where
  "toordinal ymd =
     (case ymd of (y, m, d) \<Rightarrow> days_before_year (nat (y - 1)) + days_before_month y (nat (m - 1)) + d)"

definition year_days :: "int \<Rightarrow> int" where
  "year_days y = 365 * y + y div 4 - y div 100 + y div 400"

section \<open>The listings\<close>

text \<open>
  One optional bound of the range: \<open>None\<close> when the parameter is empty (no filter),
  \<open>Some None\<close> when it is not a date (the query raises), \<open>Some (Some day)\<close> otherwise.
\<close>

definition date_bound :: "string option \<Rightarrow> int option option" where
  "date_bound v =
     (let s = py_strip (get_param v)
      in if s = [] then None else Some (map_option days_from_civil (parse_date s)))"

definition in_bounds :: "int option \<Rightarrow> int option \<Rightarrow> report \<Rightarrow> bool" where
  "in_bounds lo hi r \<longleftrightarrow>
     (case lo of None \<Rightarrow> True | Some a \<Rightarrow> a \<le> ts_day (report_created_at r)) \<and>
     (case hi of None \<Rightarrow> True | Some b \<Rightarrow> ts_day (report_created_at r) \<le> b)"

text \<open>\<open>order = (request.GET.get("orden") or "newest").strip()\<close>.\<close>

definition listing_order :: "string option \<Rightarrow> string" where
  "listing_order v =
     (if py_strip (case py_or v (Some ''newest'') of None \<Rightarrow> [] | Some s \<Rightarrow> s) = ''oldest''
      then ''oldest'' else ''newest'')"

text \<open>
  The sort key of \<open>qs.order_by(DATE_FIELD)\<close> and \<open>qs.order_by("-" + DATE_FIELD)\<close>:
  ascending order of the key.
\<close>

definition listing_key :: "string option \<Rightarrow> report \<Rightarrow> int" where
  "listing_key ov r = (if listing_order ov = ''oldest'' then int (report_created_at r) else - int (report_created_at r))"

text \<open>A bound that is present and a date.\<close>

definition bound_day :: "int option option \<Rightarrow> int option" where
  "bound_day b = (case b of Some (Some x) \<Rightarrow> Some x | _ \<Rightarrow> None)"

text \<open>
  The body both listings share: the reports \<open>P\<close> selects, ordered by \<open>created_at\<close>
  ascending or descending, restricted to the date range, at most \<open>limit\<close> of them.  Building
  the query raises on the first bound that is not a date.
\<close>

definition report_listing ::
  "nat \<Rightarrow> (report \<Rightarrow> bool) \<Rightarrow> string option \<Rightarrow> string option \<Rightarrow> string option \<Rightarrow> db \<Rightarrow> response \<times> report list" where
  "report_listing limit P ov fv tv d =
     (let qs = filter P (reports d);
          qs = (if listing_order ov = ''oldest'' then sort_key report_created_at qs
                else sort_key (\<lambda>r. - int (report_created_at r)) qs)
      in if date_bound fv = Some None \<or> date_bound tv = Some None then (ServerError, [])
         else (Render ''core/reports.html'',
               take limit (filter (in_bounds (bound_day (date_bound fv)) (bound_day (date_bound tv))) qs)))"

definition reports_view :: "string option \<Rightarrow> string option \<Rightarrow> string option \<Rightarrow> db \<Rightarrow> response \<times> report list" where
  "reports_view ov fv tv d = report_listing 24 (\<lambda>_. True) ov fv tv d"

definition my_reports_view ::
  "user_id \<Rightarrow> string option \<Rightarrow> string option \<Rightarrow> string option \<Rightarrow> db \<Rightarrow> response \<times> report list" where
  "my_reports_view u ov fv tv d = report_listing 50 (\<lambda>r. report_author r = u) ov fv tv d"

text \<open>Three reports: two of user 1 (June 2024 and 2020), one of user 2 (June 2024).\<close>

definition demo_listing_db :: db where
  "demo_listing_db = empty_db\<lparr>reports :=
     [\<lparr>report_pk = 1, report_place = 1, report_author = 1, description = [], rating = 4,
       report_tags = [], photo = None, report_created_at = 1717200000\<rparr>,
      \<lparr>report_pk = 2, report_place = 1, report_author = 2, description = [], rating = 2,
       report_tags = [], photo = None, report_created_at = 1717300000\<rparr>,
      \<lparr>report_pk = 3, report_place = 1, report_author = 1, description = [], rating = 5,
       report_tags = [], photo = None, report_created_at = 1600000000\<rparr>]\<rparr>"

section \<open>Lemmas\<close>

text \<open>The calendar against known dates: the epoch, a leap day, a day after it, a non-leap year.\<close>

lemma date_examples:
  "days_from_civil (1970, 1, 1) = 0" "days_from_civil (2024, 3, 1) = 19783"
  "parse_date ''2024-2-29'' = Some (2024, 2, 29)" "parse_date ''2023-02-29'' = None"
  "parse_date ''2024-13-01'' = None" "parse_date ''abc'' = None" "parse_date ''0000-01-01'' = None"
  by (simp_all add: days_from_civil_def parse_date_def digit_run_def is_digit_def days_in_month_def is_leap_def)

lemma report_listing_cases:
  "report_listing limit P ov fv tv d =
     (if date_bound fv = Some None \<or> date_bound tv = Some None then (ServerError, [])
      else (Render ''core/reports.html'',
            take limit (filter (in_bounds (bound_day (date_bound fv)) (bound_day (date_bound tv)))
              (sort_key (listing_key ov) (filter P (reports d))))))"
proof (cases "listing_order ov = ''oldest''")
  case True
  then have k: "listing_key ov = (\<lambda>r. int (report_created_at r))" by (simp add: listing_key_def fun_eq_iff)
  have "strict_mono (int :: nat \<Rightarrow> int)" by (simp add: strict_mono_def)
  then have "sort_key (\<lambda>r. int (report_created_at r)) xs = sort_key report_created_at xs" for xs :: "report list"
    by (rule sort_key_strict_mono)
  with True show ?thesis by (simp add: report_listing_def Let_def k)
next
  case False
  then have k: "listing_key ov = (\<lambda>r. - int (report_created_at r))" by (simp add: listing_key_def fun_eq_iff)
  with False show ?thesis by (simp add: report_listing_def Let_def)
qed

lemma take_sorted_le_rest:
  assumes "sorted (map f xs)" and "s \<in> set (take n xs)" and "r \<in> set xs" and "r \<notin> set (take n xs)"
  shows "f s \<le> f r"
proof -
  have "r \<in> set (drop n xs)" using assms(3,4) by (metis Un_iff append_take_drop_id set_append)
  moreover have "sorted (map f (take n xs) @ map f (drop n xs))"
    using assms(1) by (metis append_take_drop_id map_append)
  ultimately show ?thesis using assms(2) by (auto simp: sorted_append)
qed

text \<open>
  On valid dates a listing shows the first \<open>limit\<close> reports of the selection in its
  order: all of them when there are fewer, and none that a report left out precedes.
\<close>

lemma report_listing_valid:
  assumes "\<not> (date_bound fv = Some None \<or> date_bound tv = Some None)"
    and "sel = filter (\<lambda>r. P r \<and> in_bounds (bound_day (date_bound fv)) (bound_day (date_bound tv)) r) (reports d)"
  shows "fst (report_listing limit P ov fv tv d) = Render ''core/reports.html'' \<and>
         set (snd (report_listing limit P ov fv tv d)) \<subseteq> set sel \<and>
         length (snd (report_listing limit P ov fv tv d)) = min limit (length sel) \<and>
         sorted (map (listing_key ov) (snd (report_listing limit P ov fv tv d))) \<and>
         (\<forall>r \<in> set sel. r \<notin> set (snd (report_listing limit P ov fv tv d)) \<longrightarrow>
            (\<forall>s \<in> set (snd (report_listing limit P ov fv tv d)). listing_key ov s \<le> listing_key ov r))"
proof -
  let ?inb = "in_bounds (bound_day (date_bound fv)) (bound_day (date_bound tv))"
  let ?ys = "filter ?inb (sort_key (listing_key ov) (filter P (reports d)))"
  have l: "report_listing limit P ov fv tv d = (Render ''core/reports.html'', take limit ?ys)"
    using assms(1) by (simp add: report_listing_cases)
  have sy: "sorted (map (listing_key ov) ?ys)"
    using sorted_sort_key [of "listing_key ov" "filter P (reports d)"]
    by (simp add: sorted_map sorted_wrt_filter)
  have st: "set ?ys = set sel" using assms(2) by auto
  have "mset ?ys = mset sel" using assms(2) by (simp add: mset_filter filter_filter_mset)
  then have len: "length ?ys = length sel" by (metis size_mset)
  show ?thesis
    unfolding l using sy st len take_sorted_le_rest [OF sy]
    by (auto simp: sorted_map_take_filter [of _ _ _ "\<lambda>_. True", simplified] dest: in_set_takeD)
qed

lemma div_step:
  fixes y k :: int
  assumes "1 < k"
  shows "y div k = (y - 1) div k + (if y mod k = 0 then 1 else 0)"
proof -
  define q where "q = (y - 1) div k"
  define r where "r = (y - 1) mod k"
  have r: "0 \<le> r" "r < k" using assms by (simp_all add: r_def)
  have "y - 1 = q * k + r" using div_mult_mod_eq [of "y - 1" k] by (simp add: q_def r_def)
  then have y: "y = (r + 1) + q * k" by simp
  have k: "k \<noteq> 0" using assms by simp
  have dm: "y div k = q + (r + 1) div k" "y mod k = (r + 1) mod k"
    using div_mult_self1 [OF k, of "r + 1" q] mod_mult_self1 [of "r + 1" q k] y by simp_all
  show ?thesis
  proof (cases "r + 1 = k")
    case True
    with dm k show ?thesis by (simp add: q_def)
  next
    case False
    with r have "0 \<le> r + 1" "r + 1 < k" "r + 1 \<noteq> 0" by auto
    with dm show ?thesis by (simp add: q_def div_pos_pos_trivial mod_pos_pos_trivial)
  qed
qed

lemma year_days_step: "year_days y = year_days (y - 1) + (if is_leap y then 366 else 365)"
proof -
  have m: "y mod 400 = 0 \<Longrightarrow> y mod 100 = 0" "y mod 100 = 0 \<Longrightarrow> y mod 4 = 0"
    by (auto simp: mod_eq_0_iff_dvd elim: dvd_trans [rotated])
  have d4: "y div 4 = (y - 1) div 4 + (if y mod 4 = 0 then 1 else 0)" by (rule div_step) simp
  have d100: "y div 100 = (y - 1) div 100 + (if y mod 100 = 0 then 1 else 0)" by (rule div_step) simp
  have d400: "y div 400 = (y - 1) div 400 + (if y mod 400 = 0 then 1 else 0)" by (rule div_step) simp
  show ?thesis
    unfolding year_days_def is_leap_def d4 d100 d400
    using m by (cases "y mod 4 = 0"; cases "y mod 100 = 0"; cases "y mod 400 = 0") simp_all
qed

lemma days_before_year_closed: "days_before_year n = year_days (int n)"
proof (induction n)
  case 0
  then show ?case by (simp add: year_days_def)
next
  case (Suc n)
  then show ?case using year_days_step [of "int (Suc n)"] by simp
qed

lemma year_days_era:
  "y div 400 * 146097 + ((y - y div 400 * 400) * 365 + (y - y div 400 * 400) div 4 - (y - y div 400 * 400) div 100)
     = year_days y"
proof -
  define e where "e = y div 400"
  define r where "r = y - y div 400 * 400"
  have y: "y = r + e * 400" by (simp add: e_def r_def)
  have "y div 4 = e * 100 + r div 4"
    using div_mult_self1 [of 4 r "e * 100"] y by (simp add: mult.assoc)
  moreover have "y div 100 = e * 4 + r div 100"
    using div_mult_self1 [of 100 r "e * 4"] y by (simp add: mult.assoc)
  moreover have "y div 400 = e" by (simp add: e_def)
  ultimately show ?thesis
    unfolding year_days_def e_def [symmetric] r_def [symmetric] by (subst (1 2) y) simp
qed

lemma days_from_civil_year_days:
  "days_from_civil (y, m, d) =
     year_days (if m \<le> 2 then y - 1 else y) + (153 * (if 2 < m then m - 3 else m + 9) + 2) div 5 + d - 1 - 719468"
  using year_days_era [of "if m \<le> 2 then y - 1 else y"]
  unfolding days_from_civil_def Let_def by simp

section \<open>Properties of the report listings\<close>

text \<open>
  C26. \<open>my_reports_view\<close> answers a server error exactly when a date parameter is present
  but not a date (\<open>?desde=2024-13-01\<close>); otherwise it shows the user's own reports that
  fall inside the date range, in the order asked for (\<open>orden=oldest\<close>: oldest first;
  anything else: newest first), all of them up to 50, and when there are more the first
  50 of that order.
\<close>

theorem my_reports_view_spec:
  "(fst (my_reports_view u ov fv tv d) = ServerError \<longleftrightarrow>
      date_bound fv = Some None \<or> date_bound tv = Some None) \<and>
   (\<not> (date_bound fv = Some None \<or> date_bound tv = Some None) \<longrightarrow>
      set (snd (my_reports_view u ov fv tv d)) \<subseteq>
        {r \<in> set (reports d). report_author r = u \<and> in_bounds (bound_day (date_bound fv)) (bound_day (date_bound tv)) r} \<and>
      length (snd (my_reports_view u ov fv tv d)) =
        min 50 (length (filter (\<lambda>r. report_author r = u \<and>
                  in_bounds (bound_day (date_bound fv)) (bound_day (date_bound tv)) r) (reports d))) \<and>
      sorted (map (listing_key ov) (snd (my_reports_view u ov fv tv d))) \<and>
      (\<forall>r \<in> set (reports d). report_author r = u \<and> in_bounds (bound_day (date_bound fv)) (bound_day (date_bound tv)) r \<and>
          r \<notin> set (snd (my_reports_view u ov fv tv d)) \<longrightarrow>
          (\<forall>s \<in> set (snd (my_reports_view u ov fv tv d)). listing_key ov s \<le> listing_key ov r)))"
proof (cases "date_bound fv = Some None \<or> date_bound tv = Some None")
  case True
  then show ?thesis by (simp add: my_reports_view_def report_listing_cases)
next
  case False
  from report_listing_valid [where P = "\<lambda>r. report_author r = u" and limit = 50 and ov = ov and d = d, OF False refl] False show ?thesis
    by (auto simp: my_reports_view_def)
qed

theorem my_reports_view_spec_witness:
  "\<not> (date_bound (Some ''2024-01-01'') = Some None \<or> date_bound None = Some None) \<and>
   fst (my_reports_view 1 None (Some ''2024-01-01'') None demo_listing_db) \<noteq> ServerError \<and>
   map report_pk (snd (my_reports_view 1 None (Some ''2024-01-01'') None demo_listing_db)) = [1]"
proof -
  have b: "date_bound (Some ''2024-01-01'') = Some (Some 19723)" "date_bound None = None"
    by (simp_all add: date_bound_def get_param_def parse_date_def digit_run_def is_digit_def
        days_in_month_def is_leap_def days_from_civil_def py_strip_def py_lstrip_def py_rstrip_def py_isspace_def)
  have "map report_pk (snd (my_reports_view 1 None (Some ''2024-01-01'') None demo_listing_db)) = [1]"
    by (simp add: my_reports_view_def report_listing_cases b demo_listing_db_def empty_db_def
        in_bounds_def bound_day_def ts_day_def listing_key_def listing_order_def)
  with b my_reports_view_spec [of 1 None "Some ''2024-01-01''" None demo_listing_db] show ?thesis by simp
qed

text \<open>
  C27. \<open>reports_view\<close> answers a server error exactly when a date parameter is present but
  not a date; otherwise it shows the reports of every user inside the date range, in the
  order asked for, all of them up to 24, and when there are more the first 24 of that
  order.
\<close>

theorem reports_view_spec:
  "(fst (reports_view ov fv tv d) = ServerError \<longleftrightarrow>
      date_bound fv = Some None \<or> date_bound tv = Some None) \<and>
   (\<not> (date_bound fv = Some None \<or> date_bound tv = Some None) \<longrightarrow>
      set (snd (reports_view ov fv tv d)) \<subseteq>
        {r \<in> set (reports d). in_bounds (bound_day (date_bound fv)) (bound_day (date_bound tv)) r} \<and>
      length (snd (reports_view ov fv tv d)) =
        min 24 (length (filter (in_bounds (bound_day (date_bound fv)) (bound_day (date_bound tv))) (reports d))) \<and>
      sorted (map (listing_key ov) (snd (reports_view ov fv tv d))) \<and>
      (\<forall>r \<in> set (reports d). in_bounds (bound_day (date_bound fv)) (bound_day (date_bound tv)) r \<and>
          r \<notin> set (snd (reports_view ov fv tv d)) \<longrightarrow>
          (\<forall>s \<in> set (snd (reports_view ov fv tv d)). listing_key ov s \<le> listing_key ov r)))"
proof (cases "date_bound fv = Some None \<or> date_bound tv = Some None")
  case True
  then show ?thesis by (simp add: reports_view_def report_listing_cases)
next
  case False
  from report_listing_valid [where P = "\<lambda>_. True" and limit = 24 and ov = ov and d = d, OF False refl] False show ?thesis
    by (auto simp: reports_view_def)
qed

theorem reports_view_spec_witness:
  "date_bound (Some ''2024-13-01'') = Some None \<and>
   fst (reports_view None None (Some ''2024-13-01'') demo_listing_db) = ServerError"
proof -
  have b: "date_bound (Some ''2024-13-01'') = Some None"
    by (simp add: date_bound_def get_param_def parse_date_def digit_run_def is_digit_def
        py_strip_def py_lstrip_def py_rstrip_def py_isspace_def)
  with reports_view_spec [of None None "Some ''2024-13-01''" demo_listing_db] show ?thesis by simp
qed

text \<open>
  The day number the date filters compare, \<open>days_from_civil\<close> (constant-time
  arithmetic on 400-year eras that start in March), is the plain count of Python's
  \<open>date.toordinal\<close> shifted to the epoch 1970-01-01 (ordinal 719163), for every date
  whose year is at least 1 and month between 1 and 12.
\<close>

theorem days_from_civil_toordinal:
  assumes "1 \<le> y" and "1 \<le> m" and "m \<le> 12"
  shows "days_from_civil (y, m, d) = toordinal (y, m, d) - 719163"
proof -
  have yd: "days_before_year (nat (y - 1)) = year_days (y - 1)"
    using assms(1) by (simp add: days_before_year_closed)
  have st: "year_days y = year_days (y - 1) + (if is_leap y then 366 else 365)" by (rule year_days_step)
  from assms(2,3) have "m = 1 \<or> m = 2 \<or> m = 3 \<or> m = 4 \<or> m = 5 \<or> m = 6 \<or> m = 7 \<or> m = 8 \<or>
                        m = 9 \<or> m = 10 \<or> m = 11 \<or> m = 12" by presburger
  then show ?thesis
    by (elim disjE) (simp_all add: days_from_civil_year_days toordinal_def yd st days_in_month_def
        numeral_eq_Suc)
qed

theorem days_from_civil_toordinal_witness:
  "days_from_civil (2024, 3, 1) = toordinal (2024, 3, 1) - 719163"
  using days_from_civil_toordinal [of 2024 3 1] by simp

end
