(* ===== verification/TemplateTags.thy ===== *)
theory TemplateTags
  imports Reports
begin

text \<open>
  The template tags of \<open>src/core/templatetags\<close>.  \<open>star_row\<close> (\<open>stars.py\<close>, lines
  5--15) turns a rating into a row of filled and empty stars; \<open>split_tags\<close> (lines
  17--22) turns a stored tags string into the list of its trimmed, non-empty pieces;
  \<open>active\<close> (\<open>nav_active.py\<close>, lines 4--10) marks the navigation entry of the current
  page.  The star glyphs U+2605 and U+2606 lie outside the \<open>char\<close> type, so a row is a
  list of the datatype \<open>star\<close>.  The template value handed to \<open>star_row\<close> is one of the
  Python values the templates pass: an \<open>int\<close>, a \<open>float\<close> (an average, finite, modelled
  by its exact value), a \<open>str\<close> or \<open>None\<close>.
\<close>

datatype star = Filled | Empty

datatype py_value = PyInt int | PyFloat rat | PyStr string | PyNone

text \<open>\<open>int(value)\<close>, or the value of the \<open>except\<close> branch, 0: a float is truncated toward
  zero, a string is parsed, \<open>int(None)\<close> raises \<open>TypeError\<close>.\<close>

definition star_int :: "py_value \<Rightarrow> int" where
  "star_int v =
     (case v of
        PyInt n \<Rightarrow> n
      | PyFloat x \<Rightarrow> (if 0 \<le> x then \<lfloor>x\<rfloor> else \<lceil>x\<rceil>)
      | PyStr s \<Rightarrow> (case py_int s of Some n \<Rightarrow> n | None \<Rightarrow> 0)
      | PyNone \<Rightarrow> 0)"

text \<open>\<open>s * n\<close> on a one-character string: empty when \<open>n \<le> 0\<close>.\<close>

definition py_repeat :: "int \<Rightarrow> 'a \<Rightarrow> 'a list" where
  "py_repeat n x = replicate (nat n) x"

definition star_row :: "py_value \<Rightarrow> int \<Rightarrow> star list" where
  "star_row value max_stars =
     (let v = star_int value;
          v = max 0 (min v max_stars)
      in py_repeat v Filled @ py_repeat (max_stars - v) Empty)"

text \<open>\<open>split_tags(s)\<close>: \<open>None\<close> and the empty string give the empty list.\<close>

definition split_tags :: "string option \<Rightarrow> string list" where
  "split_tags s =
     (case s of
        None \<Rightarrow> []
      | Some t \<Rightarrow> if t = [] then []
                  else map py_strip (filter (\<lambda>x. py_strip x \<noteq> []) (py_split CHR '','' t)))"

text \<open>
  \<open>active(context, url_name)\<close>: the URL name of the current request, \<open>None\<close> when the
  context has no request or the request was not resolved (the \<open>except\<close> branch) or the
  route has no name.
\<close>

definition active :: "string option \<Rightarrow> string \<Rightarrow> string" where
  "active current url_name = (if current = Some url_name then ''is-active'' else [])"

section \<open>Properties of the template tags\<close>

text \<open>
  C28. \<open>star_row\<close> always draws exactly \<open>max_stars\<close> stars (none when it is negative):
  first as many filled stars as the integer value of its argument, clamped to
  \<open>0..max_stars\<close>, then empty ones.
\<close>

theorem star_row_shape:
  "\<exists>k. int k = max 0 (min (star_int v) m) \<and>
       star_row v m = replicate k Filled @ replicate (nat m - k) Empty \<and>
       length (star_row v m) = nat m"
proof (intro exI conjI)
  let ?k = "nat (max 0 (min (star_int v) m))"
  show "int ?k = max 0 (min (star_int v) m)" by simp
  show "star_row v m = replicate ?k Filled @ replicate (nat m - ?k) Empty"
    by (simp add: star_row_def py_repeat_def Let_def nat_diff_distrib')
  then show "length (star_row v m) = nat m" by simp
qed

text \<open>
  C29. The template filter \<open>split_tags\<close> inverts the join of \<open>ReportForm.clean_tags\<close>:
  for pieces that are non-empty, trimmed and free of commas, splitting the stored string
  gives the pieces back.
\<close>

theorem split_tags_join_roundtrip:
  assumes "\<forall>t \<in> set ts. t \<noteq> [] \<and> py_strip t = t \<and> CHR '','' \<notin> set t"
  shows "split_tags (Some (py_join '','' ts)) = ts"
proof (cases "ts = []")
  case True
  then show ?thesis by (simp add: split_tags_def)
next
  case False
  with py_split_join_pieces [OF assms] assms show ?thesis
    by (simp add: split_tags_def filter_id_conv map_idI)
qed

theorem split_tags_join_roundtrip_witness:
  "split_tags (Some ''rampa,bano'') = [''rampa'', ''bano'']"
proof -
  have h: "\<forall>t \<in> set [''rampa'', ''bano'']. t \<noteq> [] \<and> py_strip t = t \<and> CHR '','' \<notin> set t"
    by (simp add: py_strip_def py_lstrip_def py_rstrip_def py_isspace_def)
  show ?thesis using split_tags_join_roundtrip [OF h] by simp
qed

end
