(* ===== verification/Spec2Isabelle.thy ===== *)
theory Spec2Isabelle
  imports System Listings TemplateTags Admin Urls
begin

text \<open>
  \<^bold>\<open>IncluiMap: a verification development.\<close>
  IncluiMap is a Django application (\<open>src/core\<close>, routed by \<open>src/config/urls.py\<close>) where
  users report and rate the accessibility of places in the commune of Maip\<acute>u, mark places
  as favorites, comment on reports and are notified of new reports on their favorite
  places.  This development models the application's logic as HOL functions over an
  explicit database and proves what makes it correct.

  \<^bold>\<open>State.\<close> The database is the record \<open>db\<close> (\<open>Models\<close>): one list per table
  (users, profiles, the favorites through table, places, reports, notifications, comments)
  in insertion order, the outbox of sent mail, and one key counter \<open>next_pk\<close> that every
  insert uses and increments.  Django models are records (\<open>place\<close>, \<open>report\<close>, ...),
  \<open>DecimalField\<close> values are \<open>decimal\<close> (coefficient and exponent, as Python's
  \<open>Decimal\<close>), Python strings are \<open>string\<close> with one \<open>char\<close> per Latin-1 code point.
  The database is SQLite (Django's default): \<open>LIKE\<close> folds ASCII letters only, integers
  are 64-bit, strings sort by code point.  A view is a function from its request data and
  the database to the response, the flash messages it adds and the new database; errors are
  values: \<open>Inl\<close> of a validation error list or of \<open>IntegrityError\<close>/\<open>OverflowError\<close>,
  \<open>NotFound\<close> for \<open>get_object_or_404\<close>, \<open>ServerError\<close> for an uncaught exception,
  \<open>BadRequest\<close> for a \<open>SuspiciousOperation\<close>.

  \<^bold>\<open>Components, theories and code.\<close>
  \<^item> \<open>Prelude\<close>: Python's \<open>str.strip\<close>, \<open>split\<close>, \<open>join\<close>, \<open>lower\<close>, \<open>in\<close> and
    \<open>int\<close> (with digit-group underscores), the ORM's \<open>icontains\<close> on SQLite and SQL
    \<open>AVG\<close>, with their lemmas (split/join round trip, \<open>in\<close> as \<open>sublist\<close>, bounds of a
    mean).
  \<^item> \<open>Models\<close>: the models of \<open>src/core/models.py\<close> and the lookups of the views.
  \<^item> \<open>Urls\<close>: the route table of \<open>src/config/urls.py\<close> (\<open>urlpatterns\<close>, lines
    9--78) as patterns of literal text and the \<open>int\<close> and \<open>str\<close> converters, Django's
    \<open>resolve\<close> (first pattern that matches the whole path; \<open>admin/\<close> an include),
    \<open>reverse\<close> (last pattern of the name, its converters filled by \<open>str()\<close>; the
    \<open>admin:\<close> names without arguments), and \<open>redirect(to)\<close>: \<open>resolve_url\<close>, then
    \<open>HttpResponseRedirect\<close>'s scheme and length checks.
  \<^item> \<open>Geofence\<close>: \<open>Place.clean\<close>, \<open>Place.save\<close> with the \<open>full_clean\<close> it runs
    (\<open>DecimalField(max_digits=9, decimal_places=6)\<close>, \<open>CharField\<close> limits) for inserts
    and updates (models.py 52--99).  \<open>float()\<close> is an exact rational; on coordinates the
    decimal field accepts (at most six decimals, below 1000) comparing the rounded doubles
    with the three-decimal bounds gives the same answer, and C1 and C2 are stated for such
    coordinates.
  \<^item> \<open>Favorites\<close>: the \<open>post_save\<close> profile receiver (models.py 39--49),
    \<open>toggle_favorite_place\<close> with \<open>redirect(next_url or "places")\<close>, \<open>favorites_view\<close>,
    \<open>places_view\<close> (views.py).
  \<^item> \<open>Notifications\<close>: the \<open>post_save\<close> receiver on \<open>Report\<close> with its join query,
    message, notification rows and mail attempts (models.py 145--198), the mail transport
    as a parameter \<open>ok\<close> that says whether a message is delivered; \<open>notifications_view\<close>.
  \<^item> \<open>Reports\<close>: \<open>ReportForm\<close> (forms.py 74--146) with the model check of
    \<open>_post_clean\<close> (\<open>tags\<close> at most 255 characters) and the stored photo an edit hands
    to \<open>clean_photo\<close>, the report insert with its database \<open>CHECK\<close> and SQLite's integer
    range, \<open>report_view\<close>, \<open>report_edit_view\<close>, \<open>report_delete_view\<close>, and the
    \<open>on_delete=CASCADE\<close> deletions of reports and places.
  \<^item> \<open>Comments\<close>: \<open>report_detail\<close> (views.py 482--522).
  \<^item> \<open>Aggregation\<close>: \<open>places_api\<close> and the statistics of \<open>dashboard_view\<close>.
  \<^item> \<open>Listings\<close>: \<open>reports_view\<close> and \<open>my_reports_view\<close> (views.py 37--112) with
    their order parameter, the date filters (Django's \<open>parse_date\<close>, the calendar of
    \<open>datetime.date\<close> as Hinnant's \<open>days_from_civil\<close>, shown equal to Python's
    \<open>date.toordinal\<close> count, the date of a timestamp) and limits.
  \<^item> \<open>TemplateTags\<close>: \<open>star_row\<close>, \<open>split_tags\<close> and \<open>active\<close>.
  \<^item> \<open>Accounts\<close>: \<open>SignupForm\<close> (forms.py 9--71: \<open>only_letters_spaces\<close>,
    \<open>clean_email\<close>, \<open>save\<close> with \<open>str.split\<close> and \<open>str.title\<close> on Latin-1),
    \<open>signup_view\<close>, \<open>profile_view\<close> with \<open>UserForm\<close>'s limits, \<open>normalize_email\<close> and
    the saves of \<open>UserForm\<close> and \<open>ProfileForm\<close>, its GET with \<open>get_or_create\<close>, and
    \<open>contact_view\<close> (views.py 236--410).  The checks Django makes itself (username,
    \<open>EmailValidator\<close>, passwords, the avatar's image check) are a parameter.  A name
    that \<open>title()\<close> lengthens can outgrow its column (\<open>signup_last_name_overflow\<close>).
  \<^item> \<open>Admin\<close>: what \<open>src/core/admin.py\<close> configures: the change lists of
    \<open>PlaceAdmin\<close> and \<open>ReportAdmin\<close> (search over \<open>search_fields\<close> across foreign keys,
    the rating filter, the ordering with Django's \<open>-pk\<close> tie-break, the columns) and
    \<open>ReportAdmin\<close>'s add and change forms over every editable field of \<open>Report\<close>.
  \<^item> \<open>System\<close>: the requests that write (\<open>request\<close>: sign-up, profile, contact,
    favorites, reports, comments, notifications, the admin's place saves and deletions and
    its report add, change and delete), \<open>step\<close> dispatching each to its view,
    \<open>reachable\<close> databases, the invariant \<open>db_inv\<close> with one preservation lemma per
    operation, the favorites table read as a relation \<open>fav_rel\<close> against its
    specification \<open>fav_spec\<close>, and sequences of requests (\<open>run\<close>).

  \<^bold>\<open>What is proved.\<close>  Each component theory ends with its properties, numbered C1 to
  C35: the geofence accepts exactly the box and reports both fields, and a stored
  coordinate fits its decimal field (C1--C3); the toggle flips membership, is undone by a
  second toggle, answers 404 for a missing place, follows any external \<open>next\<close> and
  answers 500 on a \<open>next\<close> that is no URL after saving the toggle (C4--C8); the fan-out
  notifies each follower but the author once, is independent of mail failures and writes
  the documented message, and opening the notifications marks them read (C9--C12); the
  report views keep ratings in 1--5, refuse bad ones, persist before they notify, never
  notify on edits, hide other users' reports, cascade deletions and refuse to edit a report
  that has a photo (C13--C19); deleting a place keeps every foreign key resolvable and
  deletes nothing beyond the cascade (C20); the admin stores any rating of the 64-bit range
  (C21); comments are stripped, appended once, and anonymous posts never write (C22--C24);
  \<open>places_api\<close> annotates each place with the count and mean of its ratings (C25); the
  two report listings fail exactly on a malformed date and otherwise show the first
  reports of their selection in the order asked for (C26--C27); the star row and the tag
  filter (C28--C29); every reachable database satisfies the invariant (C30, below), the
  favorites table refines its relational specification (C31), and every user can always
  withdraw all of their reports (C32, liveness); a sign-up stores one account with a fresh,
  lower-cased email no account has (C33), while the profile page lets an account take
  another's email (C34); every path \<open>reverse\<close> builds resolves back to its name and
  arguments (C35, round trip).  Every theorem with hypotheses has a witness that
  instantiates it on concrete data, mostly that of the repository's tests
  (\<open>src/core/tests.py\<close>, \<open>src/core/test_views.py\<close>) and of the specification's example.

  \<^bold>\<open>Bounds and fuel.\<close>  Every loop of the code runs over a finite query result and is
  modelled by structural recursion (\<open>fanout_loop\<close>, \<open>run\<close>) or by list functions, so
  no fuel is needed and every definition is total and executable; \<open>py_str_nat\<close>
  (\<open>str\<close> of an integer) recurses on \<open>n div 10\<close> with the measure \<open>n\<close>.  The listing
  limits of the code (24 and 50 reports, 100 places, 50 notifications) are kept as
  \<open>take\<close>; integers a form or the database bounds are checked against those bounds (the
  64-bit range of SQLite, the 2048 characters of a redirect).

  \<^bold>\<open>Not modelled.\<close>  Template rendering, static pages (\<open>map_view\<close>, \<open>about_view\<close>,
  the GET forms), login, logout and password reset (the \<open>django.contrib.auth\<close> views behind
  the routes of urls.py 36--74, which \<open>Urls\<close> does model), the \<open>static()\<close> media routes
  appended under \<open>DEBUG\<close>, the admin's messages and its forms for users and groups, file
  storage of photos and avatars (a photo is its name; a stored file is taken to exist),
  and the key sequences of the database (one shared counter stands for the per-table
  sequences: keys stay unique per table, which is all the code relies on).
  \<open>str.title()\<close> of a name whose word starts with the micro sign or y with diaeresis
  leaves Latin-1 and is outside the model (\<open>signup_post\<close> answers \<open>None\<close> and the step
  leaves the database as it is; the code stores the account, see
  \<open>signup_name_leaves_latin1\<close>), as is an admin search with quote characters.
  \<open>parse_date\<close> follows Python 3.10 (the pattern), not the compact ISO forms Python 3.11
  also accepts; \<open>urlsplit\<close> follows Python 3.12.  Timestamps are natural numbers; the
  clock is a parameter.
\<close>

section \<open>Properties of the whole application\<close>

text \<open>
  C30. Every database the application can reach from the empty one satisfies the
  invariant: unique keys below the key counter, exactly one profile per account, resolving
  foreign keys, no repeated favorites row, every place inside the box and every rating
  between 0 and \<open>2 ^ 63 - 1\<close> (the views store 1 to 5; the admin's report forms any
  rating of that range).
\<close>

theorem reachable_db_inv:
  assumes "reachable d"
  shows "db_inv d"
  using assms
proof (induction rule: reachable.induct)
  case init
  then show ?case by (rule empty_db_inv)
next
  case (step d req ok now)
  from step.IH step.hyps(2) show ?case by (rule step_inv)
qed

theorem reachable_db_inv_witness: "db_inv demo_db"
  using reachable_db_inv [OF run_reachable [OF reachable.init demo_run_ok]] by (simp add: demo_db_def)

end
